theory Spec2Isabelle
  imports Complex_Main "HOL-Library.Log_Nat"
begin

section \<open>JavaScript values after \<open>JSON.parse\<close>\<close>

text \<open>
  Both scripts work on the value that \<open>JSON.parse\<close> returns for one entity score
  file. A value is \<open>undefined\<close> (what reading a missing property gives), \<open>null\<close>, a
  boolean, a number, a string, an array or an object; an object is the list of its own
  properties, read with \<open>map_of\<close>.

  A number is an IEEE 754 binary64 value: \<open>NaN\<close>, one of the two infinities, or a
  finite double, kept as the rational it denotes. The two zeros are one value: the
  scripts never divide by a percent, and comparison, truthiness, \<open>Math.round\<close>,
  string conversion and \<open>JSON.stringify\<close> treat \<open>-0\<close> as \<open>0\<close>.
\<close>

datatype jsval =
    JUndefined
  | JNull
  | JBool bool
  | JNaN
  | JPosInf
  | JNegInf
  | JNum rat
  | JStr string
  | JArr "jsval list"
  | JObj "(string \<times> jsval) list"

datatype exn = TypeError | InvalidStructure

datatype 'a outcome = Returned 'a | Threw exn

datatype jstype = TUndefined | TObject | TBoolean | TNumber | TString

text \<open>
  What the scripts take from the JavaScript runtime and do not define themselves:
  the mathematical value of a numeric string (\<open>None\<close> when the string is no numeric
  literal; the literal \<open>Infinity\<close> counts as a value beyond every double), the
  printing of a finite number, whether \<open>Date\<close> can parse a string, and the clock.
  They are parameters of the model.
\<close>

record builtins =
  stringToNumber :: "string \<Rightarrow> rat option"
  numberToString :: "rat \<Rightarrow> string"
  dateParse :: "string \<Rightarrow> bool"
  nowISOString :: string

subsection \<open>Rounding to binary64\<close>

text \<open>
  \<open>exponentOf x\<close> is the exponent \<open>e\<close> with \<open>2^e \<le> |x| < 2^(e+1)\<close>, found from the
  bit lengths of numerator and denominator. A double has 53 significant bits and an
  exponent from -1022 (below it the spacing stays that of the subnormal numbers) to
  1023, so the doubles around \<open>x\<close> are \<open>ulpOf x\<close> apart. \<open>nearestDouble\<close> rounds to the
  nearest of them, a tie going to the even significand, and \<open>roundDouble\<close> is the
  result of an arithmetic operation whose exact value is \<open>x\<close>: rounding that reaches
  \<open>2^1024\<close> overflows to an infinity.
\<close>

definition exponentOf :: "rat \<Rightarrow> int" where
  "exponentOf x =
     (case quotient_of \<bar>x\<bar> of
        (p, q) \<Rightarrow>
          (if power_int 2 (bitlen p - bitlen q) \<le> \<bar>x\<bar> then bitlen p - bitlen q
           else bitlen p - bitlen q - 1))"

definition roundHalfEven :: "rat \<Rightarrow> int" where
  "roundHalfEven q =
     (if q - of_int \<lfloor>q\<rfloor> < 1 / 2 then \<lfloor>q\<rfloor>
      else if 1 / 2 < q - of_int \<lfloor>q\<rfloor> then \<lfloor>q\<rfloor> + 1
      else if even \<lfloor>q\<rfloor> then \<lfloor>q\<rfloor> else \<lfloor>q\<rfloor> + 1)"

definition ulpOf :: "rat \<Rightarrow> rat" where
  "ulpOf x = power_int 2 (max (exponentOf x) (- 1022) - 52)"

definition nearestDouble :: "rat \<Rightarrow> rat" where
  "nearestDouble x = of_int (roundHalfEven (x / ulpOf x)) * ulpOf x"

definition roundDouble :: "rat \<Rightarrow> jsval" where
  "roundDouble x =
     (if 2 ^ 1024 \<le> nearestDouble x then JPosInf
      else if nearestDouble x \<le> - (2 ^ 1024) then JNegInf
      else JNum (nearestDouble x))"

subsection \<open>Operators\<close>

fun truthy :: "jsval \<Rightarrow> bool" where
  "truthy JUndefined = False"
| "truthy JNull = False"
| "truthy (JBool b) = b"
| "truthy JNaN = False"
| "truthy JPosInf = True"
| "truthy JNegInf = True"
| "truthy (JNum r) = (r \<noteq> 0)"
| "truthy (JStr s) = (s \<noteq> [])"
| "truthy (JArr xs) = True"
| "truthy (JObj kvs) = True"

fun typeof :: "jsval \<Rightarrow> jstype" where
  "typeof JUndefined = TUndefined"
| "typeof JNull = TObject"
| "typeof (JBool b) = TBoolean"
| "typeof JNaN = TNumber"
| "typeof JPosInf = TNumber"
| "typeof JNegInf = TNumber"
| "typeof (JNum r) = TNumber"
| "typeof (JStr s) = TString"
| "typeof (JArr xs) = TObject"
| "typeof (JObj kvs) = TObject"

text \<open>Reading a property of \<open>undefined\<close> or \<open>null\<close> throws a TypeError.\<close>

fun nullish :: "jsval \<Rightarrow> bool" where
  "nullish JUndefined = True"
| "nullish JNull = True"
| "nullish v = False"

text \<open>
  \<open>x.name\<close> for a value that is not nullish and one of the property names the scripts
  read (\<open>entityRef\<close>, \<open>areaScores\<close>, \<open>scorePercent\<close>, ...): none of them is a property
  of a prototype, so only an object's own property is found.
\<close>

fun field :: "jsval \<Rightarrow> string \<Rightarrow> jsval" where
  "field (JObj kvs) name = (case map_of kvs name of None \<Rightarrow> JUndefined | Some v \<Rightarrow> v)"
| "field v name = JUndefined"

text \<open>\<open>name in obj\<close>: a TypeError unless \<open>obj\<close> is an object or an array.\<close>

fun hasProperty :: "string \<Rightarrow> jsval \<Rightarrow> bool outcome" where
  "hasProperty name (JObj kvs) = Returned (map_of kvs name \<noteq> None)"
| "hasProperty name (JArr xs) = Returned False"
| "hasProperty name v = Threw TypeError"

text \<open>
  Conversion to a string. An object made by \<open>JSON.parse\<close> prints as
  \<open>[object Object]\<close> through \<open>Object.prototype.toString\<close>, unless it has an own
  property \<open>toString\<close>: that one is data, not a function, \<open>valueOf\<close> gives back the
  object, and the conversion throws. An array is joined with commas, \<open>null\<close> and
  \<open>undefined\<close> elements printing as nothing.
\<close>

fun toStringJS :: "builtins \<Rightarrow> jsval \<Rightarrow> string outcome"
  and joinElements :: "builtins \<Rightarrow> jsval list \<Rightarrow> string outcome" where
  "toStringJS B JUndefined = Returned ''undefined''"
| "toStringJS B JNull = Returned ''null''"
| "toStringJS B (JBool b) = Returned (if b then ''true'' else ''false'')"
| "toStringJS B JNaN = Returned ''NaN''"
| "toStringJS B JPosInf = Returned ''Infinity''"
| "toStringJS B JNegInf = Returned ''-Infinity''"
| "toStringJS B (JNum r) = Returned (numberToString B r)"
| "toStringJS B (JStr s) = Returned s"
| "toStringJS B (JArr xs) = joinElements B xs"
| "toStringJS B (JObj kvs) =
     (if map_of kvs ''toString'' = None then Returned ''[object Object]'' else Threw TypeError)"
| "joinElements B [] = Returned []"
| "joinElements B (x # xs) =
     (case (if nullish x then Returned [] else toStringJS B x) of
        Threw e \<Rightarrow> Threw e
      | Returned s \<Rightarrow>
          (case joinElements B xs of
             Threw e \<Rightarrow> Threw e
           | Returned t \<Rightarrow> Returned (if xs = [] then s else s @ '','' @ t)))"

fun toPrimitive :: "builtins \<Rightarrow> jsval \<Rightarrow> jsval outcome" where
  "toPrimitive B (JArr xs) =
     (case toStringJS B (JArr xs) of Threw e \<Rightarrow> Threw e | Returned s \<Rightarrow> Returned (JStr s))"
| "toPrimitive B (JObj kvs) =
     (case toStringJS B (JObj kvs) of Threw e \<Rightarrow> Threw e | Returned s \<Rightarrow> Returned (JStr s))"
| "toPrimitive B v = Returned v"

definition stringNumber :: "builtins \<Rightarrow> string \<Rightarrow> jsval" where
  "stringNumber B s = (case stringToNumber B s of None \<Rightarrow> JNaN | Some r \<Rightarrow> roundDouble r)"

text \<open>Conversion to a number: the result is a finite number, an infinity or \<open>NaN\<close>.\<close>

fun toNumber :: "builtins \<Rightarrow> jsval \<Rightarrow> jsval outcome" where
  "toNumber B JUndefined = Returned JNaN"
| "toNumber B JNull = Returned (JNum 0)"
| "toNumber B (JBool b) = Returned (JNum (if b then 1 else 0))"
| "toNumber B JNaN = Returned JNaN"
| "toNumber B JPosInf = Returned JPosInf"
| "toNumber B JNegInf = Returned JNegInf"
| "toNumber B (JNum r) = Returned (JNum r)"
| "toNumber B (JStr s) = Returned (stringNumber B s)"
| "toNumber B (JArr xs) =
     (case toStringJS B (JArr xs) of
        Threw e \<Rightarrow> Threw e | Returned s \<Rightarrow> Returned (stringNumber B s))"
| "toNumber B (JObj kvs) =
     (case toStringJS B (JObj kvs) of
        Threw e \<Rightarrow> Threw e | Returned s \<Rightarrow> Returned (stringNumber B s))"

text \<open>
  Comparisons of a number with a numeric literal: every comparison with \<open>NaN\<close> is
  false, and the infinities lie beyond every literal.
\<close>

fun numGe :: "jsval \<Rightarrow> rat \<Rightarrow> bool" where
  "numGe (JNum x) r = (r \<le> x)"
| "numGe JPosInf r = True"
| "numGe v r = False"

fun numLe :: "jsval \<Rightarrow> rat \<Rightarrow> bool" where
  "numLe (JNum x) r = (x \<le> r)"
| "numLe JNegInf r = True"
| "numLe v r = False"

fun numGt :: "jsval \<Rightarrow> rat \<Rightarrow> bool" where
  "numGt (JNum x) r = (r < x)"
| "numGt JPosInf r = True"
| "numGt v r = False"

fun numLt :: "jsval \<Rightarrow> rat \<Rightarrow> bool" where
  "numLt (JNum x) r = (x < r)"
| "numLt JNegInf r = True"
| "numLt v r = False"

text \<open>
  Sum and difference of two numbers: the exact result rounded to binary64; an
  infinity absorbs a finite number, and \<open>Infinity - Infinity\<close> is \<open>NaN\<close>.
\<close>

fun numAdd :: "jsval \<Rightarrow> jsval \<Rightarrow> jsval" where
  "numAdd (JNum x) (JNum y) = roundDouble (x + y)"
| "numAdd (JNum x) JPosInf = JPosInf"
| "numAdd (JNum x) JNegInf = JNegInf"
| "numAdd JPosInf (JNum y) = JPosInf"
| "numAdd JPosInf JPosInf = JPosInf"
| "numAdd JNegInf (JNum y) = JNegInf"
| "numAdd JNegInf JNegInf = JNegInf"
| "numAdd a b = JNaN"

fun numSub :: "jsval \<Rightarrow> jsval \<Rightarrow> jsval" where
  "numSub (JNum x) (JNum y) = roundDouble (x - y)"
| "numSub (JNum x) JPosInf = JNegInf"
| "numSub (JNum x) JNegInf = JPosInf"
| "numSub JPosInf (JNum y) = JPosInf"
| "numSub JPosInf JNegInf = JPosInf"
| "numSub JNegInf (JNum y) = JNegInf"
| "numSub JNegInf JPosInf = JNegInf"
| "numSub a b = JNaN"

text \<open>
  A number divided by a count (the length of an array, a weight counted up from 0):
  the exact quotient rounded to binary64. The callers divide only by a count they
  have found positive; by 0 the quotient is an infinity, and \<open>NaN\<close> for \<open>0 / 0\<close>.
\<close>

fun numDivCount :: "jsval \<Rightarrow> nat \<Rightarrow> jsval" where
  "numDivCount (JNum x) n =
     (if n = 0 then (if 0 < x then JPosInf else if x < 0 then JNegInf else JNaN)
      else roundDouble (x / of_nat n))"
| "numDivCount JPosInf n = JPosInf"
| "numDivCount JNegInf n = JNegInf"
| "numDivCount v n = JNaN"

fun isString :: "jsval \<Rightarrow> bool" where
  "isString (JStr s) = True"
| "isString v = False"

text \<open>\<open>a + b\<close>: concatenation when either operand converts to a string, else a sum.\<close>

definition jsAdd :: "builtins \<Rightarrow> jsval \<Rightarrow> jsval \<Rightarrow> jsval outcome" where
  "jsAdd B a b =
     (case toPrimitive B a of
        Threw e \<Rightarrow> Threw e
      | Returned pa \<Rightarrow>
     (case toPrimitive B b of
        Threw e \<Rightarrow> Threw e
      | Returned pb \<Rightarrow>
          if isString pa \<or> isString pb then
            (case toStringJS B pa of
               Threw e \<Rightarrow> Threw e
             | Returned sa \<Rightarrow>
            (case toStringJS B pb of
               Threw e \<Rightarrow> Threw e
             | Returned sb \<Rightarrow> Returned (JStr (sa @ sb))))
          else
            (case toNumber B pa of
               Threw e \<Rightarrow> Threw e
             | Returned na \<Rightarrow>
            (case toNumber B pb of
               Threw e \<Rightarrow> Threw e
             | Returned nb \<Rightarrow> Returned (numAdd na nb)))))"

text \<open>\<open>a / n\<close> where \<open>n\<close> is a count.\<close>

definition jsDivCount :: "builtins \<Rightarrow> jsval \<Rightarrow> nat \<Rightarrow> jsval outcome" where
  "jsDivCount B a n =
     (case toNumber B a of Threw e \<Rightarrow> Threw e | Returned x \<Rightarrow> Returned (numDivCount x n))"

text \<open>\<open>a > r\<close> for a numeric literal \<open>r\<close>.\<close>

definition jsGt :: "builtins \<Rightarrow> jsval \<Rightarrow> rat \<Rightarrow> bool outcome" where
  "jsGt B a r =
     (case toNumber B a of Threw e \<Rightarrow> Threw e | Returned n \<Rightarrow> Returned (numGt n r))"

text \<open>
  \<open>Math.round\<close>: the nearest integer, a tie going up; the integer nearest to a
  double is a double. An infinity and \<open>NaN\<close> are returned as they are.
\<close>

fun roundNumber :: "jsval \<Rightarrow> jsval" where
  "roundNumber (JNum x) = JNum (of_int \<lfloor>x + 1 / 2\<rfloor>)"
| "roundNumber JPosInf = JPosInf"
| "roundNumber JNegInf = JNegInf"
| "roundNumber v = JNaN"

definition mathRound :: "builtins \<Rightarrow> jsval \<Rightarrow> jsval outcome" where
  "mathRound B a =
     (case toNumber B a of Threw e \<Rightarrow> Threw e | Returned x \<Rightarrow> Returned (roundNumber x))"

section \<open>The range tables\<close>

text \<open>
  \<open>SCORE_SUCCESS_MAPPING\<close> and \<open>COLOR_MAPPING\<close>, the same in both scripts, in the order
  \<open>Object.entries\<close> lists them.
\<close>

definition SCORE_SUCCESS_MAPPING :: "(string \<times> rat \<times> rat) list" where
  "SCORE_SUCCESS_MAPPING =
     [(''success'', 80, 100),
      (''almost-success'', 70, 79),
      (''partial'', 50, 69),
      (''almost-failure'', 30, 49),
      (''failure'', 0, 29)]"

definition COLOR_MAPPING :: "(string \<times> rat \<times> rat) list" where
  "COLOR_MAPPING =
     [(''Green'', 70, 100),
      (''Yellow'', 30, 69),
      (''Red'', 0, 29)]"

text \<open>
  The loop \<open>for (const [label, range] of Object.entries(table))\<close> with its test
  \<open>percent >= range.min && percent <= range.max\<close>, on the number \<open>percent\<close> converts
  to; \<open>None\<close> when the loop ends without a \<open>return\<close>.
\<close>

fun lookupRange :: "(string \<times> rat \<times> rat) list \<Rightarrow> jsval \<Rightarrow> string option" where
  "lookupRange [] n = None"
| "lookupRange ((label, lo, hi) # table) n =
     (if numGe n lo \<and> numLe n hi then Some label else lookupRange table n)"

section \<open>calculate-scores.js: class ScoreCalculator\<close>

definition getScoreLabel :: "builtins \<Rightarrow> jsval \<Rightarrow> string outcome" where
  "getScoreLabel B percent =
     (case toNumber B percent of
        Threw e \<Rightarrow> Threw e
      | Returned n \<Rightarrow>
          Returned (case lookupRange COLOR_MAPPING n of Some label \<Rightarrow> label | None \<Rightarrow> ''Red''))"

definition getScoreSuccess :: "builtins \<Rightarrow> jsval \<Rightarrow> string outcome" where
  "getScoreSuccess B percent =
     (case toNumber B percent of
        Threw e \<Rightarrow> Threw e
      | Returned n \<Rightarrow>
          Returned (case lookupRange SCORE_SUCCESS_MAPPING n of
                      Some success \<Rightarrow> success | None \<Rightarrow> ''failure''))"

text \<open>
  The filter of \<open>processAreaScore\<close>:
  \<open>entry.scoreSuccess !== 'unknown' && entry.scorePercent !== null &&
    entry.scorePercent !== undefined && !entry.isOptional\<close>.
\<close>

definition scoredEntry :: "jsval \<Rightarrow> bool" where
  "scoredEntry entry =
     (field entry ''scoreSuccess'' \<noteq> JStr ''unknown'' \<and>
      field entry ''scorePercent'' \<noteq> JNull \<and>
      field entry ''scorePercent'' \<noteq> JUndefined \<and>
      \<not> truthy (field entry ''isOptional''))"

fun filterScoredEntries :: "jsval list \<Rightarrow> jsval list outcome" where
  "filterScoredEntries [] = Returned []"
| "filterScoredEntries (entry # entries) =
     (if nullish entry then Threw TypeError
      else
        (case filterScoredEntries entries of
           Threw e \<Rightarrow> Threw e
         | Returned rest \<Rightarrow> Returned (if scoredEntry entry then entry # rest else rest)))"

text \<open>
  \<open>xs.reduce((sum, x) => sum + x.scorePercent, 0)\<close>, used on the scored entries of an
  area and on the scored areas of a record; the first argument is the running sum.
\<close>

fun sumScorePercent :: "builtins \<Rightarrow> jsval \<Rightarrow> jsval list \<Rightarrow> jsval outcome" where
  "sumScorePercent B acc [] = Returned acc"
| "sumScorePercent B acc (x # xs) =
     (if nullish x then Threw TypeError
      else
        (case jsAdd B acc (field x ''scorePercent'') of
           Threw e \<Rightarrow> Threw e
         | Returned acc' \<Rightarrow> sumScorePercent B acc' xs))"

definition processAreaScore :: "builtins \<Rightarrow> jsval \<Rightarrow> jsval outcome" where
  "processAreaScore B area =
     (if nullish area then Threw TypeError
      else
        (case field area ''scoreEntries'' of
           JArr entries \<Rightarrow>
             (case filterScoredEntries entries of
                Threw e \<Rightarrow> Threw e
              | Returned scoredEntries \<Rightarrow>
                  (case (if length scoredEntries > 0 then
                           (case sumScorePercent B (JNum 0) scoredEntries of
                              Threw e \<Rightarrow> Threw e
                            | Returned totalScore \<Rightarrow>
                                jsDivCount B totalScore (length scoredEntries))
                         else Returned (JNum 0)) of
                     Threw e \<Rightarrow> Threw e
                   | Returned areaScore \<Rightarrow>
                       Returned (JObj [(''id'', field area ''id''),
                                       (''title'', field area ''title''),
                                       (''scorePercent'', areaScore),
                                       (''scoreEntries'', field area ''scoreEntries'')])))
         | v \<Rightarrow> Threw TypeError))"

text \<open>\<open>areaScores.filter(area => area.scorePercent > 0)\<close>.\<close>

fun filterScoredAreas :: "builtins \<Rightarrow> jsval list \<Rightarrow> jsval list outcome" where
  "filterScoredAreas B [] = Returned []"
| "filterScoredAreas B (area # areas) =
     (if nullish area then Threw TypeError
      else
        (case jsGt B (field area ''scorePercent'') 0 of
           Threw e \<Rightarrow> Threw e
         | Returned keep \<Rightarrow>
             (case filterScoredAreas B areas of
                Threw e \<Rightarrow> Threw e
              | Returned rest \<Rightarrow> Returned (if keep then area # rest else rest))))"

definition calculateOverallScore :: "builtins \<Rightarrow> jsval list \<Rightarrow> jsval outcome" where
  "calculateOverallScore B areaScores =
     (case filterScoredAreas B areaScores of
        Threw e \<Rightarrow> Threw e
      | Returned scoredAreas \<Rightarrow>
          if length scoredAreas = 0 then Returned (JObj [(''scorePercent'', JNum 0)])
          else
            (case sumScorePercent B (JNum 0) scoredAreas of
               Threw e \<Rightarrow> Threw e
             | Returned totalScore \<Rightarrow>
                 (case jsDivCount B totalScore (length scoredAreas) of
                    Threw e \<Rightarrow> Threw e
                  | Returned averageScore \<Rightarrow>
                      Returned (JObj [(''scorePercent'', averageScore)]))))"

fun mapProcessAreaScore :: "builtins \<Rightarrow> jsval list \<Rightarrow> jsval list outcome" where
  "mapProcessAreaScore B [] = Returned []"
| "mapProcessAreaScore B (area # areas) =
     (case processAreaScore B area of
        Threw e \<Rightarrow> Threw e
      | Returned processed \<Rightarrow>
          (case mapProcessAreaScore B areas of
             Threw e \<Rightarrow> Threw e
           | Returned rest \<Rightarrow> Returned (processed # rest)))"

text \<open>The arrow function that builds one element of the output's \<open>areaScores\<close>.\<close>

definition areaSummary :: "builtins \<Rightarrow> jsval \<Rightarrow> jsval outcome" where
  "areaSummary B area =
     (if nullish area then Threw TypeError
      else
        (case mathRound B (field area ''scorePercent'') of
           Threw e \<Rightarrow> Threw e
         | Returned rounded \<Rightarrow>
        (case getScoreLabel B (field area ''scorePercent'') of
           Threw e \<Rightarrow> Threw e
         | Returned label \<Rightarrow>
        (case getScoreSuccess B (field area ''scorePercent'') of
           Threw e \<Rightarrow> Threw e
         | Returned success \<Rightarrow>
             Returned (JObj [(''id'', field area ''id''),
                             (''title'', field area ''title''),
                             (''scorePercent'', rounded),
                             (''scoreLabel'', JStr label),
                             (''scoreSuccess'', JStr success)])))))"

fun mapAreaSummary :: "builtins \<Rightarrow> jsval list \<Rightarrow> jsval list outcome" where
  "mapAreaSummary B [] = Returned []"
| "mapAreaSummary B (area # areas) =
     (case areaSummary B area of
        Threw e \<Rightarrow> Threw e
      | Returned summary \<Rightarrow>
          (case mapAreaSummary B areas of
             Threw e \<Rightarrow> Threw e
           | Returned rest \<Rightarrow> Returned (summary # rest)))"

text \<open>
  \<open>processEntityFile\<close> from the parsed file on (reading and parsing the file is the
  caller's input). A spread \<open>...(c && {k: v})\<close> adds the property when \<open>c\<close> is truthy
  and nothing otherwise.
\<close>

definition processEntityFile :: "builtins \<Rightarrow> jsval \<Rightarrow> jsval outcome" where
  "processEntityFile B data =
     (if nullish data then Threw TypeError
      else if \<not> truthy (field data ''entityRef'') then Threw InvalidStructure
      else if \<not> truthy (field data ''areaScores'') then Threw InvalidStructure
      else
        (case field data ''areaScores'' of
           JArr areas \<Rightarrow>
             (case mapProcessAreaScore B areas of
                Threw e \<Rightarrow> Threw e
              | Returned processedAreaScores \<Rightarrow>
             (case calculateOverallScore B processedAreaScores of
                Threw e \<Rightarrow> Threw e
              | Returned overallScore \<Rightarrow>
             (case mathRound B (field overallScore ''scorePercent'') of
                Threw e \<Rightarrow> Threw e
              | Returned rounded \<Rightarrow>
             (case getScoreLabel B (field overallScore ''scorePercent'') of
                Threw e \<Rightarrow> Threw e
              | Returned label \<Rightarrow>
             (case getScoreSuccess B (field overallScore ''scorePercent'') of
                Threw e \<Rightarrow> Threw e
              | Returned success \<Rightarrow>
             (case mapAreaSummary B processedAreaScores of
                Threw e \<Rightarrow> Threw e
              | Returned summaries \<Rightarrow>
                  Returned (JObj (
                    [(''entityRef'', JObj (
                        [(''kind'', field (field data ''entityRef'') ''kind''),
                         (''name'', field (field data ''entityRef'') ''name'')] @
                        (if truthy (field (field data ''entityRef'') ''namespace'') \<and>
                            field (field data ''entityRef'') ''namespace'' \<noteq> JStr ''default''
                         then [(''namespace'', field (field data ''entityRef'') ''namespace'')]
                         else []))),
                     (''generatedDateTimeUtc'',
                        if truthy (field data ''generatedDateTimeUtc'')
                        then field data ''generatedDateTimeUtc''
                        else JStr (nowISOString B)),
                     (''scorePercent'', rounded),
                     (''scoreLabel'', JStr label),
                     (''scoreSuccess'', JStr success)] @
                    (if truthy (field data ''scoringReviewer'')
                     then [(''scoringReviewer'', field data ''scoringReviewer'')] else []) @
                    (if truthy (field data ''scoringReviewDate'')
                     then [(''scoringReviewDate'', field data ''scoringReviewDate'')] else []) @
                    [(''areaScores'', JArr summaries)]))))))))
         | v \<Rightarrow> Threw TypeError))"

section \<open>validate-scores.js: class ScoreValidator\<close>

text \<open>
  The validator keeps two lists of messages. A message is kept as the template it was
  built from and the values the template prints; the entry prefix
  \<open>areaScores[i].scoreEntries[j]\<close> is the pair of indices.
\<close>

datatype message =
    MissingRequiredField string
  | EntityRefNotObject
  | UnusualEntityKind string
  | NotValidISODate string
  | NotValidDate string
  | AreaScoresNotArray
  | AreaIdNotNumber nat
  | ScoreEntriesNotArray nat
  | ScoreEntriesEmpty nat
  | EntryIdNotNumber nat nat
  | ScorePercentNotInRange nat nat
  | ScoreSuccessNotCategory nat nat
  | ScoreInconsistent nat nat string string string
  | TodoPlaceholder nat nat
  | OverallDiffers string jsval

record validator =
  errors :: "message list"
  warnings :: "message list"

text \<open>The constructor: both lists empty.\<close>

definition newValidator :: validator where
  "newValidator = \<lparr>errors = [], warnings = []\<rparr>"

text \<open>
  A method of the validator takes the object's state and gives back how it completed
  (a value, or a thrown exception) and the state it leaves. \<open>andThen\<close> is the
  sequencing of two statements: the second runs only when the first did not throw.
  \<open>evaluate\<close> is an expression that does not touch the lists.
\<close>

type_synonym 'a check = "validator \<Rightarrow> 'a outcome \<times> validator"

definition evaluate :: "'a outcome \<Rightarrow> 'a check" where
  "evaluate r v = (r, v)"

definition andThen :: "'a check \<Rightarrow> ('a \<Rightarrow> 'b check) \<Rightarrow> 'b check" where
  "andThen f g v = (case f v of (Returned x, v1) \<Rightarrow> g x v1 | (Threw e, v1) \<Rightarrow> (Threw e, v1))"

definition addError :: "message \<Rightarrow> unit check" where
  "addError m v = (Returned (), v\<lparr>errors := errors v @ [m]\<rparr>)"

definition addWarning :: "message \<Rightarrow> unit check" where
  "addWarning m v = (Returned (), v\<lparr>warnings := warnings v @ [m]\<rparr>)"

text \<open>
  \<open>validateRequired\<close>: the \<open>forEach\<close> over the field names with its test
  \<open>!(field in obj) || obj[field] === null || obj[field] === undefined\<close>.
\<close>

fun validateRequired :: "jsval \<Rightarrow> string list \<Rightarrow> unit check" where
  "validateRequired obj [] = evaluate (Returned ())"
| "validateRequired obj (name # names) =
     andThen (evaluate (hasProperty name obj)) (\<lambda>present.
     andThen (if present then
                (if field obj name = JNull then addError (MissingRequiredField name)
                 else if field obj name = JUndefined then addError (MissingRequiredField name)
                 else evaluate (Returned ()))
              else addError (MissingRequiredField name)) (\<lambda>u.
     validateRequired obj names))"

definition entityKinds :: "jsval list" where
  "entityKinds = [JStr ''component'', JStr ''api'', JStr ''system'', JStr ''resource'']"

definition validateEntityRef :: "builtins \<Rightarrow> jsval \<Rightarrow> unit check" where
  "validateEntityRef B entityRef =
     (if \<not> truthy entityRef then addError EntityRefNotObject
      else if typeof entityRef \<noteq> TObject then addError EntityRefNotObject
      else
        andThen (validateRequired entityRef [''kind'', ''name'']) (\<lambda>u.
        if truthy (field entityRef ''kind'') \<and>
           field entityRef ''kind'' \<notin> set entityKinds
        then
          andThen (evaluate (toStringJS B (field entityRef ''kind''))) (\<lambda>kind.
          addWarning (UnusualEntityKind kind))
        else evaluate (Returned ())))"

text \<open>
  Whether \<open>new Date(p).getTime()\<close> is a number, for a primitive \<open>p\<close>: a string is
  parsed, anything else is converted to a number and must lie within the range of
  time values.
\<close>

fun dateValid :: "builtins \<Rightarrow> jsval \<Rightarrow> bool" where
  "dateValid B (JStr s) = dateParse B s"
| "dateValid B (JNum r) = (\<bar>r\<bar> \<le> 8640000000000000)"
| "dateValid B JNull = True"
| "dateValid B (JBool b) = True"
| "dateValid B v = False"

text \<open>\<open>validateDateTime\<close> catches what the \<open>Date\<close> constructor throws.\<close>

definition validateDateTime :: "builtins \<Rightarrow> jsval \<Rightarrow> string \<Rightarrow> unit check" where
  "validateDateTime B dateStr fieldName =
     (case toPrimitive B dateStr of
        Threw e \<Rightarrow> addError (NotValidDate fieldName)
      | Returned p \<Rightarrow>
          if dateValid B p then evaluate (Returned ())
          else addError (NotValidISODate fieldName))"

definition getScoreCategory :: "builtins \<Rightarrow> jsval \<Rightarrow> string outcome" where
  "getScoreCategory B percent =
     (case toNumber B percent of
        Threw e \<Rightarrow> Threw e
      | Returned n \<Rightarrow>
          Returned (case lookupRange SCORE_SUCCESS_MAPPING n of
                      Some category \<Rightarrow> category | None \<Rightarrow> ''unknown''))"

definition scoreCategories :: "jsval list" where
  "scoreCategories = [JStr ''success'', JStr ''almost-success'', JStr ''partial'',
     JStr ''almost-failure'', JStr ''failure'', JStr ''unknown'']"

text \<open>\<open>s.includes(t)\<close> on strings: \<open>t\<close> occurs in \<open>s\<close>.\<close>

fun stringIncludes :: "string \<Rightarrow> string \<Rightarrow> bool" where
  "stringIncludes [] t = (t = [])"
| "stringIncludes (c # s) t = (if take (length t) (c # s) = t then True else stringIncludes s t)"

text \<open>
  \<open>comments.includes('TODO:')\<close> for a truthy \<open>comments\<close>: a string is searched, an
  array is searched for an element, and any other value has no callable \<open>includes\<close>.
\<close>

fun includesTodo :: "jsval \<Rightarrow> bool outcome" where
  "includesTodo (JStr s) = Returned (stringIncludes s ''TODO:'')"
| "includesTodo (JArr xs) = Returned (JStr ''TODO:'' \<in> set xs)"
| "includesTodo v = Threw TypeError"

text \<open>
  \<open>validateScoreEntry\<close>, statement by statement: the required fields, the type of
  \<open>id\<close>, the range of \<open>scorePercent\<close>, the category, the consistency of percent and
  category, the placeholder.
\<close>

definition validateScoreEntry :: "builtins \<Rightarrow> jsval \<Rightarrow> nat \<times> nat \<Rightarrow> unit check" where
  "validateScoreEntry B entry prefix =
     andThen (validateRequired entry [''id'', ''title'', ''scoreSuccess'', ''details'']) (\<lambda>u.
     andThen (if typeof (field entry ''id'') \<noteq> TNumber
              then addError (EntryIdNotNumber (fst prefix) (snd prefix))
              else evaluate (Returned ())) (\<lambda>u.
     andThen (if field entry ''scorePercent'' \<noteq> JNull \<and>
                 field entry ''scorePercent'' \<noteq> JUndefined
              then
                (if typeof (field entry ''scorePercent'') \<noteq> TNumber
                 then addError (ScorePercentNotInRange (fst prefix) (snd prefix))
                 else if numLt (field entry ''scorePercent'') 0
                 then addError (ScorePercentNotInRange (fst prefix) (snd prefix))
                 else if numGt (field entry ''scorePercent'') 100
                 then addError (ScorePercentNotInRange (fst prefix) (snd prefix))
                 else evaluate (Returned ()))
              else evaluate (Returned ())) (\<lambda>u.
     andThen (if field entry ''scoreSuccess'' \<in> set scoreCategories
              then evaluate (Returned ())
              else addError (ScoreSuccessNotCategory (fst prefix) (snd prefix))) (\<lambda>u.
     andThen (if field entry ''scorePercent'' \<noteq> JNull \<and>
                 field entry ''scoreSuccess'' \<noteq> JStr ''unknown''
              then
                andThen (evaluate (getScoreCategory B (field entry ''scorePercent'')))
                  (\<lambda>expectedCategory.
                if JStr expectedCategory \<noteq> field entry ''scoreSuccess'' then
                  andThen (evaluate (toStringJS B (field entry ''scorePercent''))) (\<lambda>percent.
                  andThen (evaluate (toStringJS B (field entry ''scoreSuccess''))) (\<lambda>declared.
                  addWarning (ScoreInconsistent (fst prefix) (snd prefix)
                                percent expectedCategory declared)))
                else evaluate (Returned ()))
              else evaluate (Returned ())) (\<lambda>u.
     if truthy (field entry ''selfAssessmentComments'') then
       andThen (evaluate (includesTodo (field entry ''selfAssessmentComments''))) (\<lambda>todo.
       if todo then addWarning (TodoPlaceholder (fst prefix) (snd prefix))
       else evaluate (Returned ()))
     else evaluate (Returned ()))))))"

text \<open>
  \<open>area.scoreEntries.forEach((entry, entryIndex) => ...)\<close> of \<open>validateAreaScore\<close>,
  from \<open>entryIndex\<close> on.
\<close>

fun validateEntries :: "builtins \<Rightarrow> nat \<Rightarrow> nat \<Rightarrow> jsval list \<Rightarrow> unit check" where
  "validateEntries B index entryIndex [] = evaluate (Returned ())"
| "validateEntries B index entryIndex (entry # entries) =
     andThen (validateScoreEntry B entry (index, entryIndex)) (\<lambda>u.
     validateEntries B index (Suc entryIndex) entries)"

definition validateAreaScore :: "builtins \<Rightarrow> jsval \<Rightarrow> nat \<Rightarrow> unit check" where
  "validateAreaScore B area index =
     andThen (validateRequired area [''id'', ''title'', ''scoreEntries'']) (\<lambda>u.
     andThen (if typeof (field area ''id'') \<noteq> TNumber then addError (AreaIdNotNumber index)
              else evaluate (Returned ())) (\<lambda>u.
     (case field area ''scoreEntries'' of
        JArr entries \<Rightarrow>
          andThen (if length entries = 0 then addError (ScoreEntriesEmpty index)
                   else evaluate (Returned ())) (\<lambda>u.
          validateEntries B index 0 entries)
      | x \<Rightarrow> addError (ScoreEntriesNotArray index))))"

text \<open>\<open>data.areaScores.forEach((area, index) => ...)\<close> of \<open>validateEntityScore\<close>.\<close>

fun validateAreas :: "builtins \<Rightarrow> nat \<Rightarrow> jsval list \<Rightarrow> unit check" where
  "validateAreas B index [] = evaluate (Returned ())"
| "validateAreas B index (area # areas) =
     andThen (validateAreaScore B area index) (\<lambda>u.
     validateAreas B (Suc index) areas)"

text \<open>
  \<open>calculateScores\<close>: the inner \<open>forEach\<close> over the entries of one area, on the pair
  \<open>(areaScore, areaWeight)\<close>, and the outer one over the areas, on
  \<open>(totalScore, totalWeight)\<close>.
\<close>

fun sumEntryScores :: "builtins \<Rightarrow> jsval list \<Rightarrow> jsval \<times> nat \<Rightarrow> (jsval \<times> nat) outcome" where
  "sumEntryScores B [] acc = Returned acc"
| "sumEntryScores B (entry # entries) (areaScore, areaWeight) =
     (if nullish entry then Threw TypeError
      else if field entry ''scorePercent'' \<noteq> JNull \<and>
              field entry ''scoreSuccess'' \<noteq> JStr ''unknown'' \<and>
              \<not> truthy (field entry ''isOptional'')
      then
        (case jsAdd B areaScore (field entry ''scorePercent'') of
           Threw e \<Rightarrow> Threw e
         | Returned areaScore' \<Rightarrow> sumEntryScores B entries (areaScore', Suc areaWeight))
      else sumEntryScores B entries (areaScore, areaWeight))"

fun sumAreaScores :: "builtins \<Rightarrow> jsval list \<Rightarrow> jsval \<times> nat \<Rightarrow> (jsval \<times> nat) outcome" where
  "sumAreaScores B [] acc = Returned acc"
| "sumAreaScores B (area # areas) (totalScore, totalWeight) =
     (if nullish area then Threw TypeError
      else
        (case field area ''scoreEntries'' of
           JArr entries \<Rightarrow>
             (case sumEntryScores B entries (JNum 0, 0) of
                Threw e \<Rightarrow> Threw e
              | Returned (areaScore, areaWeight) \<Rightarrow>
                  if areaWeight > 0 then
                    (case jsDivCount B areaScore areaWeight of
                       Threw e \<Rightarrow> Threw e
                     | Returned avgAreaScore \<Rightarrow>
                    (case jsAdd B totalScore avgAreaScore of
                       Threw e \<Rightarrow> Threw e
                     | Returned totalScore' \<Rightarrow>
                         sumAreaScores B areas (totalScore', Suc totalWeight)))
                  else sumAreaScores B areas (totalScore, totalWeight))
         | x \<Rightarrow> Threw TypeError))"

definition calculateScores :: "builtins \<Rightarrow> jsval \<Rightarrow> jsval outcome" where
  "calculateScores B data =
     (if nullish data then Threw TypeError
      else
        (case field data ''areaScores'' of
           JArr areas \<Rightarrow>
             (case sumAreaScores B areas (JNum 0, 0) of
                Threw e \<Rightarrow> Threw e
              | Returned (totalScore, totalWeight) \<Rightarrow>
                  (case (if totalWeight > 0 then jsDivCount B totalScore totalWeight
                         else Returned (JNum 0)) of
                     Threw e \<Rightarrow> Threw e
                   | Returned overall \<Rightarrow> Returned (JObj [(''overall'', overall)])))
         | x \<Rightarrow> Threw TypeError))"

definition jsSub :: "builtins \<Rightarrow> jsval \<Rightarrow> jsval \<Rightarrow> jsval outcome" where
  "jsSub B a b =
     (case toNumber B a of
        Threw e \<Rightarrow> Threw e
      | Returned na \<Rightarrow>
          (case toNumber B b of Threw e \<Rightarrow> Threw e | Returned nb \<Rightarrow> Returned (numSub na nb)))"

fun mathAbs :: "jsval \<Rightarrow> jsval" where
  "mathAbs (JNum x) = JNum \<bar>x\<bar>"
| "mathAbs JPosInf = JPosInf"
| "mathAbs JNegInf = JPosInf"
| "mathAbs v = JNaN"

definition validateCalculatedScores :: "builtins \<Rightarrow> jsval \<Rightarrow> unit check" where
  "validateCalculatedScores B data =
     andThen (evaluate (calculateScores B data)) (\<lambda>calculatedScores.
     if truthy (field data ''scorePercent'') then
       andThen (evaluate (jsSub B (field data ''scorePercent'')
                            (field calculatedScores ''overall''))) (\<lambda>difference.
       if numGt (mathAbs difference) 1 then
         andThen (evaluate (toStringJS B (field data ''scorePercent''))) (\<lambda>stored.
         addWarning (OverallDiffers stored (field calculatedScores ''overall'')))
       else evaluate (Returned ()))
     else evaluate (Returned ()))"

text \<open>
  \<open>validateEntityScore\<close>: the checks in the order of the source; the result is
  \<open>this.errors.length === 0\<close>, read from the validator's list after the last check.
\<close>

definition validateEntityScore :: "builtins \<Rightarrow> jsval \<Rightarrow> bool check" where
  "validateEntityScore B data =
     andThen (validateRequired data [''entityRef'', ''generatedDateTimeUtc'', ''areaScores''])
       (\<lambda>u.
     andThen (validateEntityRef B (field data ''entityRef'')) (\<lambda>u.
     andThen (validateDateTime B (field data ''generatedDateTimeUtc'')
                ''generatedDateTimeUtc'') (\<lambda>u.
     andThen (if truthy (field data ''scoringReviewDate'')
              then validateDateTime B (field data ''scoringReviewDate'') ''scoringReviewDate''
              else evaluate (Returned ())) (\<lambda>u.
     andThen (case field data ''areaScores'' of
                JArr areas \<Rightarrow> validateAreas B 0 areas
              | x \<Rightarrow> addError AreaScoresNotArray) (\<lambda>u.
     andThen (validateCalculatedScores B data) (\<lambda>u.
     (\<lambda>v. (Returned (errors v = []), v))))))))"

section \<open>Reference notions for the properties\<close>

text \<open>
  A runtime for the closed examples: no string converts to a number, every number
  prints as \<open>n\<close>, every date string parses, and the clock stands still.
\<close>

definition sampleBuiltins :: builtins where
  "sampleBuiltins =
     \<lparr>stringToNumber = (\<lambda>s. None), numberToString = (\<lambda>r. ''n''),
      dateParse = (\<lambda>s. True), nowISOString = ''2024-01-01T00:00:00.000Z''\<rparr>"

text \<open>A number (\<open>typeof v === 'number'\<close>), and a value that carries a numeric \<open>scorePercent\<close>.\<close>

fun isNumber :: "jsval \<Rightarrow> bool" where
  "isNumber (JNum r) = True"
| "isNumber JPosInf = True"
| "isNumber JNegInf = True"
| "isNumber JNaN = True"
| "isNumber v = False"

definition numericPercent :: "jsval \<Rightarrow> bool" where
  "numericPercent a = isNumber (field a ''scorePercent'')"

definition percentOf :: "jsval \<Rightarrow> jsval" where
  "percentOf a = field a ''scorePercent''"

text \<open>
  The mean of a list of numbers as binary64 arithmetic computes it: the numbers are
  added to 0 from left to right, every sum rounded, and the total is divided by the
  count and rounded once more. Beside it the exact mean of rationals, the rational a
  finite number denotes, and a percent between 0 and 100.
\<close>

definition floatMean :: "jsval list \<Rightarrow> jsval" where
  "floatMean ps = numDivCount (foldl numAdd (JNum 0) ps) (length ps)"

definition arithmeticMean :: "rat list \<Rightarrow> rat" where
  "arithmeticMean ps = sum_list ps / of_nat (length ps)"

fun valueOf :: "jsval \<Rightarrow> rat" where
  "valueOf (JNum r) = r"
| "valueOf v = 0"

fun percentInRange :: "jsval \<Rightarrow> bool" where
  "percentInRange (JNum r) = (0 \<le> r \<and> r \<le> 100)"
| "percentInRange v = False"

text \<open>An area result as \<open>processAreaScore\<close> returns it, with the given percent.\<close>

definition areaResult :: "rat \<Rightarrow> jsval" where
  "areaResult p =
     JObj [(''id'', JNum 1), (''title'', JStr ''Area''), (''scorePercent'', JNum p),
           (''scoreEntries'', JArr [])]"

text \<open>
  An entry whose \<open>scorePercent\<close> is typed as in the data model: a number, \<open>null\<close> or
  absent. A typed entry has moreover an \<open>isOptional\<close> that is a boolean or absent.
\<close>

definition percentTyped :: "jsval \<Rightarrow> bool" where
  "percentTyped entry =
     (\<not> nullish entry \<and>
      (field entry ''scorePercent'' = JUndefined \<or> field entry ''scorePercent'' = JNull \<or>
       isNumber (field entry ''scorePercent'')))"

definition typedEntry :: "jsval \<Rightarrow> bool" where
  "typedEntry entry =
     (percentTyped entry \<and>
      (case field entry ''isOptional'' of
         JUndefined \<Rightarrow> True | JBool b \<Rightarrow> True | v \<Rightarrow> False))"

text \<open>
  The specification's entry filter: \<open>scoreSuccess\<close> is not \<open>unknown\<close>, \<open>scorePercent\<close>
  is present (neither \<open>null\<close> nor absent) and \<open>isOptional\<close> is not \<open>true\<close>.
\<close>

definition includedEntry :: "jsval \<Rightarrow> bool" where
  "includedEntry entry =
     (field entry ''scoreSuccess'' \<noteq> JStr ''unknown'' \<and>
      field entry ''scorePercent'' \<noteq> JNull \<and>
      field entry ''scorePercent'' \<noteq> JUndefined \<and>
      field entry ''isOptional'' \<noteq> JBool True)"

text \<open>Example data: an entry, and an area with three scored entries among five.\<close>

definition scoreEntry :: "jsval \<Rightarrow> string \<Rightarrow> jsval \<Rightarrow> jsval" where
  "scoreEntry percent success optional =
     JObj [(''id'', JNum 1), (''title'', JStr ''Entry''), (''details'', JStr ''Details''),
           (''scoreSuccess'', JStr success), (''scorePercent'', percent),
           (''isOptional'', optional)]"

definition sampleEntries :: "jsval list" where
  "sampleEntries =
     [scoreEntry (JNum 80) ''success'' (JBool False),
      scoreEntry (JNum 60) ''partial'' (JBool False),
      scoreEntry JNull ''unknown'' (JBool False),
      scoreEntry (JNum 100) ''success'' (JBool True),
      scoreEntry (JNum 40) ''almost-failure'' (JBool False)]"

definition sampleArea :: jsval where
  "sampleArea =
     JObj [(''id'', JNum 7), (''title'', JStr ''Operations''),
           (''scoreEntries'', JArr sampleEntries)]"

text \<open>An area with a given id and title over entries that are all scored.\<close>

definition scoredArea :: "rat \<Rightarrow> string \<Rightarrow> rat list \<Rightarrow> jsval" where
  "scoredArea n title percents =
     JObj [(''id'', JNum n), (''title'', JStr title),
           (''scoreEntries'',
              JArr (map (\<lambda>p. scoreEntry (JNum p) ''partial'' (JBool False)) percents))]"

text \<open>
  An area whose first entry, scoring 80, carries \<open>"isOptional": "no"\<close>, beside an
  entry scoring 60.
\<close>

definition optionalNoEntries :: "jsval list" where
  "optionalNoEntries =
     [scoreEntry (JNum 80) ''success'' (JStr ''no''),
      scoreEntry (JNum 60) ''partial'' (JBool False)]"

definition optionalNoArea :: jsval where
  "optionalNoArea =
     JObj [(''id'', JNum 4), (''title'', JStr ''Resilience''),
           (''scoreEntries'', JArr optionalNoEntries)]"

text \<open>
  The reductions, in the arithmetic of the code: the entries of an area, the percents
  of the entries that the filter of \<open>processAreaScore\<close> keeps, their mean (0 when there
  is none), and the Aggregator's overall percent, the mean of the area means greater
  than zero. Beside them the percents of the entries that the specification's filter
  includes.
\<close>

definition entriesOf :: "jsval \<Rightarrow> jsval list" where
  "entriesOf area = (case field area ''scoreEntries'' of JArr entries \<Rightarrow> entries | v \<Rightarrow> [])"

definition keptPercents :: "jsval \<Rightarrow> jsval list" where
  "keptPercents area = map percentOf (filter scoredEntry (entriesOf area))"

definition includedPercents :: "jsval \<Rightarrow> jsval list" where
  "includedPercents area = map percentOf (filter includedEntry (entriesOf area))"

definition areaMean :: "jsval \<Rightarrow> jsval" where
  "areaMean area = (if keptPercents area = [] then JNum 0 else floatMean (keptPercents area))"

definition aggregatorOverall :: "jsval list \<Rightarrow> jsval" where
  "aggregatorOverall areas =
     (if filter (\<lambda>p. numGt p 0) (map areaMean areas) = [] then JNum 0
      else floatMean (filter (\<lambda>p. numGt p 0) (map areaMean areas)))"

definition typedArea :: "jsval \<Rightarrow> bool" where
  "typedArea area =
     (case field area ''scoreEntries'' of
        JArr entries \<Rightarrow> list_all percentTyped entries | v \<Rightarrow> False)"

text \<open>
  A record the Aggregator takes as structurally valid: it has an entity reference, and
  its area list is an array of areas whose entries carry a \<open>scorePercent\<close> that is a
  number, \<open>null\<close> or absent.
\<close>

definition areasOf :: "jsval \<Rightarrow> jsval list" where
  "areasOf data = (case field data ''areaScores'' of JArr areas \<Rightarrow> areas | v \<Rightarrow> [])"

definition structurallyValid :: "jsval \<Rightarrow> bool" where
  "structurallyValid data =
     (truthy (field data ''entityRef'') \<and>
      (case field data ''areaScores'' of JArr areas \<Rightarrow> list_all typedArea areas | v \<Rightarrow> False))"


definition colourOf :: "jsval \<Rightarrow> string" where
  "colourOf p = (case lookupRange COLOR_MAPPING p of Some label \<Rightarrow> label | None \<Rightarrow> ''Red'')"

definition categoryOf :: "jsval \<Rightarrow> string" where
  "categoryOf p =
     (case lookupRange SCORE_SUCCESS_MAPPING p of
        Some success \<Rightarrow> success | None \<Rightarrow> ''failure'')"

text \<open>What \<open>processAreaScore\<close> returns for such an area, and its summary in the output.\<close>

definition processedArea :: "jsval \<Rightarrow> jsval" where
  "processedArea area =
     JObj [(''id'', field area ''id''), (''title'', field area ''title''),
           (''scorePercent'', areaMean area),
           (''scoreEntries'', JArr (entriesOf area))]"

definition summaryOf :: "jsval \<Rightarrow> jsval" where
  "summaryOf area =
     JObj [(''id'', field area ''id''), (''title'', field area ''title''),
           (''scorePercent'', roundNumber (areaMean area)),
           (''scoreLabel'', JStr (colourOf (areaMean area))),
           (''scoreSuccess'', JStr (categoryOf (areaMean area)))]"

text \<open>
  An area all of whose included entries (if any) score 0, and an area with no
  included entry. Two records have the same identity when they agree on the entity
  reference, the timestamps, the reviewer and the ids and titles of their areas.
\<close>

definition scoredZero :: "jsval \<Rightarrow> bool" where
  "scoredZero area = list_all (\<lambda>p. p = JNum 0) (includedPercents area)"

definition unscored :: "jsval \<Rightarrow> bool" where
  "unscored area = (filter includedEntry (entriesOf area) = [])"

definition sameIdentity :: "jsval \<Rightarrow> jsval \<Rightarrow> bool" where
  "sameIdentity data data' =
     (field data ''entityRef'' = field data' ''entityRef'' \<and>
      field data ''generatedDateTimeUtc'' = field data' ''generatedDateTimeUtc'' \<and>
      field data ''scoringReviewer'' = field data' ''scoringReviewer'' \<and>
      field data ''scoringReviewDate'' = field data' ''scoringReviewDate'' \<and>
      map (\<lambda>area. (field area ''id'', field area ''title'')) (areasOf data) =
      map (\<lambda>area. (field area ''id'', field area ''title'')) (areasOf data'))"

definition zeroSummary :: "jsval \<times> jsval \<Rightarrow> jsval" where
  "zeroSummary idTitle =
     JObj [(''id'', fst idTitle), (''title'', snd idTitle), (''scorePercent'', JNum 0),
           (''scoreLabel'', JStr ''Red''), (''scoreSuccess'', JStr ''failure'')]"

text \<open>
  Example records: one with two scored areas, one whose only area has an \<open>unknown\<close>
  and an optional entry, and its twin whose only entry scores 0.
\<close>

definition secondArea :: jsval where
  "secondArea =
     JObj [(''id'', JNum 8), (''title'', JStr ''Documentation''),
           (''scoreEntries'',
              JArr [scoreEntry (JNum 80) ''success'' (JBool False),
                    scoreEntry (JNum 85) ''success'' (JBool False)])]"

definition validRecord :: jsval where
  "validRecord =
     JObj [(''entityRef'', JObj [(''kind'', JStr ''component''), (''name'', JStr ''billing''),
                                 (''namespace'', JStr ''default'')]),
           (''generatedDateTimeUtc'', JStr ''2024-05-01T10:00:00Z''),
           (''scoringReviewer'', JStr ''alex''),
           (''areaScores'', JArr [sampleArea, secondArea])]"

definition unscoredRecord :: jsval where
  "unscoredRecord =
     JObj [(''entityRef'', JObj [(''kind'', JStr ''api''), (''name'', JStr ''ledger'')]),
           (''generatedDateTimeUtc'', JStr ''2024-05-01T10:00:00Z''),
           (''areaScores'',
              JArr [JObj [(''id'', JNum 3), (''title'', JStr ''Security''),
                          (''scoreEntries'',
                             JArr [scoreEntry JNull ''unknown'' (JBool False),
                                   scoreEntry (JNum 90) ''success'' (JBool True)])]])]"

definition zeroRecord :: jsval where
  "zeroRecord =
     JObj [(''entityRef'', JObj [(''kind'', JStr ''api''), (''name'', JStr ''ledger'')]),
           (''generatedDateTimeUtc'', JStr ''2024-05-01T10:00:00Z''),
           (''areaScores'',
              JArr [JObj [(''id'', JNum 3), (''title'', JStr ''Security''),
                          (''scoreEntries'',
                             JArr [scoreEntry (JNum 0) ''failure'' (JBool False)])]])]"

text \<open>
  A record over given areas, and two such records: one whose areas average 69.5 and
  79.5, and one over the whole-number percents 57; 96, 96, 97; and 56, 57, 57.
\<close>

definition recordOver :: "jsval list \<Rightarrow> jsval" where
  "recordOver areas =
     JObj [(''entityRef'', JObj [(''kind'', JStr ''component''), (''name'', JStr ''billing'')]),
           (''generatedDateTimeUtc'', JStr ''2024-05-01T10:00:00Z''),
           (''areaScores'', JArr areas)]"

definition gapRecord :: jsval where
  "gapRecord =
     recordOver [scoredArea 1 ''Documentation'' [69, 70], scoredArea 2 ''Security'' [79, 80]]"

definition thirdsRecord :: jsval where
  "thirdsRecord =
     recordOver [scoredArea 1 ''Documentation'' [57], scoredArea 2 ''Security'' [96, 96, 97],
                 scoredArea 3 ''Operations'' [56, 57, 57]]"

text \<open>
  The messages of one validator followed by those of another. A check is accumulating
  when, started from any state, it appends to the two lists what it would write into
  empty ones and completes the same way; the check that ends with the verdict
  completes with the verdict of the accumulated error list.
\<close>

definition appendMessages :: "validator \<Rightarrow> validator \<Rightarrow> validator" where
  "appendMessages v d = \<lparr>errors = errors v @ errors d, warnings = warnings v @ warnings d\<rparr>"

definition accumulating :: "'a check \<Rightarrow> bool" where
  "accumulating f =
     (\<forall>v d. f (appendMessages v d) = (fst (f d), appendMessages v (snd (f d))))"

definition verdictAccumulating :: "bool check \<Rightarrow> bool" where
  "verdictAccumulating f =
     (\<forall>v d. f (appendMessages v d) =
        ((case fst (f d) of
            Returned valid \<Rightarrow> Returned (errors v = [] \<and> valid)
          | Threw e \<Rightarrow> Threw e),
         appendMessages v (snd (f d))))"

text \<open>A record with no entity reference and an empty area list.\<close>

definition recordWithoutEntityRef :: jsval where
  "recordWithoutEntityRef =
     JObj [(''generatedDateTimeUtc'', JStr ''2024-05-01T10:00:00Z''),
           (''areaScores'', JArr [])]"

text \<open>
  Records whose area list is missing, or is a string; and an entry that has no
  \<open>scorePercent\<close> property and declares the category \<open>partial\<close>.
\<close>

definition recordWithoutAreaScores :: jsval where
  "recordWithoutAreaScores =
     JObj [(''entityRef'', JObj [(''kind'', JStr ''component''), (''name'', JStr ''billing'')]),
           (''generatedDateTimeUtc'', JStr ''2024-05-01T10:00:00Z'')]"

definition recordWithAreaScoresString :: jsval where
  "recordWithAreaScoresString =
     JObj [(''entityRef'', JObj [(''kind'', JStr ''component''), (''name'', JStr ''billing'')]),
           (''generatedDateTimeUtc'', JStr ''2024-05-01T10:00:00Z''),
           (''areaScores'', JStr ''none'')]"

definition entryWithoutPercent :: jsval where
  "entryWithoutPercent =
     JObj [(''id'', JNum 1), (''title'', JStr ''Runbook''), (''details'', JStr ''Details''),
           (''scoreSuccess'', JStr ''partial'')]"












text \<open>
  The example record with a stored overall percent; a record that stores 80 over one
  area scoring 0 and one scoring 80; and a record that stores 10 over an area holding
  the entry without \<open>scorePercent\<close> and an entry scoring 80.
\<close>

definition storedRecord :: "rat \<Rightarrow> jsval list \<Rightarrow> jsval" where
  "storedRecord s areas =
     JObj [(''entityRef'', JObj [(''kind'', JStr ''component''), (''name'', JStr ''billing'')]),
           (''generatedDateTimeUtc'', JStr ''2024-05-01T10:00:00Z''),
           (''scorePercent'', JNum s),
           (''areaScores'', JArr areas)]"

definition zeroArea :: jsval where
  "zeroArea =
     JObj [(''id'', JNum 1), (''title'', JStr ''Security''),
           (''scoreEntries'', JArr [scoreEntry (JNum 0) ''failure'' (JBool False)])]"

definition eightyArea :: jsval where
  "eightyArea =
     JObj [(''id'', JNum 2), (''title'', JStr ''Operations''),
           (''scoreEntries'', JArr [scoreEntry (JNum 80) ''success'' (JBool False)])]"

definition undeclaredArea :: jsval where
  "undeclaredArea =
     JObj [(''id'', JNum 5), (''title'', JStr ''Runbooks''),
           (''scoreEntries'',
              JArr [entryWithoutPercent, scoreEntry (JNum 80) ''success'' (JBool False)])]"

section \<open>Properties of binary64 rounding\<close>

lemma bitlen_powi:
  assumes "0 < p"
  shows "power_int (2::rat) (bitlen p - 1) \<le> of_int p" "of_int p < power_int (2::rat) (bitlen p)"
proof -
  have b: "2 ^ nat (bitlen p - 1) \<le> p" "p < 2 ^ nat (bitlen p)"
    using bitlen_bounds [OF assms] by simp_all
  have ge: "1 \<le> bitlen p"
    using assms by (simp add: bitlen_alt_def)
  have "(of_int (2 ^ nat (bitlen p - 1)) :: rat) \<le> of_int p"
    using b(1) by (simp only: of_int_le_iff)
  then show "power_int (2::rat) (bitlen p - 1) \<le> of_int p"
    using ge by (simp add: power_int_def)
  have "(of_int p :: rat) < of_int (2 ^ nat (bitlen p))"
    using b(2) by (simp only: of_int_less_iff)
  then show "of_int p < power_int (2::rat) (bitlen p)"
    using ge by (simp add: power_int_def)
qed

lemma exponentOf_bounds:
  assumes "x \<noteq> 0"
  shows "power_int 2 (exponentOf x) \<le> \<bar>x\<bar> \<and> \<bar>x\<bar> < power_int 2 (exponentOf x + 1)"
proof -
  obtain p q where pq: "quotient_of \<bar>x\<bar> = (p, q)"
    by (cases "quotient_of \<bar>x\<bar>")
  have q: "0 < q"
    using pq by (rule quotient_of_denom_pos)
  have x: "\<bar>x\<bar> = of_int p / of_int q"
    using pq by (rule quotient_of_div)
  have "0 < \<bar>x\<bar>"
    using assms by simp
  then have p: "0 < p"
    using q by (simp add: x zero_less_divide_iff)
  define k where "k = bitlen p - bitlen q"
  have qr: "(0::rat) < of_int q"
    using q by simp
  have "of_int p < power_int (2::rat) (bitlen p)"
    by (rule bitlen_powi [OF p])
  moreover have "power_int (2::rat) (bitlen q - 1) \<le> of_int q"
    by (rule bitlen_powi [OF q])
  ultimately have "of_int p * power_int (2::rat) (bitlen q - 1) < power_int 2 (bitlen p) * of_int q"
    using qr p by (intro mult_less_le_imp_less) simp_all
  then have "of_int p / of_int q < power_int (2::rat) (bitlen p) / power_int 2 (bitlen q - 1)"
    using qr by (simp add: field_simps)
  also have "\<dots> = power_int 2 (bitlen p - (bitlen q - 1))"
    by (rule power_int_diff [symmetric]) simp
  also have "bitlen p - (bitlen q - 1) = k + 1"
    by (simp add: k_def)
  finally have up: "\<bar>x\<bar> < power_int 2 (k + 1)"
    by (simp only: x)
  have "power_int (2::rat) (bitlen p - 1) \<le> of_int p"
    by (rule bitlen_powi [OF p])
  moreover have "of_int q < power_int (2::rat) (bitlen q)"
    by (rule bitlen_powi [OF q])
  ultimately have "power_int (2::rat) (bitlen p - 1) * of_int q < of_int p * power_int 2 (bitlen q)"
    using qr p by (intro mult_le_less_imp_less) simp_all
  then have "power_int (2::rat) (bitlen p - 1) / power_int 2 (bitlen q) < of_int p / of_int q"
    using qr by (simp add: field_simps)
  moreover have "power_int (2::rat) (bitlen p - 1) / power_int 2 (bitlen q) =
      power_int 2 (bitlen p - 1 - bitlen q)"
    by (rule power_int_diff [symmetric]) simp
  moreover have "bitlen p - 1 - bitlen q = k - 1"
    by (simp add: k_def)
  ultimately have lo: "power_int 2 (k - 1) < \<bar>x\<bar>"
    by (simp only: x)
  show ?thesis
  proof (cases "power_int 2 k \<le> \<bar>x\<bar>")
    case True
    then have "exponentOf x = k"
      by (simp add: exponentOf_def pq k_def)
    then show ?thesis
      using True up by simp
  next
    case False
    then have "exponentOf x = k - 1"
      by (simp add: exponentOf_def pq k_def)
    then show ?thesis
      using False lo by simp
  qed
qed

lemma exponentOf_unique:
  assumes "power_int 2 e \<le> \<bar>x\<bar>" and "\<bar>x\<bar> < power_int 2 (e + 1)"
  shows "exponentOf x = e"
proof -
  have "(0::rat) < power_int 2 e"
    by simp
  then have "0 < \<bar>x\<bar>"
    using assms(1) by linarith
  then have x: "x \<noteq> 0"
    by simp
  note b = exponentOf_bounds [OF x]
  have lt: "power_int (2::rat) (exponentOf x) < power_int 2 (e + 1)"
    using b assms(2) by linarith
  have a: "exponentOf x < e + 1"
  proof (rule ccontr)
    assume "\<not> exponentOf x < e + 1"
    then have "power_int (2::rat) (e + 1) \<le> power_int 2 (exponentOf x)"
      by (intro power_int_increasing) simp_all
    then show False
      using lt by simp
  qed
  have gt: "power_int (2::rat) e < power_int 2 (exponentOf x + 1)"
    using b assms(1) by linarith
  have "e < exponentOf x + 1"
  proof (rule ccontr)
    assume "\<not> e < exponentOf x + 1"
    then have "power_int (2::rat) (exponentOf x + 1) \<le> power_int 2 e"
      by (intro power_int_increasing) simp_all
    then show False
      using gt by simp
  qed
  then show ?thesis
    using a by simp
qed

lemma roundHalfEven_int: "roundHalfEven (of_int n) = n"
  by (simp add: roundHalfEven_def)

lemma roundHalfEven_error: "\<bar>of_int (roundHalfEven q) - q\<bar> \<le> 1 / 2"
proof -
  have "of_int \<lfloor>q\<rfloor> \<le> q" "q < of_int \<lfloor>q\<rfloor> + 1"
    by linarith+
  then show ?thesis
    by (auto simp add: roundHalfEven_def)
qed

lemma roundHalfEven_nearest:
  assumes "\<bar>q - of_int n\<bar> < 1 / 2"
  shows "roundHalfEven q = n"
proof -
  have f: "of_int \<lfloor>q\<rfloor> \<le> q" "q < of_int \<lfloor>q\<rfloor> + 1"
    by linarith+
  have "of_int (n - 1) \<le> q" "q < of_int (n + 1)"
    using assms by linarith+
  then have "n - 1 \<le> \<lfloor>q\<rfloor>" "\<lfloor>q\<rfloor> < n + 1"
    by (simp_all only: le_floor_iff floor_less_iff)
  then have "\<lfloor>q\<rfloor> = n \<or> \<lfloor>q\<rfloor> = n - 1"
    by linarith
  then show ?thesis
  proof
    assume e: "\<lfloor>q\<rfloor> = n"
    have "q - of_int n < 1 / 2"
      using assms by linarith
    then show ?thesis
      by (simp add: roundHalfEven_def e)
  next
    assume e: "\<lfloor>q\<rfloor> = n - 1"
    have "1 / 2 < q - (of_int n - 1)"
      using assms by linarith
    then show ?thesis
      by (simp add: roundHalfEven_def e)
  qed
qed

lemma ulpOf_pos: "0 < ulpOf x"
  by (simp add: ulpOf_def)

lemma nearestDouble_error: "\<bar>nearestDouble x - x\<bar> \<le> ulpOf x / 2"
proof -
  have "\<bar>of_int (roundHalfEven (x / ulpOf x)) - x / ulpOf x\<bar> * ulpOf x \<le> 1 / 2 * ulpOf x"
    using ulpOf_pos [of x] by (intro mult_right_mono roundHalfEven_error) simp
  moreover have "\<bar>of_int (roundHalfEven (x / ulpOf x)) - x / ulpOf x\<bar> * ulpOf x =
      \<bar>nearestDouble x - x\<bar>"
  proof -
    have "\<bar>of_int (roundHalfEven (x / ulpOf x)) - x / ulpOf x\<bar> * \<bar>ulpOf x\<bar> =
        \<bar>(of_int (roundHalfEven (x / ulpOf x)) - x / ulpOf x) * ulpOf x\<bar>"
      by (simp only: abs_mult)
    also have "(of_int (roundHalfEven (x / ulpOf x)) - x / ulpOf x) * ulpOf x = nearestDouble x - x"
      using ulpOf_pos [of x] by (simp add: nearestDouble_def left_diff_distrib)
    finally show ?thesis
      using ulpOf_pos [of x] by simp
  qed
  ultimately show ?thesis
    by simp
qed

lemma ulpOf_bound:
  assumes "x \<noteq> 0"
  shows "ulpOf x / 2 \<le> \<bar>x\<bar> / 2 ^ 53 + 1 / 2 ^ 1075"
proof (cases "exponentOf x < - 1022")
  case True
  then have "max (exponentOf x) (- 1022) = - 1022"
    by simp
  then have "ulpOf x = power_int 2 (- 1074)"
    by (simp add: ulpOf_def)
  then have "ulpOf x / 2 = 1 / 2 ^ 1075"
    by (simp add: power_int_minus field_simps)
  then show ?thesis
    by simp
next
  case False
  then have e: "max (exponentOf x) (- 1022) = exponentOf x"
    by simp
  have "ulpOf x = power_int 2 (exponentOf x) / 2 ^ 52"
    by (simp add: ulpOf_def e power_int_diff)
  then have "ulpOf x / 2 = power_int 2 (exponentOf x) / 2 ^ 53"
    by simp
  also have "\<dots> \<le> \<bar>x\<bar> / 2 ^ 53"
    using exponentOf_bounds [OF assms] by (simp add: divide_right_mono)
  finally show ?thesis
    by simp
qed

lemma nearestDouble_zero: "nearestDouble 0 = 0"
  by (simp add: nearestDouble_def roundHalfEven_def)

lemma nearestDouble_accuracy: "\<bar>nearestDouble x - x\<bar> \<le> \<bar>x\<bar> / 2 ^ 53 + 1 / 2 ^ 1075"
proof (cases "x = 0")
  case True
  then show ?thesis
    by (simp add: nearestDouble_zero)
next
  case False
  then show ?thesis
    using nearestDouble_error [of x] ulpOf_bound [of x] by linarith
qed

lemma roundDouble_zero: "roundDouble 0 = JNum 0"
  by (simp add: roundDouble_def nearestDouble_zero)

text \<open>Below the overflow threshold the rounded value is finite and close.\<close>

lemma roundDouble_finite:
  assumes "\<bar>x\<bar> \<le> 2 ^ 1023"
  shows "roundDouble x = JNum (nearestDouble x)"
proof -
  have "\<bar>nearestDouble x - x\<bar> \<le> \<bar>x\<bar> / 2 ^ 53 + 1 / 2 ^ 1075"
    by (rule nearestDouble_accuracy)
  also have "\<dots> \<le> 2 ^ 1023 / 2 ^ 53 + 1 / 2 ^ 1075"
    using assms by (simp add: divide_right_mono)
  finally have "\<bar>nearestDouble x\<bar> \<le> 2 ^ 1023 + (2 ^ 1023 / 2 ^ 53 + 1 / 2 ^ 1075)"
    using assms by linarith
  also have "\<dots> < 2 ^ 1024"
    by simp
  finally have "\<bar>nearestDouble x\<bar> < 2 ^ 1024" .
  then show ?thesis
    by (simp add: roundDouble_def abs_less_iff not_le)
qed

text \<open>A number with a 53-bit significand and an exponent in range is its own rounding.\<close>

lemma nearestDouble_exact:
  assumes "\<bar>m\<bar> < 2 ^ 53" and "- 1074 \<le> k"
  shows "nearestDouble (of_int m * power_int 2 k) = of_int m * power_int 2 k"
proof (cases "m = 0")
  case True
  then show ?thesis
    by (simp add: nearestDouble_zero)
next
  case False
  define x :: rat where "x = of_int m * power_int 2 k"
  have x: "x \<noteq> 0"
    using False by (simp add: x_def)
  have "\<bar>x\<bar> = of_int \<bar>m\<bar> * power_int 2 k"
    by (simp add: x_def abs_mult)
  also have "\<dots> < of_int (2 ^ 53) * power_int 2 k"
    using assms(1) by (intro mult_strict_right_mono) (simp_all only: of_int_less_iff zero_less_power_int zero_less_numeral)
  also have "\<dots> = power_int 2 (53 + k)"
    by (simp add: power_int_add)
  finally have up: "\<bar>x\<bar> < power_int 2 (53 + k)" .
  have e: "exponentOf x < 53 + k"
  proof (rule ccontr)
    assume "\<not> exponentOf x < 53 + k"
    then have "power_int (2::rat) (53 + k) \<le> power_int 2 (exponentOf x)"
      by (intro power_int_increasing) simp_all
    then show False
      using up exponentOf_bounds [OF x] by linarith
  qed
  define d where "d = k - (max (exponentOf x) (- 1022) - 52)"
  have d: "0 \<le> d"
    using e assms(2) by (simp add: d_def)
  have u: "ulpOf x = power_int 2 (k - d)"
    by (simp add: ulpOf_def d_def)
  have "x / ulpOf x = x / power_int 2 (k - d)"
    by (simp only: u)
  also have "\<dots> = of_int m * (power_int 2 k / power_int 2 (k - d))"
    by (simp add: x_def)
  also have "power_int (2::rat) k / power_int 2 (k - d) = power_int 2 (k - (k - d))"
    by (rule power_int_diff [symmetric]) simp
  also have "k - (k - d) = d"
    by simp
  also have "power_int (2::rat) d = of_int (2 ^ nat d)"
    using d by (simp add: power_int_def)
  finally have q: "x / ulpOf x = of_int (m * 2 ^ nat d)"
    by simp
  have "nearestDouble x = of_int (m * 2 ^ nat d) * ulpOf x"
    by (simp only: nearestDouble_def q roundHalfEven_int)
  also have "\<dots> = x / ulpOf x * ulpOf x"
    by (simp only: q)
  also have "\<dots> = x"
    using ulpOf_pos [of x] by simp
  finally show ?thesis
    by (simp only: x_def)
qed

lemma roundDouble_exact:
  assumes "\<bar>m\<bar> < 2 ^ 53" and "- 1074 \<le> k" and "k \<le> 970"
  shows "roundDouble (of_int m * power_int 2 k) = JNum (of_int m * power_int 2 k)"
proof -
  have "\<bar>of_int m * power_int (2::rat) k\<bar> = of_int \<bar>m\<bar> * power_int 2 k"
    by (simp add: abs_mult)
  also have "\<dots> \<le> of_int (2 ^ 53) * power_int 2 970"
    using assms(1,3)
    by (intro mult_mono power_int_increasing) (simp_all only: of_int_le_iff, simp_all)
  also have "\<dots> = 2 ^ 1023"
    by simp
  finally show ?thesis
    using nearestDouble_exact [OF assms(1,2)] by (simp add: roundDouble_finite)
qed

lemma roundDouble_int: "\<bar>m\<bar> < 2 ^ 53 \<Longrightarrow> roundDouble (of_int m) = JNum (of_int m)"
  using roundDouble_exact [of m 0] by simp

lemma roundDouble_numeral:
  "numeral n < (2::int) ^ 53 \<Longrightarrow> roundDouble (numeral n) = JNum (numeral n)"
  using roundDouble_int [of "numeral n"] by simp

lemma roundDouble_halves:
  "\<bar>m\<bar> < 2 ^ 53 \<Longrightarrow> roundDouble (of_int m / 2) = JNum (of_int m / 2)"
  "\<bar>m\<bar> < 2 ^ 53 \<Longrightarrow> roundDouble (of_int m / 4) = JNum (of_int m / 4)"
  using roundDouble_exact [of m "- 1"] roundDouble_exact [of m "- 2"]
  by (simp_all add: power_int_minus field_simps)

text \<open>Evaluating a rounding: the exponent and the rounded significand are given.\<close>

lemma roundHalfEven_even:
  assumes "\<bar>q - of_int n\<bar> \<le> 1 / 2" and "even n"
  shows "roundHalfEven q = n"
proof (cases "\<bar>q - of_int n\<bar> < 1 / 2")
  case True
  then show ?thesis
    by (rule roundHalfEven_nearest)
next
  case False
  then have "q = of_int n + 1 / 2 \<or> q = of_int (n - 1) + 1 / 2"
    using assms(1) by (simp only: of_int_diff of_int_1) linarith
  then show ?thesis
  proof
    assume q: "q = of_int n + 1 / 2"
    have "\<lfloor>q\<rfloor> = n"
      unfolding q by (rule floor_unique) simp_all
    then show ?thesis
      using assms(2) by (simp add: roundHalfEven_def q)
  next
    assume q: "q = of_int (n - 1) + 1 / 2"
    have "\<lfloor>q\<rfloor> = n - 1"
      unfolding q by (rule floor_unique) simp_all
    then show ?thesis
      using assms(2) by (simp add: roundHalfEven_def q)
  qed
qed

lemma roundDouble_nearest:
  assumes "power_int 2 e \<le> \<bar>x\<bar>" and "\<bar>x\<bar> < power_int 2 (e + 1)"
    and "- 1022 \<le> e" and "e \<le> 1022"
    and "roundHalfEven (x / power_int 2 (e - 52)) = n"
  shows "roundDouble x = JNum (of_int n * power_int 2 (e - 52))"
proof -
  have e: "exponentOf x = e"
    using assms(1,2) by (rule exponentOf_unique)
  have u: "ulpOf x = power_int 2 (e - 52)"
    using assms(3) by (simp add: ulpOf_def e)
  have n: "nearestDouble x = of_int n * power_int 2 (e - 52)"
    using assms(5) by (simp add: nearestDouble_def u)
  have "power_int (2::rat) (e + 1) \<le> power_int 2 1023"
    using assms(4) by (intro power_int_increasing) simp_all
  then have "\<bar>x\<bar> \<le> 2 ^ 1023"
    using assms(2) by simp
  then show ?thesis
    by (simp add: roundDouble_finite n)
qed

section \<open>Properties of the JavaScript layer\<close>

lemma isNumber_typeof: "isNumber v = (typeof v = TNumber)"
  by (cases v) simp_all

lemma isNumber_roundDouble: "isNumber (roundDouble x)"
  by (simp add: roundDouble_def)

lemma isNumber_numAdd: "isNumber a \<Longrightarrow> isNumber b \<Longrightarrow> isNumber (numAdd a b)"
  by (cases a; cases b) (simp_all add: isNumber_roundDouble)

lemma isNumber_numDivCount: "isNumber a \<Longrightarrow> isNumber (numDivCount a n)"
  by (cases a) (simp_all add: isNumber_roundDouble)

lemma isNumber_foldl:
  "isNumber acc \<Longrightarrow> list_all isNumber ps \<Longrightarrow> isNumber (foldl numAdd acc ps)"
  by (induction ps arbitrary: acc) (simp_all add: isNumber_numAdd)

lemma toNumber_number: "isNumber a \<Longrightarrow> toNumber B a = Returned a"
  by (cases a) simp_all

lemma toPrimitive_number: "isNumber a \<Longrightarrow> toPrimitive B a = Returned a"
  by (cases a) simp_all

lemma isString_number: "isNumber a \<Longrightarrow> \<not> isString a"
  by (cases a) simp_all

lemma jsAdd_numbers: "isNumber a \<Longrightarrow> isNumber b \<Longrightarrow> jsAdd B a b = Returned (numAdd a b)"
  by (simp add: jsAdd_def toPrimitive_number isString_number toNumber_number)

lemma jsDivCount_number: "isNumber a \<Longrightarrow> jsDivCount B a n = Returned (numDivCount a n)"
  by (simp add: jsDivCount_def toNumber_number)

lemma jsGt_number: "isNumber a \<Longrightarrow> jsGt B a r = Returned (numGt a r)"
  by (simp add: jsGt_def toNumber_number)

lemma mathRound_number: "isNumber a \<Longrightarrow> mathRound B a = Returned (roundNumber a)"
  by (simp add: mathRound_def toNumber_number)

lemma numericPercent_not_nullish: "numericPercent a \<Longrightarrow> \<not> nullish a"
  by (cases a) (simp_all add: numericPercent_def)

lemma list_all_filter: "list_all P xs \<Longrightarrow> list_all P (filter Q xs)"
  by (induction xs) simp_all

text \<open>Small whole numbers, halves and quarters are doubles.\<close>

lemma roundDouble_small:
  "roundDouble 0 = JNum 0"
  "roundDouble 1 = JNum 1"
  "numeral n < (2::int) ^ 53 \<Longrightarrow> roundDouble (numeral n) = JNum (numeral n)"
  "numeral n < (2::int) ^ 53 \<Longrightarrow> roundDouble (numeral n / 2) = JNum (numeral n / 2)"
  "numeral n < (2::int) ^ 53 \<Longrightarrow> roundDouble (numeral n / 4) = JNum (numeral n / 4)"
  using roundDouble_int [of 1] roundDouble_int [of "numeral n"]
    roundDouble_halves [of "numeral n"]
  by (simp_all add: roundDouble_zero)

section \<open>The mean in binary64 and the exact mean\<close>

lemma percentInRange_value: "percentInRange p \<Longrightarrow> p = JNum (valueOf p)"
  by (cases p) simp_all

lemma percentInRange_bounds: "percentInRange p \<Longrightarrow> 0 \<le> valueOf p \<and> valueOf p \<le> 100"
  by (cases p) simp_all

lemma sum_percents_bounds:
  "list_all percentInRange ps \<Longrightarrow>
   0 \<le> sum_list (map valueOf ps) \<and> sum_list (map valueOf ps) \<le> 100 * of_nat (length ps)"
proof (induction ps)
  case Nil
  then show ?case by simp
next
  case (Cons p ps)
  then show ?case
    using percentInRange_bounds [of p] by (simp add: algebra_simps)
qed

text \<open>
  The running sum of at most \<open>N\<close> percents, \<open>N\<close> below \<open>2^32\<close> as the length of every
  array is: each addition is off by at most \<open>200 N / 2^53 + 1 / 2^1075\<close>.
\<close>

lemma foldl_numAdd_accuracy:
  assumes "N \<le> 2 ^ 32"
  shows "list_all percentInRange ps \<Longrightarrow> length ps \<le> N \<Longrightarrow>
    \<exists>t. foldl numAdd (JNum 0) ps = JNum t \<and>
        \<bar>t - sum_list (map valueOf ps)\<bar> \<le>
          of_nat (length ps) * (200 * of_nat N / 2 ^ 53 + 1 / 2 ^ 1075)"
proof (induction ps rule: rev_induct)
  case Nil
  then show ?case by simp
next
  case (snoc p ps)
  define c :: rat where "c = 200 * of_nat N / 2 ^ 53 + 1 / 2 ^ 1075"
  define k :: rat where "k = of_nat (length ps)"
  define s where "s = sum_list (map valueOf ps)"
  have ps: "list_all percentInRange ps" and p: "percentInRange p" and len: "Suc (length ps) \<le> N"
    using snoc.prems by simp_all
  obtain t where t: "foldl numAdd (JNum 0) ps = JNum t" and e: "\<bar>t - s\<bar> \<le> k * c"
    using snoc.IH [OF ps] len by (auto simp add: c_def k_def s_def)
  have N: "(of_nat N :: rat) \<le> 2 ^ 32"
    using assms by (metis of_nat_le_iff of_nat_numeral of_nat_power)
  have kN: "k + 1 \<le> of_nat N"
    using len by (simp add: k_def flip: of_nat_Suc) 
  have k0: "0 \<le> k"
    by (simp add: k_def)
  have c0: "0 \<le> c" and c100: "c \<le> 100"
    using N by (simp_all add: c_def)
  have sb: "0 \<le> s" "s \<le> 100 * k"
    using sum_percents_bounds [OF ps] by (simp_all add: s_def k_def)
  have rb: "0 \<le> valueOf p" "valueOf p \<le> 100"
    using percentInRange_bounds [OF p] by simp_all
  have "k * c \<le> of_nat N * 100"
    using kN k0 c0 c100 by (intro mult_mono) simp_all
  then have x: "\<bar>t + valueOf p\<bar> \<le> 200 * of_nat N"
    using e sb rb kN by linarith
  have "(200 * of_nat N :: rat) \<le> 200 * 2 ^ 32"
    using N by simp
  also have "\<dots> \<le> 2 ^ 1023"
    by simp
  finally have fin: "roundDouble (t + valueOf p) = JNum (nearestDouble (t + valueOf p))"
    using x by (intro roundDouble_finite) linarith
  have "\<bar>nearestDouble (t + valueOf p) - (t + valueOf p)\<bar> \<le>
      \<bar>t + valueOf p\<bar> / 2 ^ 53 + 1 / 2 ^ 1075"
    by (rule nearestDouble_accuracy)
  also have "\<dots> \<le> c"
    using x by (simp add: c_def divide_right_mono)
  finally have step: "\<bar>nearestDouble (t + valueOf p) - (t + valueOf p)\<bar> \<le> c" .
  have "\<bar>nearestDouble (t + valueOf p) - (s + valueOf p)\<bar> \<le> (k + 1) * c"
    using step e by (simp add: algebra_simps)
  moreover have "numAdd (JNum t) p = roundDouble (t + valueOf p)"
    using p by (cases p) simp_all
  then have "foldl numAdd (JNum 0) (ps @ [p]) = JNum (nearestDouble (t + valueOf p))"
    by (simp add: t fin)
  ultimately show ?case
    by (simp add: c_def k_def s_def algebra_simps)
qed

text \<open>
  The mean that binary64 arithmetic computes of \<open>n\<close> percents between 0 and 100 is a
  finite number within \<open>(n + 1) / 2^45\<close> of their exact mean.
\<close>

lemma floatMean_accuracy:
  assumes "list_all percentInRange ps" and "ps \<noteq> []" and "length ps \<le> 2 ^ 32"
  shows "\<exists>m. floatMean ps = JNum m \<and>
      \<bar>m - arithmeticMean (map valueOf ps)\<bar> \<le> of_nat (length ps + 1) / 2 ^ 45"
proof -
  define n :: rat where "n = of_nat (length ps)"
  define c :: rat where "c = 200 * n / 2 ^ 53 + 1 / 2 ^ 1075"
  define s where "s = sum_list (map valueOf ps)"
  obtain t where t: "foldl numAdd (JNum 0) ps = JNum t" and e: "\<bar>t - s\<bar> \<le> n * c"
    using foldl_numAdd_accuracy [OF assms(3) assms(1) order_refl]
    by (auto simp add: c_def n_def s_def)
  have n1: "1 \<le> n"
    using assms(2) by (cases ps) (simp_all add: n_def)
  have n32: "n \<le> 2 ^ 32"
    unfolding n_def using assms(3) by (metis of_nat_le_iff of_nat_numeral of_nat_power)
  have c0: "0 \<le> c" and c100: "c \<le> 100"
    using n1 n32 by (simp_all add: c_def)
  have sb: "0 \<le> s" "s \<le> 100 * n"
    using sum_percents_bounds [OF assms(1)] by (simp_all add: s_def n_def)
  have q: "\<bar>t / n - s / n\<bar> \<le> c"
  proof -
    have "\<bar>t / n - s / n\<bar> = \<bar>t - s\<bar> / n"
      using n1 by (simp add: diff_divide_distrib [symmetric] abs_divide)
    also have "\<dots> \<le> n * c / n"
      using e n1 by (intro divide_right_mono) simp_all
    also have "\<dots> = c"
      using n1 by simp
    finally show ?thesis .
  qed
  have "s / n \<le> 100"
    using sb n1 by (simp add: pos_divide_le_eq)
  moreover have "0 \<le> s / n"
    using sb n1 by simp
  ultimately have y: "\<bar>t / n\<bar> \<le> 200"
    using q c100 by linarith
  have "(200::rat) \<le> 2 ^ 1023"
    by simp
  then have fin: "roundDouble (t / n) = JNum (nearestDouble (t / n))"
    using y by (intro roundDouble_finite) linarith
  have "\<bar>nearestDouble (t / n) - t / n\<bar> \<le> \<bar>t / n\<bar> / 2 ^ 53 + 1 / 2 ^ 1075"
    by (rule nearestDouble_accuracy)
  also have "\<dots> \<le> 200 / 2 ^ 53 + 1 / 2 ^ 1075"
    using y by (simp add: divide_right_mono)
  finally have r: "\<bar>nearestDouble (t / n) - t / n\<bar> \<le> 200 / 2 ^ 53 + 1 / 2 ^ 1075" .
  define u :: rat where "u = 200 / 2 ^ 53"
  define w :: rat where "w = 1 / 2 ^ 1075"
  have uw: "0 \<le> w" "u + w \<le> 1 / 2 ^ 45"
    by (simp_all add: u_def w_def)
  have cu: "c = n * u + w"
    by (simp add: c_def u_def w_def)
  have "1 * w \<le> n * w"
    using n1 uw(1) by (intro mult_right_mono)
  then have "n * u + w + (u + w) \<le> (n + 1) * (u + w)"
    by (simp add: algebra_simps)
  also have "\<dots> \<le> (n + 1) * (1 / 2 ^ 45)"
    using n1 uw(2) by (intro mult_left_mono) simp_all
  finally have total: "c + (u + w) \<le> (n + 1) / 2 ^ 45"
    by (simp add: cu)
  have r': "\<bar>nearestDouble (t / n) - t / n\<bar> \<le> u + w"
    using r by (simp only: u_def w_def)
  have "\<bar>nearestDouble (t / n) - s / n\<bar> \<le> (n + 1) / 2 ^ 45"
    using q r' total by linarith
  moreover have "floatMean ps = JNum (nearestDouble (t / n))"
    using assms(2) fin by (simp add: floatMean_def t n_def)
  ultimately show ?thesis
    by (simp add: arithmeticMean_def s_def n_def)
qed

section \<open>The overall reduction\<close>

text \<open>Every area result that \<open>processAreaScore\<close> returns carries a numeric percent.\<close>

lemma isNumber_stringNumber: "isNumber (stringNumber B s)"
  by (simp add: stringNumber_def isNumber_roundDouble split: option.splits)

lemma isNumber_toNumber: "toNumber B a = Returned x \<Longrightarrow> isNumber x"
  by (cases a) (auto simp add: isNumber_stringNumber split: outcome.splits if_splits)

lemma isNumber_jsDivCount: "jsDivCount B a n = Returned x \<Longrightarrow> isNumber x"
  by (auto simp add: jsDivCount_def isNumber_numDivCount dest: isNumber_toNumber
        split: outcome.splits)

lemma processAreaScore_numeric:
  "processAreaScore B area = Returned r \<Longrightarrow> numericPercent r"
  by (auto simp add: processAreaScore_def numericPercent_def
        dest: isNumber_jsDivCount split: if_splits jsval.splits outcome.splits)

lemma sumScorePercent_numbers:
  "list_all numericPercent xs \<Longrightarrow> isNumber acc \<Longrightarrow>
   sumScorePercent B acc xs = Returned (foldl numAdd acc (map percentOf xs))"
proof (induction xs arbitrary: acc)
  case Nil
  then show ?case by simp
next
  case (Cons x xs)
  have x: "isNumber (field x ''scorePercent'')"
    using Cons.prems(1) by (simp add: numericPercent_def)
  have rest: "list_all numericPercent xs"
    using Cons.prems(1) by simp
  have n: "\<not> nullish x"
    using Cons.prems(1) by (simp add: numericPercent_not_nullish)
  show ?case
    using Cons.IH [OF rest isNumber_numAdd [OF Cons.prems(2) x]]
    by (simp add: n jsAdd_numbers [OF Cons.prems(2) x] percentOf_def)
qed

lemma filterScoredAreas_numbers:
  "list_all numericPercent areas \<Longrightarrow>
   filterScoredAreas B areas = Returned (filter (\<lambda>a. numGt (percentOf a) 0) areas)"
  by (induction areas)
     (simp_all add: numericPercent_not_nullish jsGt_number numericPercent_def percentOf_def)

lemma numericPercent_percents:
  "list_all numericPercent areas \<Longrightarrow> list_all isNumber (map percentOf areas)"
  by (induction areas) (simp_all add: numericPercent_def percentOf_def)

lemma calculateOverallScore_scored_areas:
  assumes "list_all numericPercent areas"
  shows "calculateOverallScore B areas =
    Returned (JObj [(''scorePercent'',
      if filter (\<lambda>a. numGt (percentOf a) 0) areas = [] then JNum 0
      else floatMean (map percentOf (filter (\<lambda>a. numGt (percentOf a) 0) areas)))])"
proof -
  let ?scored = "filter (\<lambda>a. numGt (percentOf a) 0) areas"
  have f: "filterScoredAreas B areas = Returned ?scored"
    using assms by (rule filterScoredAreas_numbers)
  have n: "list_all numericPercent ?scored"
    using assms by (rule list_all_filter)
  have s: "sumScorePercent B (JNum 0) ?scored =
      Returned (foldl numAdd (JNum 0) (map percentOf ?scored))"
    using n by (rule sumScorePercent_numbers) simp
  have t: "isNumber (foldl numAdd (JNum 0) (map percentOf ?scored))"
    using numericPercent_percents [OF n] by (intro isNumber_foldl) simp_all
  show ?thesis
    unfolding calculateOverallScore_def f
    by (simp add: s jsDivCount_number [OF t] floatMean_def)
qed

lemma areaResult_fields:
  "field (areaResult p) ''scorePercent'' = JNum p"
  "percentOf (areaResult p) = JNum p"
  "numericPercent (areaResult p)"
  by (simp_all add: areaResult_def percentOf_def numericPercent_def)

text \<open>
  Sums and quotients of the examples. The first sum of the three area percents
  57, 96.33333333333333 and 56.666666666666664 lies halfway between two doubles and
  goes to the even one.
\<close>

lemma floatMean_80_60: "floatMean [JNum 80, JNum 60] = JNum 70"
  by (simp add: floatMean_def roundDouble_small)

lemma thirds_sums:
  "numAdd (JNum 0) (JNum 57) = JNum 57"
  "numAdd (JNum 57) (JNum (6778855689114965 / 70368744177664)) =
     JNum (2697468526810453 / 17592186044416)"
  "numAdd (JNum (2697468526810453 / 17592186044416)) (JNum (7975124340135253 / 140737488355328)) =
     JNum (7388718138654719 / 35184372088832)"
proof -
  show "numAdd (JNum 0) (JNum 57) = JNum 57"
    by (simp add: roundDouble_small)
  have a: "roundHalfEven ((57 + 6778855689114965 / 70368744177664) / power_int 2 (7 - 52)) =
      5394937053620906"
    by (rule roundHalfEven_even) (simp_all add: power_int_minus)
  show "numAdd (JNum 57) (JNum (6778855689114965 / 70368744177664)) =
     JNum (2697468526810453 / 17592186044416)"
    using roundDouble_nearest [OF _ _ _ _ a] by (simp add: power_int_minus)
  have b: "roundHalfEven ((2697468526810453 / 17592186044416 + 7975124340135253 / 140737488355328) /
      power_int 2 (7 - 52)) = 7388718138654719"
    by (rule roundHalfEven_nearest) (simp add: power_int_minus)
  show "numAdd (JNum (2697468526810453 / 17592186044416)) (JNum (7975124340135253 / 140737488355328)) =
     JNum (7388718138654719 / 35184372088832)"
    using roundDouble_nearest [OF _ _ _ _ b] by (simp add: power_int_minus)
qed

lemma thirds_quotients:
  "numDivCount (JNum 289) 3 = JNum (6778855689114965 / 70368744177664)"
  "numDivCount (JNum 170) 3 = JNum (7975124340135253 / 140737488355328)"
  "numDivCount (JNum (7388718138654719 / 35184372088832)) 3 =
     JNum (4925812092436479 / 70368744177664)"
proof -
  have a: "roundHalfEven (289 / 3 / power_int 2 (6 - 52)) = 6778855689114965"
    by (rule roundHalfEven_nearest) (simp add: power_int_minus)
  show "numDivCount (JNum 289) 3 = JNum (6778855689114965 / 70368744177664)"
    using roundDouble_nearest [OF _ _ _ _ a] by (simp add: power_int_minus)
  have b: "roundHalfEven (170 / 3 / power_int 2 (5 - 52)) = 7975124340135253"
    by (rule roundHalfEven_nearest) (simp add: power_int_minus)
  show "numDivCount (JNum 170) 3 = JNum (7975124340135253 / 140737488355328)"
    using roundDouble_nearest [OF _ _ _ _ b] by (simp add: power_int_minus)
  have c: "roundHalfEven (7388718138654719 / 35184372088832 / 3 / power_int 2 (6 - 52)) =
      4925812092436479"
    by (rule roundHalfEven_nearest) (simp add: power_int_minus)
  show "numDivCount (JNum (7388718138654719 / 35184372088832)) 3 =
     JNum (4925812092436479 / 70368744177664)"
    using roundDouble_nearest [OF _ _ _ _ c] by (simp add: power_int_minus)
qed

lemma thirds_nearest_mean:
  "roundDouble (29554872554618879 / 422212465065984) = JNum 70"
proof -
  have a: "roundHalfEven (29554872554618879 / 422212465065984 / power_int 2 (6 - 52)) =
      4925812092436480"
    by (rule roundHalfEven_nearest) (simp add: power_int_minus)
  show ?thesis
    using roundDouble_nearest [OF _ _ _ _ a] by (simp add: power_int_minus)
qed

text \<open>
  C1 (amended). For every list of area results (each with a numeric percent, as every
  result of \<open>processAreaScore\<close> has), \<open>calculateOverallScore\<close> returns the mean of exactly the percents that are strictly
  greater than zero, as binary64 arithmetic computes it: the percents are added to 0
  from left to right, every sum is rounded to the nearest double, and the total is
  divided by their count and rounded. It returns 0 when no percent is greater than
  zero. When the percents lie between 0 and 100, the mean of the \<open>n\<close> percents greater
  than zero is a finite number within \<open>(n + 1) / 2^45\<close> of their exact arithmetic mean.
\<close>

theorem calculateOverallScore_mean:
  assumes "list_all numericPercent areas"
  shows "calculateOverallScore B areas =
      Returned (JObj [(''scorePercent'',
        if filter (\<lambda>p. numGt p 0) (map percentOf areas) = [] then JNum 0
        else floatMean (filter (\<lambda>p. numGt p 0) (map percentOf areas)))]) \<and>
    (list_all percentInRange (map percentOf areas) \<and> length areas \<le> 2 ^ 32 \<and>
     filter (\<lambda>p. numGt p 0) (map percentOf areas) \<noteq> [] \<longrightarrow>
       (\<exists>m. floatMean (filter (\<lambda>p. numGt p 0) (map percentOf areas)) = JNum m \<and>
            \<bar>m - arithmeticMean
                   (map valueOf (filter (\<lambda>p. numGt p 0) (map percentOf areas)))\<bar> \<le>
              of_nat (length (filter (\<lambda>p. numGt p 0) (map percentOf areas)) + 1) / 2 ^ 45))"
proof (intro conjI impI)
  have m: "filter (\<lambda>p. numGt p 0) (map percentOf areas) =
      map percentOf (filter (\<lambda>a. numGt (percentOf a) 0) areas)"
    by (simp add: filter_map comp_def)
  have e: "(filter (\<lambda>p. numGt p 0) (map percentOf areas) = []) =
      (filter (\<lambda>a. numGt (percentOf a) 0) areas = [])"
    by (simp only: m map_is_Nil_conv)
  show "calculateOverallScore B areas =
      Returned (JObj [(''scorePercent'',
        if filter (\<lambda>p. numGt p 0) (map percentOf areas) = [] then JNum 0
        else floatMean (filter (\<lambda>p. numGt p 0) (map percentOf areas)))])"
    unfolding calculateOverallScore_scored_areas [OF assms] e
    by (simp add: m)
next
  let ?positive = "filter (\<lambda>p. numGt p 0) (map percentOf areas)"
  assume h: "list_all percentInRange (map percentOf areas) \<and> length areas \<le> 2 ^ 32 \<and>
     ?positive \<noteq> []"
  have r: "list_all percentInRange ?positive"
    using h by (intro list_all_filter) simp
  have "length ?positive \<le> length (map percentOf areas)"
    by (rule length_filter_le)
  moreover have "length (map percentOf areas) \<le> 2 ^ 32"
    using h by simp
  ultimately have l: "length ?positive \<le> 2 ^ 32"
    by (rule order_trans)
  show "\<exists>m. floatMean ?positive = JNum m \<and>
      \<bar>m - arithmeticMean (map valueOf ?positive)\<bar> \<le> of_nat (length ?positive + 1) / 2 ^ 45"
    using r _ l by (rule floatMean_accuracy) (simp add: h)
qed

text \<open>The case of the specification: area percents 0, 80 and 60 give 70.\<close>

theorem calculateOverallScore_mean_witness:
  "list_all numericPercent [areaResult 0, areaResult 80, areaResult 60] \<and>
   calculateOverallScore sampleBuiltins [areaResult 0, areaResult 80, areaResult 60] =
     Returned (JObj [(''scorePercent'', JNum 70)]) \<and>
   list_all percentInRange (map percentOf [areaResult 0, areaResult 80, areaResult 60]) \<and>
   \<bar>70 - arithmeticMean [80, 60]\<bar> \<le> of_nat (2 + 1) / (2 ^ 45 :: rat)"
proof -
  have h: "list_all numericPercent [areaResult 0, areaResult 80, areaResult 60]"
    by (simp add: areaResult_fields)
  note t = calculateOverallScore_mean [OF h, of sampleBuiltins]
  have p: "filter (\<lambda>p. numGt p 0) (map percentOf [areaResult 0, areaResult 80, areaResult 60]) =
      [JNum 80, JNum 60]"
    by (simp add: areaResult_fields)
  have r: "list_all percentInRange (map percentOf [areaResult 0, areaResult 80, areaResult 60])"
    by (simp add: areaResult_fields)
  have c: "calculateOverallScore sampleBuiltins [areaResult 0, areaResult 80, areaResult 60] =
      Returned (JObj [(''scorePercent'', JNum 70)])"
    using t [THEN conjunct1] by (simp only: p floatMean_80_60) simp
  have "\<exists>m. floatMean [JNum 80, JNum 60] = JNum m \<and>
      \<bar>m - arithmeticMean (map valueOf [JNum 80, JNum 60])\<bar> \<le>
        of_nat (length [JNum 80, JNum 60] + 1) / 2 ^ 45"
    using t [THEN conjunct2] r by (simp only: p) simp
  then have a: "\<bar>70 - arithmeticMean [80, 60]\<bar> \<le> of_nat (2 + 1) / (2 ^ 45 :: rat)"
    by (simp add: floatMean_80_60)
  show ?thesis
    using h c r a by (intro conjI)
qed

text \<open>
  The claim as first stated fails: the area percents 57, 96.33333333333333 and
  56.666666666666664 (the doubles that \<open>289 / 3\<close> and \<open>170 / 3\<close> round to) are all
  greater than zero, and the overall score is 69.99999999999999, which is neither
  their arithmetic mean nor the double nearest to it, 70.
\<close>

theorem calculateOverallScore_mean_counterexample:
  "calculateOverallScore sampleBuiltins
     [areaResult 57, areaResult (6778855689114965 / 70368744177664),
      areaResult (7975124340135253 / 140737488355328)] =
     Returned (JObj [(''scorePercent'', JNum (4925812092436479 / 70368744177664))]) \<and>
   arithmeticMean [57, 6778855689114965 / 70368744177664, 7975124340135253 / 140737488355328] =
     29554872554618879 / 422212465065984 \<and>
   (4925812092436479 / 70368744177664 :: rat) \<noteq> 29554872554618879 / 422212465065984 \<and>
   roundDouble (29554872554618879 / 422212465065984) = JNum 70 \<and>
   (4925812092436479 / 70368744177664 :: rat) \<noteq> 70"
proof -
  have h: "list_all numericPercent
     [areaResult 57, areaResult (6778855689114965 / 70368744177664),
      areaResult (7975124340135253 / 140737488355328)]"
    by (simp add: areaResult_fields)
  have c: "calculateOverallScore sampleBuiltins
     [areaResult 57, areaResult (6778855689114965 / 70368744177664),
      areaResult (7975124340135253 / 140737488355328)] =
     Returned (JObj [(''scorePercent'', JNum (4925812092436479 / 70368744177664))])"
    unfolding calculateOverallScore_scored_areas [OF h]
    by (simp add: areaResult_fields floatMean_def thirds_sums thirds_quotients
          numeral_3_eq_3 [symmetric] del: numAdd.simps numDivCount.simps)
  have m: "arithmeticMean
      [57, 6778855689114965 / 70368744177664, 7975124340135253 / 140737488355328] =
     29554872554618879 / 422212465065984"
    by (simp add: arithmeticMean_def)
  show ?thesis
    using c m thirds_nearest_mean by (intro conjI) simp_all
qed

section \<open>The area reduction\<close>

lemma scoreEntry_fields:
  "field (scoreEntry percent success optional) ''scorePercent'' = percent"
  "field (scoreEntry percent success optional) ''scoreSuccess'' = JStr success"
  "field (scoreEntry percent success optional) ''isOptional'' = optional"
  "field (scoreEntry percent success optional) ''id'' = JNum 1"
  "field (scoreEntry percent success optional) ''selfAssessmentComments'' = JUndefined"
  "nullish (scoreEntry percent success optional) = False"
  by (simp_all add: scoreEntry_def)

lemma sampleArea_fields:
  "field sampleArea ''scoreEntries'' = JArr sampleEntries"
  "field sampleArea ''id'' = JNum 7"
  "field sampleArea ''title'' = JStr ''Operations''"
  "nullish sampleArea = False"
  by (simp_all add: sampleArea_def)

lemma scoredArea_fields:
  "field (scoredArea n title percents) ''scoreEntries'' =
     JArr (map (\<lambda>p. scoreEntry (JNum p) ''partial'' (JBool False)) percents)"
  "field (scoredArea n title percents) ''id'' = JNum n"
  "field (scoredArea n title percents) ''title'' = JStr title"
  "nullish (scoredArea n title percents) = False"
  by (simp_all add: scoredArea_def)

lemma optionalNoArea_fields:
  "field optionalNoArea ''scoreEntries'' = JArr optionalNoEntries"
  "field optionalNoArea ''id'' = JNum 4"
  "field optionalNoArea ''title'' = JStr ''Resilience''"
  by (simp_all add: optionalNoArea_def)

lemma scored_sampleEntries:
  "filter scoredEntry sampleEntries =
     [scoreEntry (JNum 80) ''success'' (JBool False),
      scoreEntry (JNum 60) ''partial'' (JBool False),
      scoreEntry (JNum 40) ''almost-failure'' (JBool False)]"
  by (simp add: sampleEntries_def scoredEntry_def scoreEntry_fields)

lemma typedEntry_scoreEntry:
  "typedEntry (scoreEntry (JNum p) success (JBool b))"
  "typedEntry (scoreEntry JNull success (JBool b))"
  "percentTyped (scoreEntry (JNum p) success optional)"
  "percentTyped (scoreEntry JNull success optional)"
  by (simp_all add: typedEntry_def percentTyped_def scoreEntry_fields)

lemma typedEntry_sampleEntries: "list_all typedEntry sampleEntries"
  by (simp add: sampleEntries_def typedEntry_scoreEntry)

lemma typedEntry_percentTyped: "typedEntry e \<Longrightarrow> percentTyped e"
  by (simp add: typedEntry_def)

lemma typed_entries_percentTyped: "list_all typedEntry entries \<Longrightarrow> list_all percentTyped entries"
  by (induction entries) (simp_all add: typedEntry_percentTyped)

lemma percentTyped_not_nullish: "percentTyped e \<Longrightarrow> \<not> nullish e"
  by (simp add: percentTyped_def)

text \<open>
  On an entry whose \<open>isOptional\<close> is a boolean or absent the filter of the code is the
  filter of the specification.
\<close>

lemma typedEntry_scored: "typedEntry e \<Longrightarrow> scoredEntry e = includedEntry e"
  by (auto simp add: typedEntry_def scoredEntry_def includedEntry_def split: jsval.splits)

lemma typed_entries_scored:
  "list_all typedEntry entries \<Longrightarrow> filter scoredEntry entries = filter includedEntry entries"
  by (induction entries) (simp_all add: typedEntry_scored)

lemma percentTyped_scored_numeric: "percentTyped e \<Longrightarrow> scoredEntry e \<Longrightarrow> numericPercent e"
  by (auto simp add: percentTyped_def scoredEntry_def numericPercent_def)

lemma filterScoredEntries_percentTyped:
  "list_all percentTyped entries \<Longrightarrow>
   filterScoredEntries entries = Returned (filter scoredEntry entries)"
  by (induction entries) (simp_all add: percentTyped_not_nullish)

lemma scored_numeric:
  "list_all percentTyped entries \<Longrightarrow> list_all numericPercent (filter scoredEntry entries)"
  by (induction entries) (simp_all add: percentTyped_scored_numeric)

lemma processAreaScore_scored_entries:
  assumes "field area ''scoreEntries'' = JArr entries"
    and "list_all percentTyped entries"
  shows "processAreaScore B area =
      Returned (JObj [(''id'', field area ''id''),
                      (''title'', field area ''title''),
                      (''scorePercent'',
                         if filter scoredEntry entries = [] then JNum 0
                         else floatMean (map percentOf (filter scoredEntry entries))),
                      (''scoreEntries'', JArr entries)])"
proof -
  let ?kept = "filter scoredEntry entries"
  have a: "\<not> nullish area"
    using assms(1) by (cases area) simp_all
  have f: "filterScoredEntries entries = Returned ?kept"
    using assms(2) by (rule filterScoredEntries_percentTyped)
  have n: "list_all numericPercent ?kept"
    using assms(2) by (rule scored_numeric)
  have s: "sumScorePercent B (JNum 0) ?kept = Returned (foldl numAdd (JNum 0) (map percentOf ?kept))"
    using n by (rule sumScorePercent_numbers) simp
  have t: "isNumber (foldl numAdd (JNum 0) (map percentOf ?kept))"
    using numericPercent_percents [OF n] by (intro isNumber_foldl) simp_all
  show ?thesis
    unfolding processAreaScore_def
    by (simp add: a assms(1) f s jsDivCount_number [OF t] floatMean_def)
qed

lemma floatMean_samples:
  "floatMean [JNum 80, JNum 60, JNum 40] = JNum 60"
  "floatMean [JNum 80, JNum 85] = JNum (165 / 2)"
  "floatMean [JNum 60, JNum (165 / 2)] = JNum (285 / 4)"
  "floatMean [JNum 60] = JNum 60"
  "floatMean [JNum 80] = JNum 80"
  "floatMean [JNum 0] = JNum 0"
  "floatMean [JNum 69, JNum 70] = JNum (139 / 2)"
  "floatMean [JNum 79, JNum 80] = JNum (159 / 2)"
  "floatMean [JNum (139 / 2), JNum (159 / 2)] = JNum (149 / 2)"
  "floatMean [JNum 0, JNum 80] = JNum 40"
  "floatMean [JNum 80, JNum 105] = JNum (185 / 2)"
  by (simp_all add: floatMean_def roundDouble_small)

lemma floatMean_thirds:
  "floatMean [JNum 57] = JNum 57"
  "floatMean [JNum 96, JNum 96, JNum 97] = JNum (6778855689114965 / 70368744177664)"
  "floatMean [JNum 56, JNum 57, JNum 57] = JNum (7975124340135253 / 140737488355328)"
  "floatMean [JNum 57, JNum (6778855689114965 / 70368744177664),
              JNum (7975124340135253 / 140737488355328)] =
     JNum (4925812092436479 / 70368744177664)"
proof -
  show "floatMean [JNum 57] = JNum 57"
    by (simp add: floatMean_def roundDouble_small)
  have "foldl numAdd (JNum 0) [JNum 96, JNum 96, JNum 97] = JNum 289"
    by (simp add: roundDouble_small)
  then show "floatMean [JNum 96, JNum 96, JNum 97] = JNum (6778855689114965 / 70368744177664)"
    by (simp only: floatMean_def thirds_quotients list.size)
       (simp add: thirds_quotients numeral_3_eq_3 [symmetric] del: numDivCount.simps)
  have "foldl numAdd (JNum 0) [JNum 56, JNum 57, JNum 57] = JNum 170"
    by (simp add: roundDouble_small)
  then show "floatMean [JNum 56, JNum 57, JNum 57] = JNum (7975124340135253 / 140737488355328)"
    by (simp only: floatMean_def thirds_quotients list.size)
       (simp add: thirds_quotients numeral_3_eq_3 [symmetric] del: numDivCount.simps)
  show "floatMean [JNum 57, JNum (6778855689114965 / 70368744177664),
              JNum (7975124340135253 / 140737488355328)] =
     JNum (4925812092436479 / 70368744177664)"
    by (simp add: floatMean_def thirds_sums thirds_quotients numeral_3_eq_3 [symmetric]
          del: numAdd.simps numDivCount.simps)
qed

text \<open>
  C2 (amended). For every area whose entries carry a \<open>scorePercent\<close> that is a number,
  \<open>null\<close> or absent, \<open>processAreaScore\<close> keeps exactly the entries whose \<open>scoreSuccess\<close>
  is not \<open>unknown\<close>, whose \<open>scorePercent\<close> is present and whose \<open>isOptional\<close> is not
  truthy (when \<open>isOptional\<close> is a boolean or absent: is not \<open>true\<close>). The area percent is
  the mean of the kept entries' percents as binary64 arithmetic computes it (added to
  0 from left to right, every sum rounded, the total divided by their count and
  rounded); the other entries add no term and do not count in the divisor; it is 0
  when none is kept. For kept percents between 0 and 100 it is a finite number within
  \<open>(n + 1) / 2^45\<close> of the exact arithmetic mean of the \<open>n\<close> kept percents.
\<close>

theorem processAreaScore_mean:
  assumes "field area ''scoreEntries'' = JArr entries"
    and "list_all percentTyped entries"
  shows "filterScoredEntries entries =
      Returned (filter (\<lambda>e. field e ''scoreSuccess'' \<noteq> JStr ''unknown'' \<and>
                            field e ''scorePercent'' \<noteq> JNull \<and>
                            field e ''scorePercent'' \<noteq> JUndefined \<and>
                            \<not> truthy (field e ''isOptional'')) entries) \<and>
    (list_all typedEntry entries \<longrightarrow>
       filterScoredEntries entries = Returned (filter includedEntry entries)) \<and>
    processAreaScore B area =
      Returned (JObj [(''id'', field area ''id''),
                      (''title'', field area ''title''),
                      (''scorePercent'',
                         if filter scoredEntry entries = [] then JNum 0
                         else floatMean (map percentOf (filter scoredEntry entries))),
                      (''scoreEntries'', JArr entries)]) \<and>
    (list_all percentInRange (map percentOf (filter scoredEntry entries)) \<and>
     length entries \<le> 2 ^ 32 \<and> filter scoredEntry entries \<noteq> [] \<longrightarrow>
       (\<exists>m. floatMean (map percentOf (filter scoredEntry entries)) = JNum m \<and>
            \<bar>m - arithmeticMean (map valueOf (map percentOf (filter scoredEntry entries)))\<bar> \<le>
              of_nat (length (filter scoredEntry entries) + 1) / 2 ^ 45))"
proof (intro conjI impI)
  have p: "scoredEntry = (\<lambda>e. field e ''scoreSuccess'' \<noteq> JStr ''unknown'' \<and>
                            field e ''scorePercent'' \<noteq> JNull \<and>
                            field e ''scorePercent'' \<noteq> JUndefined \<and>
                            \<not> truthy (field e ''isOptional''))"
    by (rule ext) (simp add: scoredEntry_def)
  show "filterScoredEntries entries =
      Returned (filter (\<lambda>e. field e ''scoreSuccess'' \<noteq> JStr ''unknown'' \<and>
                            field e ''scorePercent'' \<noteq> JNull \<and>
                            field e ''scorePercent'' \<noteq> JUndefined \<and>
                            \<not> truthy (field e ''isOptional'')) entries)"
    using filterScoredEntries_percentTyped [OF assms(2)] by (simp only: p)
next
  assume "list_all typedEntry entries"
  then show "filterScoredEntries entries = Returned (filter includedEntry entries)"
    using filterScoredEntries_percentTyped [OF assms(2)] by (simp only: typed_entries_scored)
next
  show "processAreaScore B area =
      Returned (JObj [(''id'', field area ''id''),
                      (''title'', field area ''title''),
                      (''scorePercent'',
                         if filter scoredEntry entries = [] then JNum 0
                         else floatMean (map percentOf (filter scoredEntry entries))),
                      (''scoreEntries'', JArr entries)])"
    using assms by (rule processAreaScore_scored_entries)
next
  let ?kept = "filter scoredEntry entries"
  assume h: "list_all percentInRange (map percentOf ?kept) \<and>
     length entries \<le> 2 ^ 32 \<and> ?kept \<noteq> []"
  have "length ?kept \<le> length entries"
    by (rule length_filter_le)
  moreover have "length entries \<le> 2 ^ 32"
    using h by simp
  ultimately have "length ?kept \<le> 2 ^ 32"
    by (rule order_trans)
  then have l: "length (map percentOf ?kept) \<le> 2 ^ 32"
    by simp
  have n: "map percentOf ?kept \<noteq> []"
    using h by simp
  have "\<exists>m. floatMean (map percentOf ?kept) = JNum m \<and>
      \<bar>m - arithmeticMean (map valueOf (map percentOf ?kept))\<bar> \<le>
        of_nat (length (map percentOf ?kept) + 1) / 2 ^ 45"
    using h n l by (intro floatMean_accuracy) simp_all
  then show "\<exists>m. floatMean (map percentOf ?kept) = JNum m \<and>
      \<bar>m - arithmeticMean (map valueOf (map percentOf ?kept))\<bar> \<le>
        of_nat (length ?kept + 1) / 2 ^ 45"
    by (simp only: length_map)
qed

text \<open>
  Percents 80, 60 and 40 beside an \<open>unknown\<close> entry and an optional entry of 100:
  the area percent is 60.
\<close>

theorem processAreaScore_mean_witness:
  "field sampleArea ''scoreEntries'' = JArr sampleEntries \<and>
   list_all percentTyped sampleEntries \<and>
   list_all typedEntry sampleEntries \<and>
   filterScoredEntries sampleEntries =
     Returned [scoreEntry (JNum 80) ''success'' (JBool False),
               scoreEntry (JNum 60) ''partial'' (JBool False),
               scoreEntry (JNum 40) ''almost-failure'' (JBool False)] \<and>
   filterScoredEntries sampleEntries = Returned (filter includedEntry sampleEntries) \<and>
   processAreaScore sampleBuiltins sampleArea =
     Returned (JObj [(''id'', JNum 7), (''title'', JStr ''Operations''),
                     (''scorePercent'', JNum 60),
                     (''scoreEntries'', JArr sampleEntries)]) \<and>
   \<bar>60 - arithmeticMean [80, 60, 40]\<bar> \<le> of_nat (3 + 1) / (2 ^ 45 :: rat)"
proof -
  have ty: "list_all percentTyped sampleEntries"
    using typedEntry_sampleEntries by (rule typed_entries_percentTyped)
  note t = processAreaScore_mean [OF sampleArea_fields(1) ty, of sampleBuiltins]
  have f: "filterScoredEntries sampleEntries =
     Returned [scoreEntry (JNum 80) ''success'' (JBool False),
               scoreEntry (JNum 60) ''partial'' (JBool False),
               scoreEntry (JNum 40) ''almost-failure'' (JBool False)]"
    using t [THEN conjunct1] scored_sampleEntries by (simp add: scoredEntry_def [abs_def])
  have i: "filterScoredEntries sampleEntries = Returned (filter includedEntry sampleEntries)"
    using t [THEN conjunct2, THEN conjunct1] typedEntry_sampleEntries by simp
  have p: "processAreaScore sampleBuiltins sampleArea =
     Returned (JObj [(''id'', JNum 7), (''title'', JStr ''Operations''),
                     (''scorePercent'', JNum 60),
                     (''scoreEntries'', JArr sampleEntries)])"
    using t [THEN conjunct2, THEN conjunct2, THEN conjunct1]
    by (simp add: sampleArea_fields scored_sampleEntries percentOf_def scoreEntry_fields
          floatMean_samples)
  note acc = t [THEN conjunct2, THEN conjunct2, THEN conjunct2, unfolded scored_sampleEntries]
  have l: "length sampleEntries \<le> 2 ^ 32"
    by (simp add: sampleEntries_def)
  have a: "\<bar>60 - arithmeticMean [80, 60, 40]\<bar> \<le> of_nat (3 + 1) / (2 ^ 45 :: rat)"
    using acc l by (simp add: percentOf_def scoreEntry_fields floatMean_samples)
  show ?thesis
    using sampleArea_fields(1) ty typedEntry_sampleEntries f i p a by (intro conjI)
qed

text \<open>
  The claim as first stated fails twice. An entry with \<open>"isOptional": "no"\<close> passes the
  filter as the claim states it (\<open>isOptional\<close> is not \<open>true\<close>), yet the code drops it:
  beside an entry of 60, the entry of 80 is left out and the area percent is 60, not
  70. And the percents 96, 96 and 97 give 96.33333333333333, the double nearest to
  their arithmetic mean \<open>289 / 3\<close>, not the mean itself.
\<close>

theorem processAreaScore_mean_counterexample:
  "field optionalNoArea ''scoreEntries'' = JArr optionalNoEntries \<and>
   filter includedEntry optionalNoEntries = optionalNoEntries \<and>
   map percentOf optionalNoEntries = [JNum 80, JNum 60] \<and>
   arithmeticMean [80, 60] = 70 \<and>
   processAreaScore sampleBuiltins optionalNoArea =
     Returned (JObj [(''id'', JNum 4), (''title'', JStr ''Resilience''),
                     (''scorePercent'', JNum 60),
                     (''scoreEntries'', JArr optionalNoEntries)]) \<and>
   processAreaScore sampleBuiltins (scoredArea 2 ''Security'' [96, 96, 97]) =
     Returned (JObj [(''id'', JNum 2), (''title'', JStr ''Security''),
                     (''scorePercent'', JNum (6778855689114965 / 70368744177664)),
                     (''scoreEntries'', field (scoredArea 2 ''Security'' [96, 96, 97])
                                          ''scoreEntries'')]) \<and>
   arithmeticMean [96, 96, 97] = 289 / 3 \<and>
   (6778855689114965 / 70368744177664 :: rat) \<noteq> 289 / 3"
proof -
  have ty: "list_all percentTyped optionalNoEntries"
    by (simp add: optionalNoEntries_def typedEntry_scoreEntry)
  have i: "filter includedEntry optionalNoEntries = optionalNoEntries"
    by (simp add: optionalNoEntries_def includedEntry_def scoreEntry_fields)
  have k: "filter scoredEntry optionalNoEntries = [scoreEntry (JNum 60) ''partial'' (JBool False)]"
    by (simp add: optionalNoEntries_def scoredEntry_def scoreEntry_fields)
  have m: "map percentOf optionalNoEntries = [JNum 80, JNum 60]"
    by (simp add: optionalNoEntries_def percentOf_def scoreEntry_fields)
  have p: "processAreaScore sampleBuiltins optionalNoArea =
     Returned (JObj [(''id'', JNum 4), (''title'', JStr ''Resilience''),
                     (''scorePercent'', JNum 60),
                     (''scoreEntries'', JArr optionalNoEntries)])"
    unfolding processAreaScore_scored_entries [OF optionalNoArea_fields(1) ty] k
    by (simp add: optionalNoArea_fields percentOf_def scoreEntry_fields floatMean_samples)
  have ty3: "list_all percentTyped
      (map (\<lambda>p. scoreEntry (JNum p) ''partial'' (JBool False)) [96, 96, 97])"
    by (simp add: typedEntry_scoreEntry)
  have k3: "map percentOf (filter scoredEntry
      (map (\<lambda>p. scoreEntry (JNum p) ''partial'' (JBool False)) [96, 96, 97])) =
      [JNum 96, JNum 96, JNum 97]"
    by (simp add: scoredEntry_def percentOf_def scoreEntry_fields)
  have n3: "filter scoredEntry
      (map (\<lambda>p. scoreEntry (JNum p) ''partial'' (JBool False)) [96, 96, 97]) \<noteq> []"
    by (simp add: scoredEntry_def scoreEntry_fields)
  have q: "processAreaScore sampleBuiltins (scoredArea 2 ''Security'' [96, 96, 97]) =
     Returned (JObj [(''id'', JNum 2), (''title'', JStr ''Security''),
                     (''scorePercent'', JNum (6778855689114965 / 70368744177664)),
                     (''scoreEntries'', field (scoredArea 2 ''Security'' [96, 96, 97])
                                          ''scoreEntries'')])"
    unfolding processAreaScore_scored_entries [OF scoredArea_fields(1) ty3] k3
    using n3 by (simp add: scoredArea_fields floatMean_thirds)
  have a: "arithmeticMean [80, 60] = 70" "arithmeticMean [96, 96, 97] = 289 / 3"
    by (simp_all add: arithmeticMean_def)
  show ?thesis
    using optionalNoArea_fields(1) i m a p q by (intro conjI) simp_all
qed

section \<open>The percent-to-colour and percent-to-category mappings\<close>

lemma lookupRange_color:
  "lookupRange COLOR_MAPPING (JNum p) =
     (if 70 \<le> p \<and> p \<le> 100 then Some ''Green''
      else if 30 \<le> p \<and> p \<le> 69 then Some ''Yellow''
      else if 0 \<le> p \<and> p \<le> 29 then Some ''Red'' else None)"
  by (simp add: COLOR_MAPPING_def)

lemma lookupRange_success:
  "lookupRange SCORE_SUCCESS_MAPPING (JNum p) =
     (if 80 \<le> p \<and> p \<le> 100 then Some ''success''
      else if 70 \<le> p \<and> p \<le> 79 then Some ''almost-success''
      else if 50 \<le> p \<and> p \<le> 69 then Some ''partial''
      else if 30 \<le> p \<and> p \<le> 49 then Some ''almost-failure''
      else if 0 \<le> p \<and> p \<le> 29 then Some ''failure'' else None)"
  by (simp add: SCORE_SUCCESS_MAPPING_def)

lemma getScoreLabel_number:
  "getScoreLabel B (JNum p) =
     Returned (if 70 \<le> p \<and> p \<le> 100 then ''Green''
               else if 30 \<le> p \<and> p \<le> 69 then ''Yellow'' else ''Red'')"
  by (simp add: getScoreLabel_def lookupRange_color)

lemma getScoreSuccess_number:
  "getScoreSuccess B (JNum p) =
     Returned (if 80 \<le> p \<and> p \<le> 100 then ''success''
               else if 70 \<le> p \<and> p \<le> 79 then ''almost-success''
               else if 50 \<le> p \<and> p \<le> 69 then ''partial''
               else if 30 \<le> p \<and> p \<le> 49 then ''almost-failure'' else ''failure'')"
  by (simp add: getScoreSuccess_def lookupRange_success)

lemma colourOf_number:
  "colourOf (JNum p) =
     (if 70 \<le> p \<and> p \<le> 100 then ''Green''
      else if 30 \<le> p \<and> p \<le> 69 then ''Yellow'' else ''Red'')"
  by (simp add: colourOf_def lookupRange_color)

lemma categoryOf_number:
  "categoryOf (JNum p) =
     (if 80 \<le> p \<and> p \<le> 100 then ''success''
      else if 70 \<le> p \<and> p \<le> 79 then ''almost-success''
      else if 50 \<le> p \<and> p \<le> 69 then ''partial''
      else if 30 \<le> p \<and> p \<le> 49 then ''almost-failure'' else ''failure'')"
  by (simp add: categoryOf_def lookupRange_success)

text \<open>
  On the whole-number percents from 0 to 100 the two mappings follow the tables, and
  every band is hit exactly.
\<close>

lemma whole_percent_labels:
  assumes "0 \<le> n" and "n \<le> 100"
  shows "getScoreLabel B (JNum (of_int n)) =
      Returned (if 70 \<le> n then ''Green'' else if 30 \<le> n then ''Yellow'' else ''Red'')"
    and "getScoreSuccess B (JNum (of_int n)) =
      Returned (if 80 \<le> n then ''success'' else if 70 \<le> n then ''almost-success''
                else if 50 \<le> n then ''partial'' else if 30 \<le> n then ''almost-failure''
                else ''failure'')"
  using assms by (auto simp add: getScoreLabel_number getScoreSuccess_number)

section \<open>The Aggregator's output\<close>

lemma typedArea_entries: "typedArea area \<Longrightarrow> field area ''scoreEntries'' = JArr (entriesOf area)"
  by (simp add: typedArea_def entriesOf_def split: jsval.splits)

lemma typedArea_list: "typedArea area \<Longrightarrow> list_all percentTyped (entriesOf area)"
  by (simp add: typedArea_def entriesOf_def split: jsval.splits)

lemma processAreaScore_typedArea:
  assumes "typedArea area"
  shows "processAreaScore B area = Returned (processedArea area)"
  unfolding processAreaScore_scored_entries [OF typedArea_entries [OF assms] typedArea_list [OF assms]]
  by (simp add: processedArea_def areaMean_def keptPercents_def)

lemma mapProcessAreaScore_typed:
  "list_all typedArea areas \<Longrightarrow>
   mapProcessAreaScore B areas = Returned (map processedArea areas)"
  by (induction areas) (simp_all add: processAreaScore_typedArea)

lemma isNumber_floatMean: "isNumber (floatMean ps)"
  by (cases "foldl numAdd (JNum 0) ps") (simp_all add: floatMean_def isNumber_roundDouble)

lemma isNumber_areaMean: "isNumber (areaMean area)"
  by (simp add: areaMean_def isNumber_floatMean)

lemma isNumber_aggregatorOverall: "isNumber (aggregatorOverall areas)"
  by (simp add: aggregatorOverall_def isNumber_floatMean)

lemma processedArea_fields:
  "field (processedArea area) ''scorePercent'' = areaMean area"
  "field (processedArea area) ''id'' = field area ''id''"
  "field (processedArea area) ''title'' = field area ''title''"
  "nullish (processedArea area) = False"
  "percentOf (processedArea area) = areaMean area"
  by (simp_all add: processedArea_def percentOf_def)

lemma processedArea_numeric: "list_all numericPercent (map processedArea areas)"
  by (induction areas) (simp_all add: numericPercent_def processedArea_fields isNumber_areaMean)

lemma calculateOverallScore_processed:
  "calculateOverallScore B (map processedArea areas) =
     Returned (JObj [(''scorePercent'', aggregatorOverall areas)])"
proof -
  let ?positive = "filter (\<lambda>a. numGt (areaMean a) 0) areas"
  have f: "filter (\<lambda>a. numGt (percentOf a) 0) (map processedArea areas) =
      map processedArea ?positive"
    by (simp add: filter_map comp_def processedArea_fields)
  have p: "map percentOf (map processedArea ?positive) = map areaMean ?positive"
    by (simp add: processedArea_fields)
  have m: "filter (\<lambda>p. numGt p 0) (map areaMean areas) = map areaMean ?positive"
    by (simp add: filter_map comp_def)
  show ?thesis
    unfolding calculateOverallScore_scored_areas [OF processedArea_numeric] f p
      aggregatorOverall_def m
    by simp
qed

lemma getScoreLabel_colourOf: "isNumber p \<Longrightarrow> getScoreLabel B p = Returned (colourOf p)"
  by (simp add: getScoreLabel_def colourOf_def toNumber_number)

lemma getScoreSuccess_categoryOf: "isNumber p \<Longrightarrow> getScoreSuccess B p = Returned (categoryOf p)"
  by (simp add: getScoreSuccess_def categoryOf_def toNumber_number)

lemma areaSummary_processed: "areaSummary B (processedArea area) = Returned (summaryOf area)"
  by (simp add: areaSummary_def processedArea_fields mathRound_number getScoreLabel_colourOf
        getScoreSuccess_categoryOf isNumber_areaMean summaryOf_def)

lemma mapAreaSummary_processed:
  "mapAreaSummary B (map processedArea areas) = Returned (map summaryOf areas)"
  by (induction areas) (simp_all add: areaSummary_processed)

lemma structurallyValid_areas:
  "structurallyValid data \<Longrightarrow> field data ''areaScores'' = JArr (areasOf data)"
  by (simp add: structurallyValid_def areasOf_def split: jsval.splits)

lemma structurallyValid_typed: "structurallyValid data \<Longrightarrow> list_all typedArea (areasOf data)"
  by (simp add: structurallyValid_def areasOf_def split: jsval.splits)

lemma structurallyValid_entityRef: "structurallyValid data \<Longrightarrow> truthy (field data ''entityRef'')"
  by (simp add: structurallyValid_def)

lemma structurallyValid_not_nullish: "structurallyValid data \<Longrightarrow> \<not> nullish data"
  by (cases data) (simp_all add: structurallyValid_def)

lemma processEntityFile_valid:
  assumes "structurallyValid data"
  shows "processEntityFile B data =
    Returned (JObj (
      [(''entityRef'', JObj (
          [(''kind'', field (field data ''entityRef'') ''kind''),
           (''name'', field (field data ''entityRef'') ''name'')] @
          (if truthy (field (field data ''entityRef'') ''namespace'') \<and>
              field (field data ''entityRef'') ''namespace'' \<noteq> JStr ''default''
           then [(''namespace'', field (field data ''entityRef'') ''namespace'')]
           else []))),
       (''generatedDateTimeUtc'',
          if truthy (field data ''generatedDateTimeUtc'')
          then field data ''generatedDateTimeUtc''
          else JStr (nowISOString B)),
       (''scorePercent'', roundNumber (aggregatorOverall (areasOf data))),
       (''scoreLabel'', JStr (colourOf (aggregatorOverall (areasOf data)))),
       (''scoreSuccess'', JStr (categoryOf (aggregatorOverall (areasOf data))))] @
      (if truthy (field data ''scoringReviewer'')
       then [(''scoringReviewer'', field data ''scoringReviewer'')] else []) @
      (if truthy (field data ''scoringReviewDate'')
       then [(''scoringReviewDate'', field data ''scoringReviewDate'')] else []) @
      [(''areaScores'', JArr (map summaryOf (areasOf data)))]))"
proof -
  have t: "truthy (field data ''areaScores'')"
    by (simp add: structurallyValid_areas [OF assms])
  show ?thesis
    unfolding processEntityFile_def
    by (simp add: structurallyValid_not_nullish [OF assms]
          structurallyValid_entityRef [OF assms] structurallyValid_areas [OF assms]
          mapProcessAreaScore_typed [OF structurallyValid_typed [OF assms]]
          calculateOverallScore_processed mathRound_number isNumber_aggregatorOverall
          getScoreLabel_colourOf getScoreSuccess_categoryOf mapAreaSummary_processed)
qed




lemma foldl_zeros:
  "list_all (\<lambda>p. p = JNum 0) ps \<Longrightarrow> foldl numAdd (JNum 0) ps = JNum 0"
  by (induction ps) (simp_all add: roundDouble_small)

lemma floatMean_zeros: "list_all (\<lambda>p. p = JNum 0) ps \<Longrightarrow> ps \<noteq> [] \<Longrightarrow> floatMean ps = JNum 0"
  by (simp add: floatMean_def foldl_zeros roundDouble_small)

lemma scoredEntry_included: "scoredEntry e \<Longrightarrow> includedEntry e"
  by (auto simp add: scoredEntry_def includedEntry_def)

lemma kept_among_included:
  "list_all P (map f (filter includedEntry xs)) \<Longrightarrow> list_all P (map f (filter scoredEntry xs))"
  by (induction xs) (auto simp add: scoredEntry_included split: if_splits)

lemma scoredZero_areaMean: "scoredZero area \<Longrightarrow> areaMean area = JNum 0"
  by (simp add: scoredZero_def areaMean_def floatMean_zeros keptPercents_def
        includedPercents_def kept_among_included)

lemma unscored_scoredZero: "unscored area \<Longrightarrow> scoredZero area"
  by (simp add: unscored_def scoredZero_def includedPercents_def)

lemma scoredZero_positive_means:
  "list_all scoredZero areas \<Longrightarrow> filter (\<lambda>p. numGt p 0) (map areaMean areas) = []"
  by (induction areas) (simp_all add: scoredZero_areaMean)

lemma scoredZero_overall: "list_all scoredZero areas \<Longrightarrow> aggregatorOverall areas = JNum 0"
  by (simp add: aggregatorOverall_def scoredZero_positive_means)

lemma floor_half: "\<lfloor>1 / 2 :: rat\<rfloor> = 0"
  by (rule floor_unique) simp_all

lemma roundNumber_whole:
  "roundNumber (JNum 0) = JNum 0"
  "roundNumber (JNum (numeral k)) = JNum (numeral k)"
proof -
  have "\<lfloor>of_int n + 1 / 2 :: rat\<rfloor> = n" for n
    by (rule floor_unique) simp_all
  from this [of 0] this [of "numeral k"]
  show "roundNumber (JNum 0) = JNum 0" "roundNumber (JNum (numeral k)) = JNum (numeral k)"
    by simp_all
qed

lemma zero_labels:
  "roundNumber (JNum 0) = JNum 0" "colourOf (JNum 0) = ''Red''" "categoryOf (JNum 0) = ''failure''"
  by (simp_all add: floor_half colourOf_number categoryOf_number)

lemma scoredZero_summaries:
  "list_all scoredZero areas \<Longrightarrow>
   map summaryOf areas =
   map zeroSummary (map (\<lambda>area. (field area ''id'', field area ''title'')) areas)"
  by (induction areas)
     (simp_all add: summaryOf_def scoredZero_areaMean zero_labels zeroSummary_def floor_half)

lemma processEntityFile_scoredZero:
  assumes "structurallyValid data" and "list_all scoredZero (areasOf data)"
  shows "processEntityFile B data =
    Returned (JObj (
      [(''entityRef'', JObj (
          [(''kind'', field (field data ''entityRef'') ''kind''),
           (''name'', field (field data ''entityRef'') ''name'')] @
          (if truthy (field (field data ''entityRef'') ''namespace'') \<and>
              field (field data ''entityRef'') ''namespace'' \<noteq> JStr ''default''
           then [(''namespace'', field (field data ''entityRef'') ''namespace'')]
           else []))),
       (''generatedDateTimeUtc'',
          if truthy (field data ''generatedDateTimeUtc'')
          then field data ''generatedDateTimeUtc''
          else JStr (nowISOString B)),
       (''scorePercent'', JNum 0),
       (''scoreLabel'', JStr ''Red''),
       (''scoreSuccess'', JStr ''failure'')] @
      (if truthy (field data ''scoringReviewer'')
       then [(''scoringReviewer'', field data ''scoringReviewer'')] else []) @
      (if truthy (field data ''scoringReviewDate'')
       then [(''scoringReviewDate'', field data ''scoringReviewDate'')] else []) @
      [(''areaScores'',
          JArr (map zeroSummary
                  (map (\<lambda>area. (field area ''id'', field area ''title'')) (areasOf data))))]))"
  unfolding processEntityFile_valid [OF assms(1)] scoredZero_overall [OF assms(2)]
    scoredZero_summaries [OF assms(2)] zero_labels
  by (rule refl)

lemma list_all_mono_simple: "list_all P xs \<Longrightarrow> (\<And>x. P x \<Longrightarrow> Q x) \<Longrightarrow> list_all Q xs"
  by (induction xs) simp_all

lemma processEntityFile_same_identity:
  assumes "structurallyValid data" and "list_all scoredZero (areasOf data)"
    and "structurallyValid data'" and "list_all scoredZero (areasOf data')"
    and "sameIdentity data data'"
  shows "processEntityFile B data' = processEntityFile B data"
  using assms(5)
  unfolding processEntityFile_scoredZero [OF assms(1,2)]
    processEntityFile_scoredZero [OF assms(3,4)] sameIdentity_def
  by simp

lemma secondArea_fields:
  "field secondArea ''scoreEntries'' =
     JArr [scoreEntry (JNum 80) ''success'' (JBool False),
           scoreEntry (JNum 85) ''success'' (JBool False)]"
  "field secondArea ''id'' = JNum 8"
  "field secondArea ''title'' = JStr ''Documentation''"
  "nullish secondArea = False"
  by (simp_all add: secondArea_def)

lemma validRecord_fields:
  "field validRecord ''entityRef'' =
     JObj [(''kind'', JStr ''component''), (''name'', JStr ''billing''),
           (''namespace'', JStr ''default'')]"
  "field validRecord ''generatedDateTimeUtc'' = JStr ''2024-05-01T10:00:00Z''"
  "field validRecord ''scoringReviewer'' = JStr ''alex''"
  "field validRecord ''scoringReviewDate'' = JUndefined"
  "field validRecord ''scorePercent'' = JUndefined"
  "field validRecord ''areaScores'' = JArr [sampleArea, secondArea]"
  "nullish validRecord = False"
  by (simp_all add: validRecord_def)

lemma recordOver_fields:
  "field (recordOver areas) ''entityRef'' =
     JObj [(''kind'', JStr ''component''), (''name'', JStr ''billing'')]"
  "field (recordOver areas) ''generatedDateTimeUtc'' = JStr ''2024-05-01T10:00:00Z''"
  "field (recordOver areas) ''scoringReviewer'' = JUndefined"
  "field (recordOver areas) ''scoringReviewDate'' = JUndefined"
  "field (recordOver areas) ''scorePercent'' = JUndefined"
  "field (recordOver areas) ''areaScores'' = JArr areas"
  "nullish (recordOver areas) = False"
  by (simp_all add: recordOver_def)

lemma entityRef_fields:
  "field (JObj [(''kind'', k), (''name'', n), (''namespace'', ns)]) ''kind'' = k"
  "field (JObj [(''kind'', k), (''name'', n), (''namespace'', ns)]) ''name'' = n"
  "field (JObj [(''kind'', k), (''name'', n), (''namespace'', ns)]) ''namespace'' = ns"
  "field (JObj [(''kind'', k), (''name'', n)]) ''kind'' = k"
  "field (JObj [(''kind'', k), (''name'', n)]) ''name'' = n"
  "field (JObj [(''kind'', k), (''name'', n)]) ''namespace'' = JUndefined"
  by simp_all

lemma sample_typedAreas: "typedArea sampleArea" "typedArea secondArea"
  by (simp_all add: typedArea_def sampleArea_fields secondArea_fields
        typed_entries_percentTyped [OF typedEntry_sampleEntries] typedEntry_scoreEntry)

lemma typedArea_scoredArea: "typedArea (scoredArea n title percents)"
  by (simp add: typedArea_def scoredArea_fields list_all_iff typedEntry_scoreEntry)

lemma keptPercents_scoredArea:
  "keptPercents (scoredArea n title percents) = map JNum percents"
  by (simp add: keptPercents_def entriesOf_def scoredArea_fields filter_map comp_def
        scoredEntry_def scoreEntry_fields percentOf_def)

lemma sample_keptPercents:
  "keptPercents sampleArea = [JNum 80, JNum 60, JNum 40]"
  "keptPercents secondArea = [JNum 80, JNum 85]"
  by (simp_all add: keptPercents_def entriesOf_def sampleArea_fields
        secondArea_fields scored_sampleEntries scoredEntry_def scoreEntry_fields
        percentOf_def)

lemma sample_means: "areaMean sampleArea = JNum 60" "areaMean secondArea = JNum (165 / 2)"
  by (simp_all add: areaMean_def sample_keptPercents floatMean_samples)


lemma structurallyValid_recordOver:
  "list_all typedArea areas \<Longrightarrow> structurallyValid (recordOver areas)"
  by (simp add: structurallyValid_def recordOver_fields)


lemma areasOf_recordOver: "areasOf (recordOver areas) = areas"
  by (simp add: areasOf_def recordOver_fields)

lemma sample_overall: "aggregatorOverall [sampleArea, secondArea] = JNum (285 / 4)"
  by (simp add: aggregatorOverall_def sample_means floatMean_samples)

lemma sample_rounding:
  "roundNumber (JNum 60) = JNum 60" "roundNumber (JNum (165 / 2)) = JNum 83"
  "roundNumber (JNum (285 / 4)) = JNum 71"
proof -
  have "\<lfloor>121 / 2 :: rat\<rfloor> = 60"
    by (rule floor_unique) simp_all
  then show "roundNumber (JNum 60) = JNum 60"
    by simp
  show "roundNumber (JNum (165 / 2)) = JNum 83"
    by simp
  have "\<lfloor>287 / 4 :: rat\<rfloor> = 71"
    by (rule floor_unique) simp_all
  then show "roundNumber (JNum (285 / 4)) = JNum 71"
    by simp
qed

lemma sample_labels:
  "colourOf (JNum 60) = ''Yellow''" "categoryOf (JNum 60) = ''partial''"
  "colourOf (JNum (165 / 2)) = ''Green''" "categoryOf (JNum (165 / 2)) = ''success''"
  "colourOf (JNum (285 / 4)) = ''Green''" "categoryOf (JNum (285 / 4)) = ''almost-success''"
  by (simp_all add: colourOf_number categoryOf_number)



text \<open>
  The percents are the doubles of the code: over the whole-number percents 57;
  96, 96, 97; and 56, 57, 57 the area means are 57, 96.33333333333333 and
  56.666666666666664 and the overall percent is 69.99999999999999. It is emitted as
  70, and it lies between the bands of 69 and of 70.
\<close>

lemma thirds_means:
  "areaMean (scoredArea 1 ''Documentation'' [57]) = JNum 57"
  "areaMean (scoredArea 2 ''Security'' [96, 96, 97]) = JNum (6778855689114965 / 70368744177664)"
  "areaMean (scoredArea 3 ''Operations'' [56, 57, 57]) =
     JNum (7975124340135253 / 140737488355328)"
  by (simp_all add: areaMean_def keptPercents_scoredArea floatMean_thirds)

lemma thirds_overall:
  "aggregatorOverall
     [scoredArea 1 ''Documentation'' [57], scoredArea 2 ''Security'' [96, 96, 97],
      scoredArea 3 ''Operations'' [56, 57, 57]] = JNum (4925812092436479 / 70368744177664)"
  by (simp add: aggregatorOverall_def thirds_means floatMean_thirds)

lemma thirds_rounding:
  "roundNumber (JNum 57) = JNum 57"
  "roundNumber (JNum (6778855689114965 / 70368744177664)) = JNum 96"
  "roundNumber (JNum (7975124340135253 / 140737488355328)) = JNum 57"
  "roundNumber (JNum (4925812092436479 / 70368744177664)) = JNum 70"
proof -
  have "\<lfloor>57 + 1 / 2 :: rat\<rfloor> = 57"
    by (rule floor_unique) simp_all
  then show "roundNumber (JNum 57) = JNum 57"
    by simp
  have "\<lfloor>6778855689114965 / 70368744177664 + 1 / 2 :: rat\<rfloor> = 96"
    by (rule floor_unique) simp_all
  then show "roundNumber (JNum (6778855689114965 / 70368744177664)) = JNum 96"
    by simp
  have "\<lfloor>7975124340135253 / 140737488355328 + 1 / 2 :: rat\<rfloor> = 57"
    by (rule floor_unique) simp_all
  then show "roundNumber (JNum (7975124340135253 / 140737488355328)) = JNum 57"
    by simp
  have "\<lfloor>4925812092436479 / 70368744177664 + 1 / 2 :: rat\<rfloor> = 70"
    by (rule floor_unique) simp_all
  then show "roundNumber (JNum (4925812092436479 / 70368744177664)) = JNum 70"
    by simp
qed

lemma processEntityFile_thirds_example:
  "processEntityFile sampleBuiltins thirdsRecord =
     Returned (JObj
       [(''entityRef'', JObj [(''kind'', JStr ''component''), (''name'', JStr ''billing'')]),
        (''generatedDateTimeUtc'', JStr ''2024-05-01T10:00:00Z''),
        (''scorePercent'', JNum 70),
        (''scoreLabel'', JStr ''Red''),
        (''scoreSuccess'', JStr ''failure''),
        (''areaScores'',
           JArr [JObj [(''id'', JNum 1), (''title'', JStr ''Documentation''),
                       (''scorePercent'', JNum 57), (''scoreLabel'', JStr ''Yellow''),
                       (''scoreSuccess'', JStr ''partial'')],
                 JObj [(''id'', JNum 2), (''title'', JStr ''Security''),
                       (''scorePercent'', JNum 96), (''scoreLabel'', JStr ''Green''),
                       (''scoreSuccess'', JStr ''success'')],
                 JObj [(''id'', JNum 3), (''title'', JStr ''Operations''),
                       (''scorePercent'', JNum 57), (''scoreLabel'', JStr ''Yellow''),
                       (''scoreSuccess'', JStr ''partial'')]])])"
proof -
  have v: "structurallyValid thirdsRecord"
    unfolding thirdsRecord_def
    by (rule structurallyValid_recordOver) (simp add: typedArea_scoredArea)
  show ?thesis
    unfolding processEntityFile_valid [OF v]
    unfolding thirdsRecord_def
    by (simp add: recordOver_fields entityRef_fields areasOf_recordOver summaryOf_def
          thirds_overall thirds_means thirds_rounding scoredArea_fields
          colourOf_number categoryOf_number del: roundNumber.simps)
qed

lemma unscoredRecord_fields:
  "field unscoredRecord ''entityRef'' = JObj [(''kind'', JStr ''api''), (''name'', JStr ''ledger'')]"
  "field unscoredRecord ''generatedDateTimeUtc'' = JStr ''2024-05-01T10:00:00Z''"
  "field unscoredRecord ''scoringReviewer'' = JUndefined"
  "field unscoredRecord ''scoringReviewDate'' = JUndefined"
  "areasOf unscoredRecord =
     [JObj [(''id'', JNum 3), (''title'', JStr ''Security''),
            (''scoreEntries'',
               JArr [scoreEntry JNull ''unknown'' (JBool False),
                     scoreEntry (JNum 90) ''success'' (JBool True)])]]"
  by (simp_all add: unscoredRecord_def areasOf_def)

lemma zeroRecord_fields:
  "field zeroRecord ''entityRef'' = JObj [(''kind'', JStr ''api''), (''name'', JStr ''ledger'')]"
  "field zeroRecord ''generatedDateTimeUtc'' = JStr ''2024-05-01T10:00:00Z''"
  "field zeroRecord ''scoringReviewer'' = JUndefined"
  "field zeroRecord ''scoringReviewDate'' = JUndefined"
  "areasOf zeroRecord =
     [JObj [(''id'', JNum 3), (''title'', JStr ''Security''),
            (''scoreEntries'', JArr [scoreEntry (JNum 0) ''failure'' (JBool False)])]]"
  by (simp_all add: zeroRecord_def areasOf_def)

lemma securityArea_fields:
  "field (JObj [(''id'', i), (''title'', t), (''scoreEntries'', es)]) ''id'' = i"
  "field (JObj [(''id'', i), (''title'', t), (''scoreEntries'', es)]) ''title'' = t"
  "field (JObj [(''id'', i), (''title'', t), (''scoreEntries'', es)]) ''scoreEntries'' = es"
  by simp_all

lemma structurallyValid_areasOf:
  "truthy (field data ''entityRef'') \<Longrightarrow> areasOf data = area # areas \<Longrightarrow>
   list_all typedArea (area # areas) \<Longrightarrow> structurallyValid data"
  by (auto simp add: structurallyValid_def areasOf_def split: jsval.splits)

lemma structurallyValid_unscoredRecord: "structurallyValid unscoredRecord"
  by (rule structurallyValid_areasOf [OF _ unscoredRecord_fields(5)])
     (simp_all add: unscoredRecord_fields typedArea_def securityArea_fields
        typedEntry_scoreEntry)

lemma structurallyValid_zeroRecord: "structurallyValid zeroRecord"
  by (rule structurallyValid_areasOf [OF _ zeroRecord_fields(5)])
     (simp_all add: zeroRecord_fields typedArea_def securityArea_fields
        typedEntry_scoreEntry)

lemma unscored_unscoredRecord: "list_all unscored (areasOf unscoredRecord)"
  by (simp add: unscoredRecord_fields unscored_def entriesOf_def securityArea_fields
        includedEntry_def scoreEntry_fields)

lemma scoredZero_zeroRecord: "list_all scoredZero (areasOf zeroRecord)"
  by (simp add: zeroRecord_fields scoredZero_def includedPercents_def entriesOf_def
        securityArea_fields includedEntry_def scoreEntry_fields percentOf_def)

lemma sameIdentity_samples: "sameIdentity unscoredRecord zeroRecord"
  by (simp add: sameIdentity_def unscoredRecord_fields zeroRecord_fields securityArea_fields)

text \<open>
  C10. For every structurally valid record in which no area has an included entry,
  the output has overall percent 0, label Red and category failure, and every area
  summary has percent 0, Red and failure. A structurally valid record with the same
  identity whose included entries all score 0 gives the very same output.
\<close>

theorem unscored_record_output:
  assumes "structurallyValid data" and "list_all unscored (areasOf data)"
  shows "processEntityFile B data =
    Returned (JObj (
      [(''entityRef'', JObj (
          [(''kind'', field (field data ''entityRef'') ''kind''),
           (''name'', field (field data ''entityRef'') ''name'')] @
          (if truthy (field (field data ''entityRef'') ''namespace'') \<and>
              field (field data ''entityRef'') ''namespace'' \<noteq> JStr ''default''
           then [(''namespace'', field (field data ''entityRef'') ''namespace'')]
           else []))),
       (''generatedDateTimeUtc'',
          if truthy (field data ''generatedDateTimeUtc'')
          then field data ''generatedDateTimeUtc''
          else JStr (nowISOString B)),
       (''scorePercent'', JNum 0),
       (''scoreLabel'', JStr ''Red''),
       (''scoreSuccess'', JStr ''failure'')] @
      (if truthy (field data ''scoringReviewer'')
       then [(''scoringReviewer'', field data ''scoringReviewer'')] else []) @
      (if truthy (field data ''scoringReviewDate'')
       then [(''scoringReviewDate'', field data ''scoringReviewDate'')] else []) @
      [(''areaScores'',
          JArr (map zeroSummary
                  (map (\<lambda>area. (field area ''id'', field area ''title'')) (areasOf data))))])) \<and>
    (\<forall>data'. structurallyValid data' \<and> list_all scoredZero (areasOf data') \<and>
        sameIdentity data data' \<longrightarrow>
        processEntityFile B data' = processEntityFile B data)"
proof -
  have z: "list_all scoredZero (areasOf data)"
    using assms(2) unscored_scoredZero by (rule list_all_mono_simple)
  show ?thesis
    using processEntityFile_scoredZero [OF assms(1) z]
      processEntityFile_same_identity [OF assms(1) z]
    by blast
qed

text \<open>An unscored record, and its twin that scores 0 on its only entry.\<close>

theorem unscored_record_output_witness:
  "structurallyValid unscoredRecord \<and> list_all unscored (areasOf unscoredRecord) \<and>
   processEntityFile sampleBuiltins unscoredRecord =
     Returned (JObj
       [(''entityRef'', JObj [(''kind'', JStr ''api''), (''name'', JStr ''ledger'')]),
        (''generatedDateTimeUtc'', JStr ''2024-05-01T10:00:00Z''),
        (''scorePercent'', JNum 0),
        (''scoreLabel'', JStr ''Red''),
        (''scoreSuccess'', JStr ''failure''),
        (''areaScores'',
           JArr [JObj [(''id'', JNum 3), (''title'', JStr ''Security''),
                       (''scorePercent'', JNum 0), (''scoreLabel'', JStr ''Red''),
                       (''scoreSuccess'', JStr ''failure'')]])]) \<and>
   structurallyValid zeroRecord \<and> list_all scoredZero (areasOf zeroRecord) \<and>
   sameIdentity unscoredRecord zeroRecord \<and>
   processEntityFile sampleBuiltins zeroRecord = processEntityFile sampleBuiltins unscoredRecord"
proof -
  note t = unscored_record_output [OF structurallyValid_unscoredRecord unscored_unscoredRecord,
      of sampleBuiltins]
  have p: "processEntityFile sampleBuiltins unscoredRecord =
     Returned (JObj
       [(''entityRef'', JObj [(''kind'', JStr ''api''), (''name'', JStr ''ledger'')]),
        (''generatedDateTimeUtc'', JStr ''2024-05-01T10:00:00Z''),
        (''scorePercent'', JNum 0),
        (''scoreLabel'', JStr ''Red''),
        (''scoreSuccess'', JStr ''failure''),
        (''areaScores'',
           JArr [JObj [(''id'', JNum 3), (''title'', JStr ''Security''),
                       (''scorePercent'', JNum 0), (''scoreLabel'', JStr ''Red''),
                       (''scoreSuccess'', JStr ''failure'')]])])"
    unfolding t [THEN conjunct1]
    by (simp add: unscoredRecord_fields entityRef_fields securityArea_fields zeroSummary_def)
  have q: "processEntityFile sampleBuiltins zeroRecord =
      processEntityFile sampleBuiltins unscoredRecord"
    by (rule t [THEN conjunct2, rule_format, of zeroRecord])
       (intro conjI structurallyValid_zeroRecord scoredZero_zeroRecord sameIdentity_samples)
  show ?thesis
    by (intro conjI structurallyValid_unscoredRecord unscored_unscoredRecord p
          structurallyValid_zeroRecord scoredZero_zeroRecord sameIdentity_samples q)
qed


section \<open>Percents between the bands\<close>

lemma gap_means:
  "areaMean (scoredArea 1 ''Documentation'' [69, 70]) = JNum (139 / 2)"
  "areaMean (scoredArea 2 ''Security'' [79, 80]) = JNum (159 / 2)"
  by (simp_all add: areaMean_def keptPercents_scoredArea floatMean_samples)

lemma gap_overall:
  "aggregatorOverall [scoredArea 1 ''Documentation'' [69, 70], scoredArea 2 ''Security'' [79, 80]] =
     JNum (149 / 2)"
  by (simp add: aggregatorOverall_def gap_means floatMean_samples)

lemma gap_rounding:
  "roundNumber (JNum (139 / 2)) = JNum 70"
  "roundNumber (JNum (159 / 2)) = JNum 80"
  "roundNumber (JNum (149 / 2)) = JNum 75"
  by simp_all

text \<open>
  C3. The bands of the two tables have whole-number bounds, and the code looks up the
  mean as it is, not the rounded percent it prints beside the label. An area scoring 69
  and 70 has the mean 69.5: it is printed as 70 and mapped to Red and failure, while 70
  itself maps to Green and almost-success. An area scoring 79 and 80 has the mean 79.5:
  it is printed as 80 and its colour is Green, yet its category is failure, while 80
  itself maps to success.
\<close>

theorem processEntityFile_between_bands:
  "processEntityFile sampleBuiltins gapRecord =
     Returned (JObj
       [(''entityRef'', JObj [(''kind'', JStr ''component''), (''name'', JStr ''billing'')]),
        (''generatedDateTimeUtc'', JStr ''2024-05-01T10:00:00Z''),
        (''scorePercent'', JNum 75),
        (''scoreLabel'', JStr ''Green''),
        (''scoreSuccess'', JStr ''almost-success''),
        (''areaScores'',
           JArr [JObj [(''id'', JNum 1), (''title'', JStr ''Documentation''),
                       (''scorePercent'', JNum 70), (''scoreLabel'', JStr ''Red''),
                       (''scoreSuccess'', JStr ''failure'')],
                 JObj [(''id'', JNum 2), (''title'', JStr ''Security''),
                       (''scorePercent'', JNum 80), (''scoreLabel'', JStr ''Green''),
                       (''scoreSuccess'', JStr ''failure'')]])]) \<and>
   getScoreLabel sampleBuiltins (JNum (139 / 2)) = Returned ''Red'' \<and>
   getScoreSuccess sampleBuiltins (JNum (139 / 2)) = Returned ''failure'' \<and>
   getScoreSuccess sampleBuiltins (JNum (159 / 2)) = Returned ''failure'' \<and>
   getScoreLabel sampleBuiltins (JNum 70) = Returned ''Green'' \<and>
   getScoreSuccess sampleBuiltins (JNum 70) = Returned ''almost-success'' \<and>
   getScoreSuccess sampleBuiltins (JNum 80) = Returned ''success'' \<and>
   getScoreLabel sampleBuiltins (JNum 69) = Returned ''Yellow'' \<and>
   getScoreSuccess sampleBuiltins (JNum 69) = Returned ''partial''"
proof -
  have v: "structurallyValid gapRecord"
    unfolding gapRecord_def
    by (rule structurallyValid_recordOver) (simp add: typedArea_scoredArea)
  have p: "processEntityFile sampleBuiltins gapRecord =
     Returned (JObj
       [(''entityRef'', JObj [(''kind'', JStr ''component''), (''name'', JStr ''billing'')]),
        (''generatedDateTimeUtc'', JStr ''2024-05-01T10:00:00Z''),
        (''scorePercent'', JNum 75),
        (''scoreLabel'', JStr ''Green''),
        (''scoreSuccess'', JStr ''almost-success''),
        (''areaScores'',
           JArr [JObj [(''id'', JNum 1), (''title'', JStr ''Documentation''),
                       (''scorePercent'', JNum 70), (''scoreLabel'', JStr ''Red''),
                       (''scoreSuccess'', JStr ''failure'')],
                 JObj [(''id'', JNum 2), (''title'', JStr ''Security''),
                       (''scorePercent'', JNum 80), (''scoreLabel'', JStr ''Green''),
                       (''scoreSuccess'', JStr ''failure'')]])])"
    unfolding processEntityFile_valid [OF v]
    unfolding gapRecord_def
    by (simp add: recordOver_fields entityRef_fields areasOf_recordOver summaryOf_def
          gap_overall gap_means gap_rounding scoredArea_fields
          colourOf_number categoryOf_number del: roundNumber.simps)
  show ?thesis
    by (intro conjI p) (simp_all add: getScoreLabel_number getScoreSuccess_number)
qed

section \<open>The Validator: sequencing and accumulation\<close>

lemma andThen_Returned: "andThen (evaluate (Returned x)) g = g x"
  by (rule ext) (simp add: andThen_def evaluate_def)

lemma andThen_Threw: "andThen (evaluate (Threw e)) g = evaluate (Threw e)"
  by (rule ext) (simp add: andThen_def evaluate_def)

lemma andThen_addError:
  "andThen (addError m) g v = g () (v\<lparr>errors := errors v @ [m]\<rparr>)"
  by (simp add: andThen_def addError_def)

lemma andThen_addWarning:
  "andThen (addWarning m) g v = g () (v\<lparr>warnings := warnings v @ [m]\<rparr>)"
  by (simp add: andThen_def addWarning_def)

lemma andThen_unit: "andThen f (\<lambda>u. evaluate (Returned ())) = f"
proof (rule ext)
  fix v
  obtain c v1 where f: "f v = (c, v1)"
    by (cases "f v")
  show "andThen f (\<lambda>u. evaluate (Returned ())) v = f v"
    by (cases c) (simp_all add: andThen_def evaluate_def f)
qed

lemmas check_laws = andThen_Returned andThen_Threw andThen_unit

lemmas run_check = andThen_Returned andThen_Threw andThen_addError andThen_addWarning

lemma validateRequired_scoreEntry:
  "validateRequired (scoreEntry percent success optional)
     [''id'', ''title'', ''scoreSuccess'', ''details''] = evaluate (Returned ())"
  by (simp add: scoreEntry_def check_laws)

lemma getScoreCategory_number:
  "getScoreCategory B (JNum p) =
     Returned (if 80 \<le> p \<and> p \<le> 100 then ''success''
               else if 70 \<le> p \<and> p \<le> 79 then ''almost-success''
               else if 50 \<le> p \<and> p \<le> 69 then ''partial''
               else if 30 \<le> p \<and> p \<le> 49 then ''almost-failure''
               else if 0 \<le> p \<and> p \<le> 29 then ''failure'' else ''unknown'')"
  by (simp add: getScoreCategory_def lookupRange_success)

lemma member_scoreCategories:
  "(JStr s \<in> set scoreCategories) =
     (s = ''success'' \<or> s = ''almost-success'' \<or> s = ''partial'' \<or>
      s = ''almost-failure'' \<or> s = ''failure'' \<or> s = ''unknown'')"
  by (auto simp add: scoreCategories_def)

lemma appendMessages_new: "appendMessages v newValidator = v"
  by (simp add: appendMessages_def newValidator_def)

lemma accumulating_evaluate: "accumulating (evaluate r)"
  by (simp add: accumulating_def evaluate_def)

lemma accumulating_addError: "accumulating (addError m)"
  by (simp add: accumulating_def addError_def appendMessages_def)

lemma accumulating_addWarning: "accumulating (addWarning m)"
  by (simp add: accumulating_def addWarning_def appendMessages_def)

lemma accumulating_andThen:
  assumes "accumulating f" and "\<And>x. accumulating (g x)"
  shows "accumulating (andThen f g)"
proof -
  have "andThen f g (appendMessages v d) =
        (fst (andThen f g d), appendMessages v (snd (andThen f g d)))" for v d
  proof -
    obtain c d1 where fd: "f d = (c, d1)"
      by (cases "f d")
    have fv: "f (appendMessages v d) = (c, appendMessages v d1)"
      using assms(1) fd by (simp add: accumulating_def)
    show ?thesis
    proof (cases c)
      case (Returned x)
      have "g x (appendMessages v d1) = (fst (g x d1), appendMessages v (snd (g x d1)))"
        using assms(2) [of x] by (simp add: accumulating_def)
      then show ?thesis
        by (simp add: andThen_def fd fv Returned)
    next
      case (Threw e)
      then show ?thesis
        by (simp add: andThen_def fd fv)
    qed
  qed
  then show ?thesis
    by (simp add: accumulating_def)
qed

lemma accumulating_if:
  "accumulating f \<Longrightarrow> accumulating g \<Longrightarrow> accumulating (if c then f else g)"
  by simp

lemmas accumulating_intros =
  accumulating_evaluate accumulating_addError accumulating_addWarning
  accumulating_andThen accumulating_if

lemma accumulating_validateRequired: "accumulating (validateRequired obj names)"
  by (induction names) (simp_all add: accumulating_intros)

lemma accumulating_validateEntityRef: "accumulating (validateEntityRef B entityRef)"
  unfolding validateEntityRef_def
  by (intro accumulating_intros accumulating_validateRequired)

lemma accumulating_validateDateTime: "accumulating (validateDateTime B dateStr fieldName)"
  unfolding validateDateTime_def
  by (cases "toPrimitive B dateStr") (simp_all add: accumulating_intros)

lemma accumulating_validateScoreEntry: "accumulating (validateScoreEntry B entry prefix)"
  unfolding validateScoreEntry_def
  by (intro accumulating_intros accumulating_validateRequired)

lemma accumulating_validateEntries: "accumulating (validateEntries B index entryIndex entries)"
  by (induction entries arbitrary: entryIndex)
     (simp_all add: accumulating_intros accumulating_validateScoreEntry)

lemma accumulating_validateAreaScore: "accumulating (validateAreaScore B area index)"
  unfolding validateAreaScore_def
  by (cases "field area ''scoreEntries''")
     (simp_all add: accumulating_intros accumulating_validateRequired
        accumulating_validateEntries)

lemma accumulating_validateAreas: "accumulating (validateAreas B index areas)"
  by (induction areas arbitrary: index)
     (simp_all add: accumulating_intros accumulating_validateAreaScore)

lemma accumulating_validateCalculatedScores: "accumulating (validateCalculatedScores B data)"
  unfolding validateCalculatedScores_def
  by (intro accumulating_intros)

lemma verdictAccumulating_result:
  "verdictAccumulating (\<lambda>v. (Returned (errors v = []), v))"
  by (simp add: verdictAccumulating_def appendMessages_def)

lemma verdictAccumulating_andThen:
  assumes "accumulating f" and "\<And>x. verdictAccumulating (g x)"
  shows "verdictAccumulating (andThen f g)"
proof -
  have "andThen f g (appendMessages v d) =
        ((case fst (andThen f g d) of
            Returned valid \<Rightarrow> Returned (errors v = [] \<and> valid)
          | Threw e \<Rightarrow> Threw e),
         appendMessages v (snd (andThen f g d)))" for v d
  proof -
    obtain c d1 where fd: "f d = (c, d1)"
      by (cases "f d")
    have fv: "f (appendMessages v d) = (c, appendMessages v d1)"
      using assms(1) fd by (simp add: accumulating_def)
    show ?thesis
    proof (cases c)
      case (Returned x)
      have "g x (appendMessages v d1) =
        ((case fst (g x d1) of
            Returned valid \<Rightarrow> Returned (errors v = [] \<and> valid)
          | Threw e \<Rightarrow> Threw e),
         appendMessages v (snd (g x d1)))"
        using assms(2) [of x] by (simp add: verdictAccumulating_def)
      then show ?thesis
        by (simp add: andThen_def fd fv Returned)
    next
      case (Threw e)
      then show ?thesis
        by (simp add: andThen_def fd fv)
    qed
  qed
  then show ?thesis
    by (simp add: verdictAccumulating_def)
qed

lemma accumulating_areaScores_check:
  "accumulating (case x of JArr areas \<Rightarrow> validateAreas B 0 areas
                 | y \<Rightarrow> addError AreaScoresNotArray)"
  by (cases x) (simp_all add: accumulating_intros accumulating_validateAreas)

lemma verdictAccumulating_validateEntityScore:
  "verdictAccumulating (validateEntityScore B data)"
  unfolding validateEntityScore_def
  by (intro verdictAccumulating_andThen verdictAccumulating_result accumulating_intros
        accumulating_validateRequired accumulating_validateEntityRef
        accumulating_validateDateTime accumulating_areaScores_check
        accumulating_validateCalculatedScores)

lemma validateScoreEntry_scoreEntry:
  "validateScoreEntry B (scoreEntry percent success optional) prefix =
     andThen (if percent \<noteq> JNull \<and> percent \<noteq> JUndefined
              then
                (if typeof percent \<noteq> TNumber
                 then addError (ScorePercentNotInRange (fst prefix) (snd prefix))
                 else if numLt percent 0
                 then addError (ScorePercentNotInRange (fst prefix) (snd prefix))
                 else if numGt percent 100
                 then addError (ScorePercentNotInRange (fst prefix) (snd prefix))
                 else evaluate (Returned ()))
              else evaluate (Returned ())) (\<lambda>u.
     andThen (if JStr success \<in> set scoreCategories
              then evaluate (Returned ())
              else addError (ScoreSuccessNotCategory (fst prefix) (snd prefix))) (\<lambda>u.
     if percent \<noteq> JNull \<and> success \<noteq> ''unknown''
     then
       andThen (evaluate (getScoreCategory B percent)) (\<lambda>expectedCategory.
       if expectedCategory \<noteq> success then
         andThen (evaluate (toStringJS B percent)) (\<lambda>percent.
         addWarning (ScoreInconsistent (fst prefix) (snd prefix)
                       percent expectedCategory success))
       else evaluate (Returned ()))
     else evaluate (Returned ())))"
  unfolding validateScoreEntry_def
  by (simp add: scoreEntry_fields validateRequired_scoreEntry check_laws
        del: validateRequired.simps split del: if_split cong: if_cong)

lemma validateScoreEntry_consistent:
  assumes "0 \<le> p" and "p \<le> 100" and "JStr s \<in> set scoreCategories"
    and "getScoreCategory B (JNum p) = Returned s"
  shows "validateScoreEntry B (scoreEntry (JNum p) s optional) prefix = evaluate (Returned ())"
  using assms by (simp add: validateScoreEntry_scoreEntry check_laws)

lemma validateScoreEntry_unknown:
  "validateScoreEntry B (scoreEntry JNull ''unknown'' optional) prefix = evaluate (Returned ())"
  by (simp add: validateScoreEntry_scoreEntry check_laws member_scoreCategories)

lemma validateEntries_sampleEntries:
  "validateEntries B index entryIndex sampleEntries = evaluate (Returned ())"
  by (simp add: sampleEntries_def validateScoreEntry_consistent validateScoreEntry_unknown
        member_scoreCategories getScoreCategory_number check_laws)

lemma validateRequired_area:
  "i \<noteq> JNull \<Longrightarrow> i \<noteq> JUndefined \<Longrightarrow> t \<noteq> JNull \<Longrightarrow> t \<noteq> JUndefined \<Longrightarrow>
   validateRequired (JObj [(''id'', i), (''title'', t), (''scoreEntries'', JArr es)])
     [''id'', ''title'', ''scoreEntries''] = evaluate (Returned ())"
  by (simp add: check_laws)

lemma validateAreaScore_sampleArea:
  "validateAreaScore B sampleArea index = evaluate (Returned ())"
proof -
  have r: "validateRequired sampleArea [''id'', ''title'', ''scoreEntries''] =
      evaluate (Returned ())"
    unfolding sampleArea_def by (rule validateRequired_area) simp_all
  have n: "sampleEntries \<noteq> []"
    by (simp add: sampleEntries_def)
  show ?thesis
    unfolding validateAreaScore_def r
    by (simp add: sampleArea_fields check_laws validateEntries_sampleEntries n)
qed

lemma validateAreaScore_secondArea:
  "validateAreaScore B secondArea index = evaluate (Returned ())"
proof -
  have r: "validateRequired secondArea [''id'', ''title'', ''scoreEntries''] =
      evaluate (Returned ())"
    unfolding secondArea_def by (rule validateRequired_area) simp_all
  show ?thesis
    unfolding validateAreaScore_def r
    by (simp add: secondArea_fields check_laws validateScoreEntry_consistent
          member_scoreCategories getScoreCategory_number)
qed

lemma validateDateTime_string:
  "dateParse B s \<Longrightarrow> validateDateTime B (JStr s) fieldName = evaluate (Returned ())"
  by (simp add: validateDateTime_def)

lemma sampleBuiltins_dateParse: "dateParse sampleBuiltins s"
  by (simp add: sampleBuiltins_def)

lemma sampleBuiltins_numberToString: "numberToString sampleBuiltins r = ''n''"
  by (simp add: sampleBuiltins_def)

lemma validateEntityRef_sample:
  "validateEntityRef B (JObj [(''kind'', JStr ''component''), (''name'', JStr ''billing''),
                              (''namespace'', JStr ''default'')]) = evaluate (Returned ())"
  by (simp add: validateEntityRef_def check_laws entityKinds_def)

lemma validateRequired_validRecord:
  "validateRequired validRecord [''entityRef'', ''generatedDateTimeUtc'', ''areaScores''] =
     evaluate (Returned ())"
  by (simp add: validRecord_def check_laws)

lemma sumEntryScores_samples:
  "sumEntryScores B sampleEntries (JNum 0, 0) = Returned (JNum 180, 3)"
  "sumEntryScores B [scoreEntry (JNum 80) ''success'' (JBool False),
                     scoreEntry (JNum 85) ''success'' (JBool False)] (JNum 0, 0) =
     Returned (JNum 165, 2)"
  "sumEntryScores B [scoreEntry (JNum 0) ''failure'' (JBool False)] (JNum 0, 0) =
     Returned (JNum 0, 1)"
  "sumEntryScores B [scoreEntry (JNum 80) ''success'' (JBool False)] (JNum 0, 0) =
     Returned (JNum 80, 1)"
  by (simp_all add: sampleEntries_def scoreEntry_fields jsAdd_numbers roundDouble_small)

lemma calculateScores_samples:
  assumes "field data ''areaScores'' = JArr [sampleArea, secondArea]"
  shows "calculateScores B data = Returned (JObj [(''overall'', JNum (285 / 4))])"
proof -
  have n: "\<not> nullish data"
    using assms by (cases data) simp_all
  have s: "sumAreaScores B [sampleArea, secondArea] (JNum 0, 0) = Returned (JNum (285 / 2), 2)"
    by (simp add: sampleArea_fields secondArea_fields sumEntryScores_samples
          jsDivCount_number jsAdd_numbers roundDouble_small del: sumEntryScores.simps)
  show ?thesis
    by (simp add: calculateScores_def n assms s jsDivCount_number roundDouble_small
          del: sumAreaScores.simps)
qed

lemma validateCalculatedScores_validRecord:
  "validateCalculatedScores B validRecord = evaluate (Returned ())"
  unfolding validateCalculatedScores_def calculateScores_samples [OF validRecord_fields(6)]
  by (simp add: check_laws validRecord_fields)

lemma validateEntityScore_validRecord:
  "validateEntityScore sampleBuiltins validRecord v = (Returned (errors v = []), v)"
  unfolding validateEntityScore_def validateRequired_validRecord
    validateCalculatedScores_validRecord
  by (simp add: check_laws validRecord_fields validateEntityRef_sample
        validateDateTime_string sampleBuiltins_dateParse validateAreaScore_sampleArea
        validateAreaScore_secondArea)

lemma validateEntityScore_recordWithoutEntityRef:
  "validateEntityScore sampleBuiltins recordWithoutEntityRef newValidator =
     (Returned False,
      \<lparr>errors = [MissingRequiredField ''entityRef'', EntityRefNotObject], warnings = []\<rparr>)"
proof -
  have f: "field recordWithoutEntityRef ''entityRef'' = JUndefined"
    "field recordWithoutEntityRef ''generatedDateTimeUtc'' = JStr ''2024-05-01T10:00:00Z''"
    "field recordWithoutEntityRef ''scoringReviewDate'' = JUndefined"
    "field recordWithoutEntityRef ''scorePercent'' = JUndefined"
    "field recordWithoutEntityRef ''areaScores'' = JArr []"
    by (simp_all add: recordWithoutEntityRef_def)
  have r: "validateRequired recordWithoutEntityRef
             [''entityRef'', ''generatedDateTimeUtc'', ''areaScores''] =
           addError (MissingRequiredField ''entityRef'')"
    by (rule ext) (simp add: recordWithoutEntityRef_def run_check evaluate_def addError_def)
  have c: "calculateScores sampleBuiltins recordWithoutEntityRef =
      Returned (JObj [(''overall'', JNum 0)])"
    by (simp add: calculateScores_def f recordWithoutEntityRef_def)
  show ?thesis
    unfolding validateEntityScore_def r validateCalculatedScores_def c
    by (simp add: run_check f validateEntityRef_def validateDateTime_string
          sampleBuiltins_dateParse newValidator_def)
qed

text \<open>
  C5 (amended). Validating \<open>r2\<close> on the validator that has validated \<open>r1\<close> appends
  to the two lists exactly the errors and warnings that validating \<open>r2\<close> on a fresh
  validator produces, and throws exactly when the fresh validation throws. The verdict
  it returns is the fresh verdict only when \<open>r1\<close> left no error; otherwise it is
  \<open>false\<close>, because the verdict reads the accumulated error list.
\<close>

theorem validateEntityScore_shared_validator:
  "validateEntityScore B r2 (snd (validateEntityScore B r1 newValidator)) =
     ((case fst (validateEntityScore B r2 newValidator) of
         Returned valid \<Rightarrow>
           Returned (errors (snd (validateEntityScore B r1 newValidator)) = [] \<and> valid)
       | Threw e \<Rightarrow> Threw e),
      appendMessages (snd (validateEntityScore B r1 newValidator))
        (snd (validateEntityScore B r2 newValidator)))"
proof -
  let ?v1 = "snd (validateEntityScore B r1 newValidator)"
  have "validateEntityScore B r2 (appendMessages ?v1 newValidator) =
     ((case fst (validateEntityScore B r2 newValidator) of
         Returned valid \<Rightarrow> Returned (errors ?v1 = [] \<and> valid)
       | Threw e \<Rightarrow> Threw e),
      appendMessages ?v1 (snd (validateEntityScore B r2 newValidator)))"
    using verdictAccumulating_validateEntityScore [of B r2]
    unfolding verdictAccumulating_def by blast
  then show ?thesis
    by (simp only: appendMessages_new)
qed

text \<open>The valid example record validated twice on one validator.\<close>

theorem validateEntityScore_shared_validator_witness:
  "validateEntityScore sampleBuiltins validRecord
     (snd (validateEntityScore sampleBuiltins validRecord newValidator)) =
   (Returned True, newValidator)"
proof -
  have fresh: "validateEntityScore sampleBuiltins validRecord newValidator =
      (Returned True, newValidator)"
    by (simp add: validateEntityScore_validRecord newValidator_def)
  have "validateEntityScore sampleBuiltins validRecord
          (snd (validateEntityScore sampleBuiltins validRecord newValidator)) =
        ((case fst (validateEntityScore sampleBuiltins validRecord newValidator) of
            Returned valid \<Rightarrow>
              Returned (errors (snd (validateEntityScore sampleBuiltins validRecord
                                       newValidator)) = [] \<and> valid)
          | Threw e \<Rightarrow> Threw e),
         appendMessages (snd (validateEntityScore sampleBuiltins validRecord newValidator))
           (snd (validateEntityScore sampleBuiltins validRecord newValidator)))"
    by (rule validateEntityScore_shared_validator)
  also have "\<dots> = (Returned True, newValidator)"
    unfolding fresh by (simp add: newValidator_def appendMessages_def)
  finally show ?thesis .
qed

text \<open>
  The claim as first stated fails: the valid record is valid on a fresh validator and
  not valid on the validator that has seen the record without entity reference.
\<close>

theorem validateEntityScore_shared_validator_counterexample:
  "fst (validateEntityScore sampleBuiltins validRecord newValidator) = Returned True \<and>
   fst (validateEntityScore sampleBuiltins validRecord
          (snd (validateEntityScore sampleBuiltins recordWithoutEntityRef newValidator))) =
     Returned False"
proof
  show "fst (validateEntityScore sampleBuiltins validRecord newValidator) = Returned True"
    by (simp add: validateEntityScore_validRecord newValidator_def)
  show "fst (validateEntityScore sampleBuiltins validRecord
          (snd (validateEntityScore sampleBuiltins recordWithoutEntityRef newValidator))) =
     Returned False"
    by (simp add: validateEntityScore_validRecord validateEntityScore_recordWithoutEntityRef)
qed

section \<open>The Validator on malformed content\<close>

lemma validateEntityRef_kind_name:
  "validateEntityRef B (JObj [(''kind'', JStr ''component''), (''name'', JStr ''billing'')]) =
     evaluate (Returned ())"
  by (simp add: validateEntityRef_def check_laws entityKinds_def)

text \<open>
  C4. On a record without \<open>areaScores\<close> the validator records the missing field and
  that \<open>areaScores\<close> must be an array, and then \<open>calculateScores\<close> calls
  \<open>data.areaScores.forEach\<close>: the validation throws a TypeError instead of
  returning. The same happens when \<open>areaScores\<close> is a string.
\<close>

theorem validateEntityScore_throws_without_areas:
  "validateEntityScore sampleBuiltins recordWithoutAreaScores newValidator =
     (Threw TypeError,
      \<lparr>errors = [MissingRequiredField ''areaScores'', AreaScoresNotArray], warnings = []\<rparr>) \<and>
   validateEntityScore sampleBuiltins recordWithAreaScoresString newValidator =
     (Threw TypeError, \<lparr>errors = [AreaScoresNotArray], warnings = []\<rparr>)"
proof
  have f: "field recordWithoutAreaScores ''entityRef'' =
      JObj [(''kind'', JStr ''component''), (''name'', JStr ''billing'')]"
    "field recordWithoutAreaScores ''generatedDateTimeUtc'' = JStr ''2024-05-01T10:00:00Z''"
    "field recordWithoutAreaScores ''scoringReviewDate'' = JUndefined"
    "field recordWithoutAreaScores ''areaScores'' = JUndefined"
    "nullish recordWithoutAreaScores = False"
    by (simp_all add: recordWithoutAreaScores_def)
  have r: "validateRequired recordWithoutAreaScores
             [''entityRef'', ''generatedDateTimeUtc'', ''areaScores''] =
           addError (MissingRequiredField ''areaScores'')"
    by (simp add: recordWithoutAreaScores_def check_laws)
  have c: "calculateScores sampleBuiltins recordWithoutAreaScores = Threw TypeError"
    by (simp add: calculateScores_def f)
  show "validateEntityScore sampleBuiltins recordWithoutAreaScores newValidator =
     (Threw TypeError,
      \<lparr>errors = [MissingRequiredField ''areaScores'', AreaScoresNotArray], warnings = []\<rparr>)"
    unfolding validateEntityScore_def r validateCalculatedScores_def c
    by (simp add: run_check f validateEntityRef_kind_name validateDateTime_string
          sampleBuiltins_dateParse newValidator_def evaluate_def)
next
  have f: "field recordWithAreaScoresString ''entityRef'' =
      JObj [(''kind'', JStr ''component''), (''name'', JStr ''billing'')]"
    "field recordWithAreaScoresString ''generatedDateTimeUtc'' = JStr ''2024-05-01T10:00:00Z''"
    "field recordWithAreaScoresString ''scoringReviewDate'' = JUndefined"
    "field recordWithAreaScoresString ''areaScores'' = JStr ''none''"
    "nullish recordWithAreaScoresString = False"
    by (simp_all add: recordWithAreaScoresString_def)
  have r: "validateRequired recordWithAreaScoresString
             [''entityRef'', ''generatedDateTimeUtc'', ''areaScores''] =
           evaluate (Returned ())"
    by (simp add: recordWithAreaScoresString_def check_laws)
  have c: "calculateScores sampleBuiltins recordWithAreaScoresString = Threw TypeError"
    by (simp add: calculateScores_def f)
  show "validateEntityScore sampleBuiltins recordWithAreaScoresString newValidator =
     (Threw TypeError, \<lparr>errors = [AreaScoresNotArray], warnings = []\<rparr>)"
    unfolding validateEntityScore_def r validateCalculatedScores_def c
    by (simp add: run_check f validateEntityRef_kind_name validateDateTime_string
          sampleBuiltins_dateParse newValidator_def evaluate_def)
qed

text \<open>
  C6. The consistency check tests \<open>entry.scorePercent !== null\<close> only: for an entry
  with no \<open>scorePercent\<close> property the percent is \<open>undefined\<close>, the category derived
  from it is \<open>unknown\<close>, and a consistency warning is emitted.
\<close>

theorem validateScoreEntry_warns_without_percent:
  "field entryWithoutPercent ''scorePercent'' = JUndefined \<and>
   validateScoreEntry sampleBuiltins entryWithoutPercent (0, 0) newValidator =
     (Returned (),
      \<lparr>errors = [],
       warnings = [ScoreInconsistent 0 0 ''undefined'' ''unknown'' ''partial'']\<rparr>)"
proof
  show f: "field entryWithoutPercent ''scorePercent'' = JUndefined"
    by (simp add: entryWithoutPercent_def)
  have g: "field entryWithoutPercent ''id'' = JNum 1"
    "field entryWithoutPercent ''scoreSuccess'' = JStr ''partial''"
    "field entryWithoutPercent ''selfAssessmentComments'' = JUndefined"
    by (simp_all add: entryWithoutPercent_def)
  have r: "validateRequired entryWithoutPercent [''id'', ''title'', ''scoreSuccess'', ''details''] =
      evaluate (Returned ())"
    by (simp add: entryWithoutPercent_def check_laws)
  have c: "getScoreCategory sampleBuiltins JUndefined = Returned ''unknown''"
    by (simp add: getScoreCategory_def SCORE_SUCCESS_MAPPING_def)
  show "validateScoreEntry sampleBuiltins entryWithoutPercent (0, 0) newValidator =
     (Returned (),
      \<lparr>errors = [],
       warnings = [ScoreInconsistent 0 0 ''undefined'' ''unknown'' ''partial'']\<rparr>)"
    unfolding validateScoreEntry_def r
    by (simp add: f g c check_laws member_scoreCategories addWarning_def newValidator_def)
qed

text \<open>
  With a percent that is present the check does what is claimed: 85 declared
  \<open>partial\<close> draws the warning and no error, and a \<open>null\<close> percent draws nothing.
\<close>

lemma validateScoreEntry_mismatch_example:
  "validateScoreEntry sampleBuiltins (scoreEntry (JNum 85) ''partial'' (JBool False)) (0, 0)
     newValidator =
   (Returned (),
    \<lparr>errors = [], warnings = [ScoreInconsistent 0 0 ''n'' ''success'' ''partial'']\<rparr>)"
  by (simp add: validateScoreEntry_scoreEntry check_laws member_scoreCategories
        getScoreCategory_number addWarning_def newValidator_def sampleBuiltins_def)

lemma validateScoreEntry_null_percent_example:
  "validateScoreEntry sampleBuiltins (scoreEntry JNull ''partial'' (JBool False)) (0, 0)
     newValidator = (Returned (), newValidator)"
  by (simp add: validateScoreEntry_scoreEntry check_laws member_scoreCategories evaluate_def)

section \<open>The Validator: errors of an entry and the verdict\<close>




























































section \<open>The Validator's final consistency check\<close>

lemma storedRecord_fields:
  "field (storedRecord s areas) ''entityRef'' =
     JObj [(''kind'', JStr ''component''), (''name'', JStr ''billing'')]"
  "field (storedRecord s areas) ''generatedDateTimeUtc'' = JStr ''2024-05-01T10:00:00Z''"
  "field (storedRecord s areas) ''scoringReviewer'' = JUndefined"
  "field (storedRecord s areas) ''scoringReviewDate'' = JUndefined"
  "field (storedRecord s areas) ''scorePercent'' = JNum s"
  "field (storedRecord s areas) ''areaScores'' = JArr areas"
  "nullish (storedRecord s areas) = False"
  "areasOf (storedRecord s areas) = areas"
  by (simp_all add: storedRecord_def areasOf_def)

lemma structurallyValid_storedRecord:
  "list_all typedArea areas \<Longrightarrow> structurallyValid (storedRecord s areas)"
  by (simp add: structurallyValid_def storedRecord_fields)

lemma mixed_fields:
  "field zeroArea ''scoreEntries'' = JArr [scoreEntry (JNum 0) ''failure'' (JBool False)]"
  "field zeroArea ''id'' = JNum 1"
  "field zeroArea ''title'' = JStr ''Security''"
  "nullish zeroArea = False"
  "field eightyArea ''scoreEntries'' = JArr [scoreEntry (JNum 80) ''success'' (JBool False)]"
  "field eightyArea ''id'' = JNum 2"
  "field eightyArea ''title'' = JStr ''Operations''"
  "nullish eightyArea = False"
  by (simp_all add: zeroArea_def eightyArea_def)

lemma undeclaredArea_fields:
  "field undeclaredArea ''scoreEntries'' =
     JArr [entryWithoutPercent, scoreEntry (JNum 80) ''success'' (JBool False)]"
  "field undeclaredArea ''id'' = JNum 5"
  "field undeclaredArea ''title'' = JStr ''Runbooks''"
  "nullish undeclaredArea = False"
  by (simp_all add: undeclaredArea_def)

lemma entryWithoutPercent_fields:
  "field entryWithoutPercent ''scorePercent'' = JUndefined"
  "field entryWithoutPercent ''scoreSuccess'' = JStr ''partial''"
  "field entryWithoutPercent ''isOptional'' = JUndefined"
  "nullish entryWithoutPercent = False"
  by (simp_all add: entryWithoutPercent_def)

lemma mixed_typedAreas: "typedArea zeroArea" "typedArea eightyArea" "typedArea undeclaredArea"
  by (simp_all add: typedArea_def mixed_fields undeclaredArea_fields typedEntry_scoreEntry)
     (simp add: percentTyped_def entryWithoutPercent_fields)

lemma mixed_means:
  "areaMean zeroArea = JNum 0" "areaMean eightyArea = JNum 80" "areaMean undeclaredArea = JNum 80"
  by (simp_all add: areaMean_def keptPercents_def entriesOf_def mixed_fields
        undeclaredArea_fields scoredEntry_def scoreEntry_fields entryWithoutPercent_fields
        percentOf_def floatMean_samples)

lemma mixed_overalls:
  "aggregatorOverall [zeroArea, eightyArea] = JNum 80"
  "aggregatorOverall [undeclaredArea] = JNum 80"
  by (simp_all add: aggregatorOverall_def mixed_means floatMean_samples)

text \<open>What the Aggregator emits for the three stored records.\<close>

lemma processEntityFile_stored:
  "processEntityFile sampleBuiltins (storedRecord 0 [sampleArea, secondArea]) =
     Returned (JObj
       [(''entityRef'', JObj [(''kind'', JStr ''component''), (''name'', JStr ''billing'')]),
        (''generatedDateTimeUtc'', JStr ''2024-05-01T10:00:00Z''),
        (''scorePercent'', JNum 71),
        (''scoreLabel'', JStr ''Green''),
        (''scoreSuccess'', JStr ''almost-success''),
        (''areaScores'',
           JArr [JObj [(''id'', JNum 7), (''title'', JStr ''Operations''),
                       (''scorePercent'', JNum 60), (''scoreLabel'', JStr ''Yellow''),
                       (''scoreSuccess'', JStr ''partial'')],
                 JObj [(''id'', JNum 8), (''title'', JStr ''Documentation''),
                       (''scorePercent'', JNum 83), (''scoreLabel'', JStr ''Green''),
                       (''scoreSuccess'', JStr ''success'')]])])"
  "processEntityFile sampleBuiltins (storedRecord 80 [zeroArea, eightyArea]) =
     Returned (JObj
       [(''entityRef'', JObj [(''kind'', JStr ''component''), (''name'', JStr ''billing'')]),
        (''generatedDateTimeUtc'', JStr ''2024-05-01T10:00:00Z''),
        (''scorePercent'', JNum 80),
        (''scoreLabel'', JStr ''Green''),
        (''scoreSuccess'', JStr ''success''),
        (''areaScores'',
           JArr [JObj [(''id'', JNum 1), (''title'', JStr ''Security''),
                       (''scorePercent'', JNum 0), (''scoreLabel'', JStr ''Red''),
                       (''scoreSuccess'', JStr ''failure'')],
                 JObj [(''id'', JNum 2), (''title'', JStr ''Operations''),
                       (''scorePercent'', JNum 80), (''scoreLabel'', JStr ''Green''),
                       (''scoreSuccess'', JStr ''success'')]])])"
  "processEntityFile sampleBuiltins (storedRecord 10 [undeclaredArea]) =
     Returned (JObj
       [(''entityRef'', JObj [(''kind'', JStr ''component''), (''name'', JStr ''billing'')]),
        (''generatedDateTimeUtc'', JStr ''2024-05-01T10:00:00Z''),
        (''scorePercent'', JNum 80),
        (''scoreLabel'', JStr ''Green''),
        (''scoreSuccess'', JStr ''success''),
        (''areaScores'',
           JArr [JObj [(''id'', JNum 5), (''title'', JStr ''Runbooks''),
                       (''scorePercent'', JNum 80), (''scoreLabel'', JStr ''Green''),
                       (''scoreSuccess'', JStr ''success'')]])])"
proof -
  note r = roundNumber_whole
  have v: "structurallyValid (storedRecord 0 [sampleArea, secondArea])"
    "structurallyValid (storedRecord 80 [zeroArea, eightyArea])"
    "structurallyValid (storedRecord 10 [undeclaredArea])"
    by (simp_all add: structurallyValid_storedRecord sample_typedAreas mixed_typedAreas)
  show "processEntityFile sampleBuiltins (storedRecord 0 [sampleArea, secondArea]) =
     Returned (JObj
       [(''entityRef'', JObj [(''kind'', JStr ''component''), (''name'', JStr ''billing'')]),
        (''generatedDateTimeUtc'', JStr ''2024-05-01T10:00:00Z''),
        (''scorePercent'', JNum 71),
        (''scoreLabel'', JStr ''Green''),
        (''scoreSuccess'', JStr ''almost-success''),
        (''areaScores'',
           JArr [JObj [(''id'', JNum 7), (''title'', JStr ''Operations''),
                       (''scorePercent'', JNum 60), (''scoreLabel'', JStr ''Yellow''),
                       (''scoreSuccess'', JStr ''partial'')],
                 JObj [(''id'', JNum 8), (''title'', JStr ''Documentation''),
                       (''scorePercent'', JNum 83), (''scoreLabel'', JStr ''Green''),
                       (''scoreSuccess'', JStr ''success'')]])])"
    unfolding processEntityFile_valid [OF v(1)]
    by (simp add: storedRecord_fields entityRef_fields summaryOf_def sample_overall
          sample_means sample_rounding sample_labels sampleArea_fields secondArea_fields
          del: roundNumber.simps)
  show "processEntityFile sampleBuiltins (storedRecord 80 [zeroArea, eightyArea]) =
     Returned (JObj
       [(''entityRef'', JObj [(''kind'', JStr ''component''), (''name'', JStr ''billing'')]),
        (''generatedDateTimeUtc'', JStr ''2024-05-01T10:00:00Z''),
        (''scorePercent'', JNum 80),
        (''scoreLabel'', JStr ''Green''),
        (''scoreSuccess'', JStr ''success''),
        (''areaScores'',
           JArr [JObj [(''id'', JNum 1), (''title'', JStr ''Security''),
                       (''scorePercent'', JNum 0), (''scoreLabel'', JStr ''Red''),
                       (''scoreSuccess'', JStr ''failure'')],
                 JObj [(''id'', JNum 2), (''title'', JStr ''Operations''),
                       (''scorePercent'', JNum 80), (''scoreLabel'', JStr ''Green''),
                       (''scoreSuccess'', JStr ''success'')]])])"
    unfolding processEntityFile_valid [OF v(2)]
    by (simp add: storedRecord_fields entityRef_fields summaryOf_def mixed_overalls
          mixed_means r mixed_fields colourOf_number categoryOf_number
          del: roundNumber.simps)
  show "processEntityFile sampleBuiltins (storedRecord 10 [undeclaredArea]) =
     Returned (JObj
       [(''entityRef'', JObj [(''kind'', JStr ''component''), (''name'', JStr ''billing'')]),
        (''generatedDateTimeUtc'', JStr ''2024-05-01T10:00:00Z''),
        (''scorePercent'', JNum 80),
        (''scoreLabel'', JStr ''Green''),
        (''scoreSuccess'', JStr ''success''),
        (''areaScores'',
           JArr [JObj [(''id'', JNum 5), (''title'', JStr ''Runbooks''),
                       (''scorePercent'', JNum 80), (''scoreLabel'', JStr ''Green''),
                       (''scoreSuccess'', JStr ''success'')]])])"
    unfolding processEntityFile_valid [OF v(3)]
    by (simp add: storedRecord_fields entityRef_fields summaryOf_def mixed_overalls
          mixed_means r undeclaredArea_fields colourOf_number categoryOf_number
          del: roundNumber.simps)
qed

text \<open>What \<open>calculateScores\<close> recomputes for them.\<close>

lemma calculateScores_mixed:
  assumes "field data ''areaScores'' = JArr [zeroArea, eightyArea]"
  shows "calculateScores B data = Returned (JObj [(''overall'', JNum 40)])"
proof -
  have n: "\<not> nullish data"
    using assms by (cases data) simp_all
  have s: "sumAreaScores B [zeroArea, eightyArea] (JNum 0, 0) = Returned (JNum 80, 2)"
    by (simp add: mixed_fields sumEntryScores_samples jsDivCount_number jsAdd_numbers
          roundDouble_small del: sumEntryScores.simps)
  show ?thesis
    by (simp add: calculateScores_def n assms s jsDivCount_number roundDouble_small
          del: sumAreaScores.simps)
qed

lemma calculateScores_undeclared:
  assumes "field data ''areaScores'' = JArr [undeclaredArea]"
  shows "calculateScores B data = Returned (JObj [(''overall'', JNaN)])"
proof -
  have n: "\<not> nullish data"
    using assms by (cases data) simp_all
  have u: "jsAdd B (JNum 0) JUndefined = Returned JNaN"
    by (simp add: jsAdd_def)
  have e: "sumEntryScores B [entryWithoutPercent, scoreEntry (JNum 80) ''success'' (JBool False)]
      (JNum 0, 0) = Returned (JNaN, 2)"
    by (simp add: entryWithoutPercent_fields scoreEntry_fields u jsAdd_numbers)
  have s: "sumAreaScores B [undeclaredArea] (JNum 0, 0) = Returned (JNaN, 1)"
    by (simp add: undeclaredArea_fields e jsDivCount_number jsAdd_numbers
          del: sumEntryScores.simps)
  show ?thesis
    by (simp add: calculateScores_def n assms s jsDivCount_number del: sumAreaScores.simps)
qed

text \<open>
  C7. The check does not recompute with the Aggregator's algorithm, and it does not
  run whenever \<open>scorePercent\<close> is present. A record that stores 0 over areas for which
  the Aggregator emits 71 draws no warning: \<open>data.scorePercent &&\<close> skips a stored 0.
  A record that stores 80, the very percent the Aggregator emits for it, over an area
  scoring 0 and an area scoring 80 draws the warning: \<open>calculateScores\<close> counts the
  area scoring 0, which the Aggregator leaves out, and recomputes 40. A record that
  stores 10 where the Aggregator emits 80 draws no warning: \<open>calculateScores\<close> adds the
  \<open>undefined\<close> percent of an entry without \<open>scorePercent\<close>, which the Aggregator leaves
  out, and recomputes \<open>NaN\<close>.
\<close>

theorem validateCalculatedScores_against_aggregator:
  "processEntityFile sampleBuiltins (storedRecord 0 [sampleArea, secondArea]) =
     Returned (JObj
       [(''entityRef'', JObj [(''kind'', JStr ''component''), (''name'', JStr ''billing'')]),
        (''generatedDateTimeUtc'', JStr ''2024-05-01T10:00:00Z''),
        (''scorePercent'', JNum 71),
        (''scoreLabel'', JStr ''Green''),
        (''scoreSuccess'', JStr ''almost-success''),
        (''areaScores'',
           JArr [JObj [(''id'', JNum 7), (''title'', JStr ''Operations''),
                       (''scorePercent'', JNum 60), (''scoreLabel'', JStr ''Yellow''),
                       (''scoreSuccess'', JStr ''partial'')],
                 JObj [(''id'', JNum 8), (''title'', JStr ''Documentation''),
                       (''scorePercent'', JNum 83), (''scoreLabel'', JStr ''Green''),
                       (''scoreSuccess'', JStr ''success'')]])]) \<and>
   calculateScores sampleBuiltins (storedRecord 0 [sampleArea, secondArea]) =
     Returned (JObj [(''overall'', JNum (285 / 4))]) \<and>
   validateCalculatedScores sampleBuiltins (storedRecord 0 [sampleArea, secondArea]) newValidator =
     (Returned (), newValidator) \<and>
   processEntityFile sampleBuiltins (storedRecord 80 [zeroArea, eightyArea]) =
     Returned (JObj
       [(''entityRef'', JObj [(''kind'', JStr ''component''), (''name'', JStr ''billing'')]),
        (''generatedDateTimeUtc'', JStr ''2024-05-01T10:00:00Z''),
        (''scorePercent'', JNum 80),
        (''scoreLabel'', JStr ''Green''),
        (''scoreSuccess'', JStr ''success''),
        (''areaScores'',
           JArr [JObj [(''id'', JNum 1), (''title'', JStr ''Security''),
                       (''scorePercent'', JNum 0), (''scoreLabel'', JStr ''Red''),
                       (''scoreSuccess'', JStr ''failure'')],
                 JObj [(''id'', JNum 2), (''title'', JStr ''Operations''),
                       (''scorePercent'', JNum 80), (''scoreLabel'', JStr ''Green''),
                       (''scoreSuccess'', JStr ''success'')]])]) \<and>
   calculateScores sampleBuiltins (storedRecord 80 [zeroArea, eightyArea]) =
     Returned (JObj [(''overall'', JNum 40)]) \<and>
   validateCalculatedScores sampleBuiltins (storedRecord 80 [zeroArea, eightyArea]) newValidator =
     (Returned (), \<lparr>errors = [], warnings = [OverallDiffers ''n'' (JNum 40)]\<rparr>) \<and>
   processEntityFile sampleBuiltins (storedRecord 10 [undeclaredArea]) =
     Returned (JObj
       [(''entityRef'', JObj [(''kind'', JStr ''component''), (''name'', JStr ''billing'')]),
        (''generatedDateTimeUtc'', JStr ''2024-05-01T10:00:00Z''),
        (''scorePercent'', JNum 80),
        (''scoreLabel'', JStr ''Green''),
        (''scoreSuccess'', JStr ''success''),
        (''areaScores'',
           JArr [JObj [(''id'', JNum 5), (''title'', JStr ''Runbooks''),
                       (''scorePercent'', JNum 80), (''scoreLabel'', JStr ''Green''),
                       (''scoreSuccess'', JStr ''success'')]])]) \<and>
   calculateScores sampleBuiltins (storedRecord 10 [undeclaredArea]) =
     Returned (JObj [(''overall'', JNaN)]) \<and>
   validateCalculatedScores sampleBuiltins (storedRecord 10 [undeclaredArea]) newValidator =
     (Returned (), newValidator)"
proof -
  note c1 = calculateScores_samples [OF storedRecord_fields(6), of sampleBuiltins 0]
  note c2 = calculateScores_mixed [OF storedRecord_fields(6), of sampleBuiltins 80]
  note c3 = calculateScores_undeclared [OF storedRecord_fields(6), of sampleBuiltins 10]
  have v1: "validateCalculatedScores sampleBuiltins (storedRecord 0 [sampleArea, secondArea])
      newValidator = (Returned (), newValidator)"
    unfolding validateCalculatedScores_def c1
    by (simp add: check_laws storedRecord_fields evaluate_def)
  have d: "jsSub sampleBuiltins (JNum 80) (JNum 40) = Returned (JNum 40)"
    "jsSub sampleBuiltins (JNum 10) JNaN = Returned JNaN"
    by (simp_all add: jsSub_def roundDouble_small)
  have v2: "validateCalculatedScores sampleBuiltins (storedRecord 80 [zeroArea, eightyArea])
      newValidator = (Returned (), \<lparr>errors = [], warnings = [OverallDiffers ''n'' (JNum 40)]\<rparr>)"
    unfolding validateCalculatedScores_def c2
    by (simp add: check_laws storedRecord_fields d sampleBuiltins_numberToString addWarning_def
          newValidator_def)
  have v3: "validateCalculatedScores sampleBuiltins (storedRecord 10 [undeclaredArea])
      newValidator = (Returned (), newValidator)"
    unfolding validateCalculatedScores_def c3
    by (simp add: check_laws storedRecord_fields d evaluate_def)
  show ?thesis
    by (intro conjI processEntityFile_stored c1 c2 c3 v1 v2 v3)
qed

end
